theory Spec2Isabelle
  imports Complex_Main "HOL-Library.Word"
begin

chapter \<open>The dbarts sampler: an embedding of bartFit.cpp, endNodeModel.cpp and R\_interface.cpp\<close>

text \<open>
  Conventions of the embedding.
  \<^item> A C \<^verbatim>\<open>double\<close> is a \<^typ>\<open>real\<close>: rounding, infinities and NaN are not modelled.
  \<^item> A \<^verbatim>\<open>size_t\<close> is a \<^typ>\<open>nat\<close>; where the source subtracts on \<^verbatim>\<open>size_t\<close> the
    wrap-around modulo \<open>2 ^ 64\<close> is written out. A \<^verbatim>\<open>uint32_t\<close> is a \<^typ>\<open>32 word\<close>.
  \<^item> A C array is a list; the read \<^verbatim>\<open>a[i]\<close> is \<open>a ! i\<close>. A matrix stored column by
    column is the list of its columns, so \<^verbatim>\<open>X + col * numObservations\<close> is \<open>X ! col\<close>;
    the per-tree fit vectors \<^verbatim>\<open>treeFits + i * numObservations\<close> are \<open>treeFits ! i\<close>.
  \<^item> A pointer that may be \<^verbatim>\<open>NULL\<close> is an \<^typ>\<open>'a option\<close>.
  \<^item> \<^verbatim>\<open>ext_throwError\<close> does not return: it is the \<open>Inl\<close> branch of a sum.
  \<^item> Code that is not in the source files at hand (the tree and node classes, the
    statistics and random number libraries, the response model, the user's callback) is
    taken as a parameter: records of functions named after the functions they stand for.
\<close>

section \<open>Vectors (external/linearAlgebra.h)\<close>

text \<open>
  The vector primitives are used by name in the source; their bodies are not part of it.
  Each one touches the first \<open>n\<close> entries of its target and leaves the rest.
\<close>

definition ext_setVectorToConstant :: "real list \<Rightarrow> nat \<Rightarrow> real \<Rightarrow> real list" where
  "ext_setVectorToConstant x n c = replicate n c @ drop n x"

definition ext_addVectorsInPlace :: "real list \<Rightarrow> nat \<Rightarrow> real \<Rightarrow> real list \<Rightarrow> real list" where
  "ext_addVectorsInPlace x n alpha y = map (\<lambda>i. y ! i + alpha * x ! i) [0..<n] @ drop n y"

definition ext_addVectors :: "real list \<Rightarrow> nat \<Rightarrow> real \<Rightarrow> real list \<Rightarrow> real list \<Rightarrow> real list" where
  "ext_addVectors x n alpha y z = map (\<lambda>i. y ! i + alpha * x ! i) [0..<n] @ drop n z"

definition ext_addScalarToVectorInPlace :: "real list \<Rightarrow> nat \<Rightarrow> real \<Rightarrow> real list" where
  "ext_addScalarToVectorInPlace x n c = map (\<lambda>i. x ! i + c) [0..<n] @ drop n x"

definition ext_scalarMultiplyVectorInPlace :: "real list \<Rightarrow> nat \<Rightarrow> real \<Rightarrow> real list" where
  "ext_scalarMultiplyVectorInPlace x n c = map (\<lambda>i. x ! i * c) [0..<n] @ drop n x"

definition ext_sumVectorElements :: "real list \<Rightarrow> nat \<Rightarrow> real" where
  "ext_sumVectorElements x n = sum_list (map (\<lambda>i. x ! i) [0..<n])"

text \<open>\<^verbatim>\<open>std::memcpy(dst, src, n * sizeof(double))\<close>.\<close>

definition memcpy :: "'a list \<Rightarrow> 'a list \<Rightarrow> nat \<Rightarrow> 'a list" where
  "memcpy dst src n = map (\<lambda>i. src ! i) [0..<n] @ drop n dst"

section \<open>The data model\<close>

text \<open>
  \<open>Data\<close>: the training and test inputs. The fields \<^verbatim>\<open>y\<close>, \<^verbatim>\<open>X\<close> and \<^verbatim>\<open>X_test\<close> are
  written \<open>data_y\<close>, \<open>data_X\<close> and \<open>data_X_test\<close>, so that one-letter variables stay free.
\<close>

datatype VariableType = ORDINAL | CATEGORICAL

record Data =
  data_y :: "real list"
  data_X :: "real list list"
  variableTypes :: "VariableType list"
  data_X_test :: "real list list option"
  weights :: "real list option"
  offset :: "real list option"
  testOffset :: "real list option"
  numObservations :: nat
  numPredictors :: nat
  numTestObservations :: nat
  sigmaEstimate :: real
  maxNumCuts :: "32 word list option"

record 'cb Control =
  responseIsBinary :: bool
  keepTrainingFits :: bool
  useQuantiles :: bool
  numTrees :: nat
  treeThinningRate :: "32 word"
  callbackData :: 'cb

text \<open>
  The response model is \<^verbatim>\<open>Response::NormalChiSquaredModel\<close>: \<^verbatim>\<open>CHEAT_SIGMA\<close> reads and
  writes its field \<open>sigma\<close>; \<open>getScale\<close> and \<open>setScale\<close> read and write the scale of the
  scaled-inverse-chi-squared prior, as \<^verbatim>\<open>ChiSquaredPrior\<close> of model.hpp does;
  \<open>HAS_SCALE_PARAMETER\<close> is that bit of its \<^verbatim>\<open>info\<close> word.
\<close>

record ResponseModel =
  sigma :: real
  priorScale :: real
  HAS_SCALE_PARAMETER :: bool

definition getScale :: "ResponseModel \<Rightarrow> real" where
  "getScale m = priorScale m"

definition setScale :: "ResponseModel \<Rightarrow> real \<Rightarrow> ResponseModel" where
  "setScale m s = m\<lparr>priorScale := s\<rparr>"

text \<open>\<^verbatim>\<open>EndNode::MeanNormalModel\<close>: the prior precision of a leaf mean.\<close>

record MeanNormalModel =
  precision :: real

record Model =
  responseModel :: ResponseModel
  endNodeModel :: MeanNormalModel

record DataScale =
  dataScale_min :: real
  dataScale_max :: real
  dataScale_range :: real

record Scratch =
  yRescaled :: "real list"
  Xt :: "real list list"
  Xt_test :: "real list list option"
  treeY :: "real list"
  dataScale :: DataScale
  numCutsPerVariable :: "32 word list"
  cutPoints :: "real list list"

record 'tree State =
  trees :: "'tree list"
  treeFits :: "real list list"
  totalFits :: "real list"
  totalTestFits :: "real list"

record ('tree, 'rng, 'cb) BARTFit =
  control :: "'cb Control"
  model :: Model
  data :: Data
  scratch :: Scratch
  state :: "'tree State"
  rng :: 'rng

section \<open>The Mean-Normal end-node model (endNodeModel.cpp)\<close>

record NodeScratch =
  mu :: real
  numEffectiveObservations :: real

text \<open>
  What the model reads of a \<^verbatim>\<open>Node\<close>: whether it is the top of its tree, the indices of
  its observations (\<open>getNumObservations\<close> is their number) and its scratch block.
\<close>

record Node =
  isTop :: bool
  getObservationIndices :: "nat list"
  getScratch :: NodeScratch

definition getNumObservations :: "Node \<Rightarrow> nat" where
  "getNumObservations node = length (getObservationIndices node)"

text \<open>
  The reductions of external/stats\_mt.h, as parameters. The weighted means return the
  mean and, through their last pointer argument, the sum of the weights.
\<close>

record ext_stats =
  ext_mt_computeMean :: "real list \<Rightarrow> nat \<Rightarrow> real"
  ext_mt_computeIndexedMean :: "real list \<Rightarrow> nat list \<Rightarrow> nat \<Rightarrow> real"
  ext_mt_computeWeightedMean :: "real list \<Rightarrow> nat \<Rightarrow> real list \<Rightarrow> real \<times> real"
  ext_mt_computeIndexedWeightedMean :: "real list \<Rightarrow> nat list \<Rightarrow> nat \<Rightarrow> real list \<Rightarrow> real \<times> real"
  ext_mt_computeVarianceForKnownMean :: "real list \<Rightarrow> nat \<Rightarrow> real \<Rightarrow> real"
  ext_mt_computeIndexedVarianceForKnownMean :: "real list \<Rightarrow> nat list \<Rightarrow> nat \<Rightarrow> real \<Rightarrow> real"
  ext_mt_computeWeightedVarianceForKnownMean :: "real list \<Rightarrow> nat \<Rightarrow> real list \<Rightarrow> real \<Rightarrow> real"
  ext_mt_computeIndexedWeightedVarianceForKnownMean ::
    "real list \<Rightarrow> nat list \<Rightarrow> nat \<Rightarrow> real list \<Rightarrow> real \<Rightarrow> real"

definition computeVarianceForNode ::
  "ext_stats \<Rightarrow> ('tree, 'rng, 'cb) BARTFit \<Rightarrow> Node \<Rightarrow> real list \<Rightarrow> real \<Rightarrow> real" where
  "computeVarianceForNode st fit node y average =
     (let numObs = getNumObservations node in
      case weights (data fit) of
        None \<Rightarrow>
          if isTop node then ext_mt_computeVarianceForKnownMean st y numObs average
          else ext_mt_computeIndexedVarianceForKnownMean st y (getObservationIndices node) numObs average
      | Some w \<Rightarrow>
          if isTop node then ext_mt_computeWeightedVarianceForKnownMean st y numObs w average
          else ext_mt_computeIndexedWeightedVarianceForKnownMean st y
                 (getObservationIndices node) numObs w average)"

definition logPrior :: "('tree, 'rng, 'cb) BARTFit \<Rightarrow> Node \<Rightarrow> real" where
  "logPrior fit node =
     - 0.5 * mu (getScratch node) * mu (getScratch node) * precision (endNodeModel (model fit))"

definition logIntegratedLikelihood ::
  "ext_stats \<Rightarrow> ('tree, 'rng, 'cb) BARTFit \<Rightarrow> Node \<Rightarrow> real list \<Rightarrow> real \<Rightarrow> real" where
  "logIntegratedLikelihood st fit node y residualVariance =
     (let numObservationsInNode = getNumObservations node in
      if numObservationsInNode = 0 then 0
      else
        let prec = precision (endNodeModel (model fit));
            y_bar = mu (getScratch node);
            var_y = computeVarianceForNode st fit node y y_bar;
            dataPrecision = numEffectiveObservations (getScratch node) / residualVariance;
            result1 = 0.5 * ln (prec / (prec + dataPrecision));
            result2 = result1 - 0.5 * (var_y / residualVariance) * real (numObservationsInNode - 1);
            result3 = result2 - 0.5 * ((prec * y_bar) * (dataPrecision * y_bar)) / (prec + dataPrecision)
        in result3)"

definition prepareScratchForLikelihoodAndPosteriorCalculations ::
  "ext_stats \<Rightarrow> ('tree, 'rng, 'cb) BARTFit \<Rightarrow> Node \<Rightarrow> real list \<Rightarrow> Node" where
  "prepareScratchForLikelihoodAndPosteriorCalculations st fit node y =
     (let numObs = getNumObservations node in
      case weights (data fit) of
        None \<Rightarrow>
          if isTop node
          then node\<lparr>getScratch := \<lparr>mu = ext_mt_computeMean st y numObs,
                                    numEffectiveObservations = real numObs\<rparr>\<rparr>
          else node\<lparr>getScratch := \<lparr>mu = ext_mt_computeIndexedMean st y (getObservationIndices node) numObs,
                                    numEffectiveObservations = real numObs\<rparr>\<rparr>
      | Some w \<Rightarrow>
          if isTop node
          then (case ext_mt_computeWeightedMean st y numObs w of
                  (m, n) \<Rightarrow> node\<lparr>getScratch := \<lparr>mu = m, numEffectiveObservations = n\<rparr>\<rparr>)
          else (case ext_mt_computeIndexedWeightedMean st y (getObservationIndices node) numObs w of
                  (m, n) \<Rightarrow> node\<lparr>getScratch := \<lparr>mu = m, numEffectiveObservations = n\<rparr>\<rparr>))"

text \<open>
  \<open>updateScratchWithMemberships\<close>: the effective number of observations of a leaf is the
  number of its observations, or with weights the sum of their weights.
\<close>

definition updateScratchWithMemberships :: "('tree, 'rng, 'cb) BARTFit \<Rightarrow> Node \<Rightarrow> Node" where
  "updateScratchWithMemberships fit node =
     (case weights (data fit) of
        None \<Rightarrow> node\<lparr>getScratch := (getScratch node)
                  \<lparr>numEffectiveObservations := real (getNumObservations node)\<rparr>\<rparr>
      | Some w \<Rightarrow>
          if isTop node
          then node\<lparr>getScratch := (getScratch node)
                  \<lparr>numEffectiveObservations := ext_sumVectorElements w (numObservations (data fit))\<rparr>\<rparr>
          else node\<lparr>getScratch := (getScratch node)
                  \<lparr>numEffectiveObservations :=
                     foldl (\<lambda>acc i. acc + w ! i) 0 (getObservationIndices node)\<rparr>\<rparr>)"

text \<open>
  The integrated log-likelihood of a leaf in the words of the specification, with the
  effective number of observations in the variance term.
\<close>

definition specLogIntegratedLikelihood :: "real \<Rightarrow> real \<Rightarrow> real \<Rightarrow> real \<Rightarrow> real \<Rightarrow> real" where
  "specLogIntegratedLikelihood tau sigma_sq n_eff y_bar var_y =
     1 / 2 * ln (tau / (tau + n_eff / sigma_sq))
     - 1 / 2 * (n_eff - 1) * var_y / sigma_sq
     - 1 / 2 * (tau * n_eff * y_bar\<^sup>2) / (sigma_sq * (tau + n_eff / sigma_sq))"

section \<open>Data preparation (bartFit.cpp)\<close>

text \<open>
  How a call can fail to return a value: \<^verbatim>\<open>ext_throwError\<close> with its message, a read
  outside an array, or the use of a null pointer.
\<close>

datatype error = ThrowError string | OutOfBounds | NullPointer

text \<open>Subtraction on \<^verbatim>\<open>size_t\<close> wraps around.\<close>

definition size_t_minus :: "nat \<Rightarrow> nat \<Rightarrow> nat" where
  "size_t_minus a b = (a + 2 ^ 64 - b) mod 2 ^ 64"

text \<open>
  \<open>setCutPointsFromQuantiles\<close>. The references \<^verbatim>\<open>numCutsPerVariable\<close> and \<^verbatim>\<open>cutPoints\<close>
  are passed in and returned. \<^verbatim>\<open>std::set<double>\<close> sorts its elements and keeps one of
  each. The array \<^verbatim>\<open>new double[numCuts]\<close> is shown filled with zeros. The loop reads
  \<^verbatim>\<open>sortedElements[index + 1]\<close>, which is outside the vector exactly when the loop runs
  and there are fewer than two distinct values.
\<close>

definition setCutPointsFromQuantiles ::
  "('tree, 'rng, 'cb) BARTFit \<Rightarrow> real list \<Rightarrow> 32 word \<Rightarrow> 32 word \<Rightarrow> real list
     \<Rightarrow> error + (32 word \<times> real list)" where
  "setCutPointsFromQuantiles fit x maxNumCuts' numCutsPerVariable' cutPoints' =
     (let uniqueElements = sort (remdups (map (\<lambda>i. x ! i) [0..<numObservations (data fit)]));
          numUniqueElements = length uniqueElements;
          numCuts = (if numUniqueElements \<le> unat (maxNumCuts' + 1)
                     then size_t_minus numUniqueElements 1 else unat maxNumCuts');
          step = (if numUniqueElements \<le> unat (maxNumCuts' + 1)
                  then 1 else numCuts div numUniqueElements);
          offset' = (if numUniqueElements \<le> unat (maxNumCuts' + 1) then 0 else step div 2)
      in
      if numCutsPerVariable' \<noteq> - 1 \<and> numCuts < unat numCutsPerVariable'
      then Inl (ThrowError
        ''Number of induced cut points in new predictor less than previous: old splits would be invalid.'')
      else
        let numCutsPerVariable'' =
              (if numCutsPerVariable' \<noteq> - 1 then numCutsPerVariable' else word_of_nat numCuts);
            cutPoints'' = (if numCutsPerVariable' \<noteq> - 1 then cutPoints' else replicate numCuts 0);
            sortedElements = uniqueElements
        in
        if 0 < unat numCutsPerVariable'' \<and> numUniqueElements < 2 then Inl OutOfBounds
        else Inr (numCutsPerVariable'',
                  map (\<lambda>i. let index = min (i * step + offset') (size_t_minus numUniqueElements 2)
                           in 0.5 * (sortedElements ! index + sortedElements ! (index + 1)))
                      [0..<unat numCutsPerVariable'']
                  @ drop (unat numCutsPerVariable'') cutPoints''))"

text \<open>\<open>setCutPointsUniformly\<close>. It reads \<^verbatim>\<open>x[0]\<close> first, whatever the number of observations.\<close>

definition setCutPointsUniformly ::
  "('tree, 'rng, 'cb) BARTFit \<Rightarrow> real list \<Rightarrow> 32 word \<Rightarrow> 32 word \<Rightarrow> real list
     \<Rightarrow> error + (32 word \<times> real list)" where
  "setCutPointsUniformly fit x maxNumCuts' numCutsPerVariable' cutPoints' =
     (if numObservations (data fit) = 0 then Inl OutOfBounds
      else
        let xMax = fold (\<lambda>i m. if x ! i > m then x ! i else m) [1..<numObservations (data fit)] (x ! 0);
            xMin = fold (\<lambda>i m. if x ! i < m then x ! i else m) [1..<numObservations (data fit)] (x ! 0);
            numCutsPerVariable'' =
              (if numCutsPerVariable' = - 1 then maxNumCuts' else numCutsPerVariable');
            cutPoints'' =
              (if numCutsPerVariable' = - 1 then replicate (unat maxNumCuts') 0 else cutPoints');
            xIncrement = (xMax - xMin) / real (unat (numCutsPerVariable'' + 1))
        in Inr (numCutsPerVariable'',
                map (\<lambda>i. xMin + real (i + 1) * xIncrement) [0..<unat numCutsPerVariable'']
                @ drop (unat numCutsPerVariable'') cutPoints''))"

text \<open>
  \<open>setCutPoints\<close>: the loop over the columns to set, in either mode. Each column is read
  from \<^verbatim>\<open>data.X\<close> as the fit holds it when \<open>setCutPoints\<close> is called.
\<close>

definition storeCutPoints ::
  "('tree, 'rng, 'cb) BARTFit \<Rightarrow> nat \<Rightarrow> 32 word \<times> real list \<Rightarrow> ('tree, 'rng, 'cb) BARTFit" where
  "storeCutPoints fit col r =
     fit\<lparr>scratch := (scratch fit)
           \<lparr>numCutsPerVariable := (numCutsPerVariable (scratch fit))[col := fst r],
            cutPoints := (cutPoints (scratch fit))[col := snd r]\<rparr>\<rparr>"

fun setCutPoints_loop ::
  "bool \<Rightarrow> 32 word list \<Rightarrow> ('tree, 'rng, 'cb) BARTFit \<Rightarrow> nat list
     \<Rightarrow> error + ('tree, 'rng, 'cb) BARTFit" where
  "setCutPoints_loop quantiles mnc fit [] = Inr fit"
| "setCutPoints_loop quantiles mnc fit (col # columns) =
     (case (if quantiles
            then setCutPointsFromQuantiles fit (data_X (data fit) ! col) (mnc ! col)
                   (numCutsPerVariable (scratch fit) ! col) (cutPoints (scratch fit) ! col)
            else setCutPointsUniformly fit (data_X (data fit) ! col) (mnc ! col)
                   (numCutsPerVariable (scratch fit) ! col) (cutPoints (scratch fit) ! col)) of
        Inl e \<Rightarrow> Inl e
      | Inr r \<Rightarrow> setCutPoints_loop quantiles mnc (storeCutPoints fit col r) columns)"

definition setCutPoints ::
  "('tree, 'rng, 'cb) BARTFit \<Rightarrow> nat list \<Rightarrow> error + ('tree, 'rng, 'cb) BARTFit" where
  "setCutPoints fit columns =
     (case maxNumCuts (data fit) of
        None \<Rightarrow>
          if useQuantiles (control fit)
          then Inl (ThrowError ''Num cuts cannot be NULL if useQuantiles is true.'')
          else if columns = [] then Inr fit else Inl NullPointer
      | Some mnc \<Rightarrow> setCutPoints_loop (useQuantiles (control fit)) mnc fit columns)"

definition setInitialCutPoints ::
  "('tree, 'rng, 'cb) BARTFit \<Rightarrow> error + ('tree, 'rng, 'cb) BARTFit" where
  "setInitialCutPoints fit =
     setCutPoints
       (fit\<lparr>scratch := (scratch fit)
             \<lparr>numCutsPerVariable := replicate (numPredictors (data fit)) (- 1),
              cutPoints := replicate (numPredictors (data fit)) []\<rparr>\<rparr>)
       [0..<numPredictors (data fit)]"

text \<open>
  \<open>rescaleResponse\<close>: \<open>y - offset\<close> is scaled into \<open>[-0.5, 0.5]\<close>. It reads
  \<^verbatim>\<open>yRescaled[0]\<close> first, whatever the number of observations.
\<close>

definition rescaleResponse ::
  "('tree, 'rng, 'cb) BARTFit \<Rightarrow> error + ('tree, 'rng, 'cb) BARTFit" where
  "rescaleResponse fit =
     (let n = numObservations (data fit);
          yR0 = (case offset (data fit) of
                   Some off \<Rightarrow> ext_addVectors off n (- 1) (data_y (data fit)) (yRescaled (scratch fit))
                 | None \<Rightarrow> memcpy (yRescaled (scratch fit)) (data_y (data fit)) n)
      in
      if n = 0 then Inl OutOfBounds
      else
        let smin = fold (\<lambda>i m. if yR0 ! i < m then yR0 ! i else m) [1..<n] (yR0 ! 0);
            smax = fold (\<lambda>i m. if yR0 ! i > m then yR0 ! i else m) [1..<n] (yR0 ! 0);
            srange = smax - smin;
            yR1 = ext_addScalarToVectorInPlace yR0 n (- smin);
            yR2 = ext_scalarMultiplyVectorInPlace yR1 n (1 / srange);
            yR3 = ext_addScalarToVectorInPlace yR2 n (- 0.5)
        in Inr (fit\<lparr>scratch := (scratch fit)
                  \<lparr>yRescaled := yR3,
                   dataScale := \<lparr>dataScale_min = smin, dataScale_max = smax,
                                  dataScale_range = srange\<rparr>\<rparr>\<rparr>))"

text \<open>
  The truncated normal draws of external/random.h, as parameters: each takes the state of
  the generator, the mean and the bound, and returns the draw and the next state.
\<close>

record 'rng ext_random =
  ext_rng_simulateLowerTruncatedNormalScale1 :: "'rng \<Rightarrow> real \<Rightarrow> real \<Rightarrow> real \<times> 'rng"
  ext_rng_simulateUpperTruncatedNormalScale1 :: "'rng \<Rightarrow> real \<Rightarrow> real \<Rightarrow> real \<times> 'rng"

text \<open>
  \<open>sampleProbitLatentVariables\<close>, as built without \<^verbatim>\<open>MATCH_BAYES_TREE\<close>: one pass of the
  loop, and the loop. The latent vector \<open>z\<close> and the generator are passed in and returned.
\<close>

definition sampleProbitLatentVariable ::
  "'rng ext_random \<Rightarrow> ('tree, 'rng, 'cb) BARTFit \<Rightarrow> real list \<Rightarrow> nat
     \<Rightarrow> real list \<times> 'rng \<Rightarrow> real list \<times> 'rng" where
  "sampleProbitLatentVariable rn fit fits i zr =
     (let mean = fits ! i;
          offset' = (case offset (data fit) of None \<Rightarrow> 0 | Some off \<Rightarrow> off ! i);
          draw = (if data_y (data fit) ! i > 0
                  then ext_rng_simulateLowerTruncatedNormalScale1 rn (snd zr) mean (- offset')
                  else ext_rng_simulateUpperTruncatedNormalScale1 rn (snd zr) mean (- offset'))
      in ((fst zr)[i := fst draw], snd draw))"

definition sampleProbitLatentVariables ::
  "'rng ext_random \<Rightarrow> ('tree, 'rng, 'cb) BARTFit \<Rightarrow> real list \<Rightarrow> real list \<Rightarrow> real list \<times> 'rng" where
  "sampleProbitLatentVariables rn fit fits z =
     fold (sampleProbitLatentVariable rn fit fits) [0..<numObservations (data fit)] (z, rng fit)"

definition resampleLatents ::
  "'rng ext_random \<Rightarrow> ('tree, 'rng, 'cb) BARTFit \<Rightarrow> ('tree, 'rng, 'cb) BARTFit" where
  "resampleLatents rn fit =
     (let zr = sampleProbitLatentVariables rn fit (totalFits (state fit)) (yRescaled (scratch fit))
      in fit\<lparr>scratch := (scratch fit)\<lparr>yRescaled := fst zr\<rparr>, rng := snd zr\<rparr>)"

text \<open>
  \<open>setResponse\<close> and \<open>setOffset\<close>. \<^verbatim>\<open>priorUnscaled\<close> is set and used only when the
  response model has a scale parameter. \<open>rescaleSigmaAndPrior\<close> is the pair of
  assignments that follows the call of \<open>rescaleResponse\<close> in both.
\<close>

definition rescaleSigmaAndPrior ::
  "real \<Rightarrow> real \<Rightarrow> ('tree, 'rng, 'cb) BARTFit \<Rightarrow> ('tree, 'rng, 'cb) BARTFit" where
  "rescaleSigmaAndPrior sigmaUnscaled priorUnscaled fit =
     (let r = dataScale_range (dataScale (scratch fit));
          m1 = (responseModel (model fit))\<lparr>sigma := sigmaUnscaled / r\<rparr>;
          m2 = (if HAS_SCALE_PARAMETER m1 then setScale m1 (priorUnscaled / (r * r)) else m1)
      in fit\<lparr>model := (model fit)\<lparr>responseModel := m2\<rparr>\<rparr>)"

definition setResponse ::
  "'rng ext_random \<Rightarrow> ('tree, 'rng, 'cb) BARTFit \<Rightarrow> real list
     \<Rightarrow> error + ('tree, 'rng, 'cb) BARTFit" where
  "setResponse rn fit newY =
     (if \<not> responseIsBinary (control fit) then
        let sigmaUnscaled = sigma (responseModel (model fit)) * dataScale_range (dataScale (scratch fit));
            priorUnscaled = getScale (responseModel (model fit))
              * dataScale_range (dataScale (scratch fit)) * dataScale_range (dataScale (scratch fit))
        in case rescaleResponse (fit\<lparr>data := (data fit)\<lparr>data_y := newY\<rparr>\<rparr>) of
             Inl e \<Rightarrow> Inl e
           | Inr fit' \<Rightarrow> Inr (rescaleSigmaAndPrior sigmaUnscaled priorUnscaled fit')
      else Inr (resampleLatents rn (fit\<lparr>data := (data fit)\<lparr>data_y := newY\<rparr>\<rparr>)))"

definition setOffset ::
  "'rng ext_random \<Rightarrow> ('tree, 'rng, 'cb) BARTFit \<Rightarrow> real list option
     \<Rightarrow> error + ('tree, 'rng, 'cb) BARTFit" where
  "setOffset rn fit newOffset =
     (if \<not> responseIsBinary (control fit) then
        let sigmaUnscaled = sigma (responseModel (model fit)) * dataScale_range (dataScale (scratch fit));
            priorUnscaled = getScale (responseModel (model fit))
              * dataScale_range (dataScale (scratch fit)) * dataScale_range (dataScale (scratch fit))
        in case rescaleResponse (fit\<lparr>data := (data fit)\<lparr>offset := newOffset\<rparr>\<rparr>) of
             Inl e \<Rightarrow> Inl e
           | Inr fit' \<Rightarrow> Inr (rescaleSigmaAndPrior sigmaUnscaled priorUnscaled fit')
      else Inr (resampleLatents rn (fit\<lparr>data := (data fit)\<lparr>offset := newOffset\<rparr>\<rparr>)))"

section \<open>The sampler state and the code outside the source files\<close>

text \<open>
  The methods of \<^verbatim>\<open>Tree\<close> that bartFit.cpp calls, the posterior draw of the response
  model and the user's callback. A method that draws random numbers returns the next
  state of the generator. \<^verbatim>\<open>Tree::getFits\<close> fills the buffers it is given: one
  function for the training buffer, one for the test buffer.
\<close>

record ('tree, 'rng, 'cb) ext_tree =
  updateWithNewCovariates :: "('tree, 'rng, 'cb) BARTFit \<Rightarrow> real \<Rightarrow> 'tree \<Rightarrow> 'tree"
  isValid :: "'tree \<Rightarrow> bool"
  prepareForMetropolisStep :: "('tree, 'rng, 'cb) BARTFit \<Rightarrow> real list \<Rightarrow> real \<Rightarrow> 'tree \<Rightarrow> 'tree"
  drawFromTreeStructurePosterior ::
    "('tree, 'rng, 'cb) BARTFit \<Rightarrow> real list \<Rightarrow> real \<Rightarrow> 'tree \<Rightarrow> 'tree \<times> 'rng"
  drawFromEndNodePosteriors ::
    "('tree, 'rng, 'cb) BARTFit \<Rightarrow> real list \<Rightarrow> real \<Rightarrow> 'tree \<Rightarrow> 'tree \<times> 'rng"
  getFits_training :: "('tree, 'rng, 'cb) BARTFit \<Rightarrow> 'tree \<Rightarrow> real list \<Rightarrow> real list"
  getFits_test :: "('tree, 'rng, 'cb) BARTFit \<Rightarrow> 'tree \<Rightarrow> real list \<Rightarrow> real list"
  tree_countVariableUses :: "'tree \<Rightarrow> 32 word list \<Rightarrow> 32 word list"
  drawFromPosterior ::
    "('tree, 'rng, 'cb) BARTFit \<Rightarrow> real list \<Rightarrow> real list \<Rightarrow> ResponseModel \<times> 'rng"
  callback ::
    "('cb \<Rightarrow> ('tree, 'rng, 'cb) BARTFit \<Rightarrow> bool \<Rightarrow> real list \<Rightarrow> real list \<Rightarrow> real \<Rightarrow> 'cb) option"

definition setTree ::
  "('tree, 'rng, 'cb) BARTFit \<Rightarrow> nat \<Rightarrow> 'tree \<Rightarrow> ('tree, 'rng, 'cb) BARTFit" where
  "setTree fit i t = fit\<lparr>state := (state fit)\<lparr>trees := (trees (state fit))[i := t]\<rparr>\<rparr>"

section \<open>Fit bookkeeping (bartFit.cpp)\<close>

definition setInitialFit ::
  "('tree, 'rng, 'cb) ext_tree \<Rightarrow> ('tree, 'rng, 'cb) BARTFit \<Rightarrow> ('tree, 'rng, 'cb) BARTFit" where
  "setInitialFit e fit =
     (let n = numObservations (data fit);
          fit1 = fit\<lparr>state := (state fit)
                   \<lparr>treeFits := replicate (numTrees (control fit)) (replicate n 0),
                    totalFits := replicate n 0,
                    totalTestFits := (if numTestObservations (data fit) > 0
                                      then replicate (numTestObservations (data fit)) 0
                                      else totalTestFits (state fit))\<rparr>\<rparr>;
          sigma_sq = sigma (responseModel (model fit1))
      in fold (\<lambda>i f. setTree f i (updateWithNewCovariates e f sigma_sq (trees (state f) ! i)))
           [0..<numTrees (control fit1)] fit1)"

definition calculateResidualsFromOtherTreeFits ::
  "real list \<Rightarrow> real list \<Rightarrow> real list \<Rightarrow> nat \<Rightarrow> real list \<Rightarrow> real list" where
  "calculateResidualsFromOtherTreeFits y totalFits' oldTreeFits n r =
     ext_addVectorsInPlace oldTreeFits n 1 (ext_addVectorsInPlace totalFits' n (- 1) (memcpy r y n))"

definition updateTotalFits :: "real list \<Rightarrow> real list \<Rightarrow> nat \<Rightarrow> real list \<Rightarrow> real list" where
  "updateTotalFits oldTreeFits currTreeFits n totalFits' =
     ext_addVectorsInPlace currTreeFits n 1 (ext_addVectorsInPlace oldTreeFits n (- 1) totalFits')"

text \<open>\<open>updateTrainingFits\<close>: one pass of its loop, and the loop.\<close>

definition updateTrainingFits_tree ::
  "('tree, 'rng, 'cb) ext_tree \<Rightarrow> nat \<Rightarrow> ('tree, 'rng, 'cb) BARTFit \<Rightarrow> ('tree, 'rng, 'cb) BARTFit" where
  "updateTrainingFits_tree e i fit =
     (let n = numObservations (data fit);
          fit1 = fit\<lparr>state := (state fit)
                   \<lparr>totalFits := ext_addVectorsInPlace (treeFits (state fit) ! i) n (- 1)
                                   (totalFits (state fit))\<rparr>\<rparr>;
          fit2 = fit1\<lparr>state := (state fit1)
                   \<lparr>treeFits := (treeFits (state fit1))
                      [i := getFits_training e fit1 (trees (state fit1) ! i) (treeFits (state fit1) ! i)]\<rparr>\<rparr>
      in fit2\<lparr>state := (state fit2)
               \<lparr>totalFits := ext_addVectorsInPlace (treeFits (state fit2) ! i) n 1
                               (totalFits (state fit2))\<rparr>\<rparr>)"

definition updateTrainingFits ::
  "('tree, 'rng, 'cb) ext_tree \<Rightarrow> ('tree, 'rng, 'cb) BARTFit \<Rightarrow> ('tree, 'rng, 'cb) BARTFit" where
  "updateTrainingFits e fit = fold (updateTrainingFits_tree e) [0..<numTrees (control fit)] fit"

definition countVariableUses ::
  "('tree, 'rng, 'cb) ext_tree \<Rightarrow> ('tree, 'rng, 'cb) BARTFit \<Rightarrow> 32 word list \<Rightarrow> 32 word list" where
  "countVariableUses e fit variableCounts =
     fold (\<lambda>i vc. tree_countVariableUses e (trees (state fit) ! i) vc) [0..<numTrees (control fit)]
       (replicate (numPredictors (data fit)) 0 @ drop (numPredictors (data fit)) variableCounts)"

section \<open>Results and the sampler (bartFit.cpp)\<close>

text \<open>
  \<open>Results\<close>: one entry per sample in each buffer, so \<^verbatim>\<open>trainingSamples + simNum * n\<close>
  is \<open>trainingSamples ! simNum\<close>. The constructor is not in the source files; the buffers
  it allocates are shown filled with zeros.
\<close>

record Results =
  sigmaSamples :: "real list"
  trainingSamples :: "real list list"
  testSamples :: "real list list"
  variableCountSamples :: "real list list"

definition newResults :: "nat \<Rightarrow> nat \<Rightarrow> nat \<Rightarrow> nat \<Rightarrow> Results" where
  "newResults numObs numPred numTestObs numSamples =
     \<lparr>sigmaSamples = replicate numSamples 0,
      trainingSamples = replicate numSamples (replicate numObs 0),
      testSamples = replicate numSamples (replicate numTestObs 0),
      variableCountSamples = replicate numSamples (replicate numPred 0)\<rparr>"

definition addOffset :: "real list option \<Rightarrow> nat \<Rightarrow> real list \<Rightarrow> real list" where
  "addOffset off n v = (case off of None \<Rightarrow> v | Some o' \<Rightarrow> ext_addVectorsInPlace o' n 1 v)"

definition storeSamples ::
  "('tree, 'rng, 'cb) BARTFit \<Rightarrow> Results \<Rightarrow> real list \<Rightarrow> real list \<Rightarrow> real \<Rightarrow> 32 word list \<Rightarrow> nat
     \<Rightarrow> Results" where
  "storeSamples fit results trainingSample testSample sigma' variableCounts simNum =
     (let n = numObservations (data fit);
          m = numTestObservations (data fit);
          sc = dataScale (scratch fit);
          shift = dataScale_range sc * 0.5 + dataScale_min sc;
          r1 = (if keepTrainingFits (control fit)
                then results\<lparr>trainingSamples := (trainingSamples results)
                  [simNum :=
                     addOffset (offset (data fit)) n
                       (if responseIsBinary (control fit)
                        then memcpy (trainingSamples results ! simNum) trainingSample n
                        else ext_addVectorsInPlace trainingSample n (dataScale_range sc)
                               (ext_setVectorToConstant (trainingSamples results ! simNum) n shift))]\<rparr>
                else results);
          r2 = (if m > 0
                then r1\<lparr>testSamples := (testSamples r1)
                  [simNum :=
                     addOffset (testOffset (data fit)) m
                       (if responseIsBinary (control fit)
                        then memcpy (testSamples r1 ! simNum) testSample m
                        else ext_addVectorsInPlace testSample m (dataScale_range sc)
                               (ext_setVectorToConstant (testSamples r1 ! simNum) m shift))]\<rparr>
                else r1);
          r3 = r2\<lparr>sigmaSamples := (sigmaSamples r2)
                  [simNum := (if responseIsBinary (control fit) then 1
                              else sigma' * dataScale_range sc)]\<rparr>
      in r3\<lparr>variableCountSamples := (variableCountSamples r3)
             [simNum := map (\<lambda>i. real (unat (variableCounts ! i))) [0..<numPredictors (data fit)]
                        @ drop (numPredictors (data fit)) (variableCountSamples r3 ! simNum)]\<rparr>)"

text \<open>
  The variables of \<open>runSampler\<close> that change in its loop. \<open>iterLog\<close> is a history
  variable, not a variable of the source: every pass of the loop adds its counter \<open>k\<close>
  and, when the pass calls \<open>storeSamples\<close>, the sample number it hands to it.
\<close>

record ('tree, 'rng, 'cb) SamplerVars =
  sv_fit :: "('tree, 'rng, 'cb) BARTFit"
  sv_results :: Results
  currFits :: "real list"
  currTestFits :: "real list option"
  sv_variableCounts :: "32 word list"
  iterLog :: "(32 word \<times> nat option) list"

text \<open>One pass of the loop over the trees.\<close>

definition treeIteration ::
  "('tree, 'rng, 'cb) ext_tree \<Rightarrow> bool \<Rightarrow> real \<Rightarrow> nat \<Rightarrow> ('tree, 'rng, 'cb) SamplerVars
     \<Rightarrow> ('tree, 'rng, 'cb) SamplerVars" where
  "treeIteration e isThinningIteration sigma_sq i s =
     (let fit = sv_fit s;
          n = numObservations (data fit);
          m = numTestObservations (data fit);
          oldTreeFits = treeFits (state fit) ! i;
          treeY' = calculateResidualsFromOtherTreeFits (yRescaled (scratch fit)) (totalFits (state fit))
                     oldTreeFits n (treeY (scratch fit));
          fit1 = fit\<lparr>scratch := (scratch fit)\<lparr>treeY := treeY'\<rparr>\<rparr>;
          fit2 = setTree fit1 i (prepareForMetropolisStep e fit1 treeY' sigma_sq (trees (state fit1) ! i));
          d3 = drawFromTreeStructurePosterior e fit2 treeY' sigma_sq (trees (state fit2) ! i);
          fit3 = (setTree fit2 i (fst d3))\<lparr>rng := snd d3\<rparr>;
          d4 = drawFromEndNodePosteriors e fit3 treeY' sigma_sq (trees (state fit3) ! i);
          fit4 = (setTree fit3 i (fst d4))\<lparr>rng := snd d4\<rparr>;
          currFits' = getFits_training e fit4 (trees (state fit4) ! i) (currFits s);
          currTestFits' = (if isThinningIteration then currTestFits s
                           else map_option (getFits_test e fit4 (trees (state fit4) ! i)) (currTestFits s));
          totalFits' = updateTotalFits oldTreeFits currFits' n (totalFits (state fit4));
          totalTestFits' = (if \<not> isThinningIteration \<and> m > 0
                            then (case currTestFits' of
                                    None \<Rightarrow> totalTestFits (state fit4)
                                  | Some c \<Rightarrow> ext_addVectorsInPlace c m 1 (totalTestFits (state fit4)))
                            else totalTestFits (state fit4));
          fit5 = fit4\<lparr>state := (state fit4)
                   \<lparr>totalFits := totalFits', totalTestFits := totalTestFits',
                    treeFits := (treeFits (state fit4))[i := memcpy oldTreeFits currFits' n]\<rparr>\<rparr>
      in s\<lparr>sv_fit := fit5, currFits := currFits', currTestFits := currTestFits'\<rparr>)"

text \<open>
  One pass of the loop over \<open>k\<close>, in three blocks: the sweep over the trees, the draw
  of the latent variables or of sigma, and the block under
  \<^verbatim>\<open>if (!isThinningIteration)\<close> that stores the sample and calls the callback.
\<close>

definition sweepTrees ::
  "('tree, 'rng, 'cb) ext_tree \<Rightarrow> bool \<Rightarrow> ('tree, 'rng, 'cb) SamplerVars
     \<Rightarrow> ('tree, 'rng, 'cb) SamplerVars" where
  "sweepTrees e isThinningIteration s =
     (let m = numTestObservations (data (sv_fit s));
          fit0 = (if \<not> isThinningIteration \<and> m > 0
                  then (sv_fit s)\<lparr>state := (state (sv_fit s))
                         \<lparr>totalTestFits := ext_setVectorToConstant (totalTestFits (state (sv_fit s))) m 0\<rparr>\<rparr>
                  else sv_fit s);
          sigma_sq = sigma (responseModel (model fit0)) * sigma (responseModel (model fit0))
      in fold (treeIteration e isThinningIteration sigma_sq) [0..<numTrees (control fit0)]
           (s\<lparr>sv_fit := fit0\<rparr>))"

definition drawResponse ::
  "('tree, 'rng, 'cb) ext_tree \<Rightarrow> 'rng ext_random \<Rightarrow> ('tree, 'rng, 'cb) BARTFit
     \<Rightarrow> ('tree, 'rng, 'cb) BARTFit" where
  "drawResponse e rn fit =
     (if responseIsBinary (control fit) then resampleLatents rn fit
      else (let d = drawFromPosterior e fit (yRescaled (scratch fit)) (totalFits (state fit))
            in fit\<lparr>model := (model fit)\<lparr>responseModel := fst d\<rparr>, rng := snd d\<rparr>))"

definition storeIteration ::
  "('tree, 'rng, 'cb) ext_tree \<Rightarrow> nat \<Rightarrow> 32 word \<Rightarrow> 32 word \<Rightarrow> ('tree, 'rng, 'cb) SamplerVars
     \<Rightarrow> ('tree, 'rng, 'cb) SamplerVars" where
  "storeIteration e numBurnIn majorIterationNum k s =
     (let fit = sv_fit s;
          isBurningIn = unat majorIterationNum < numBurnIn;
          simNum = (if \<not> isBurningIn then unat majorIterationNum - numBurnIn else 0);
          vc = countVariableUses e fit (sv_variableCounts s);
          res = storeSamples fit (sv_results s) (totalFits (state fit)) (totalTestFits (state fit))
                  (sigma (responseModel (model fit))) vc simNum;
          fit' = (case callback e of
                    None \<Rightarrow> fit
                  | Some cb \<Rightarrow>
                      fit\<lparr>control := (control fit)
                        \<lparr>callbackData := cb (callbackData (control fit)) fit isBurningIn
                           (trainingSamples res ! simNum) (testSamples res ! simNum)
                           (sigmaSamples res ! simNum)\<rparr>\<rparr>)
      in s\<lparr>sv_fit := fit', sv_results := res, sv_variableCounts := vc,
            iterLog := iterLog s @ [(k, Some simNum)]\<rparr>)"

definition iteration ::
  "('tree, 'rng, 'cb) ext_tree \<Rightarrow> 'rng ext_random \<Rightarrow> nat \<Rightarrow> 32 word \<Rightarrow> ('tree, 'rng, 'cb) SamplerVars
     \<Rightarrow> ('tree, 'rng, 'cb) SamplerVars" where
  "iteration e rn numBurnIn k s =
     (let thin = treeThinningRate (control (sv_fit s));
          isThinningIteration = ((k + 1) mod thin \<noteq> 0);
          majorIterationNum = k div thin;
          s1 = sweepTrees e isThinningIteration s;
          s2 = s1\<lparr>sv_fit := drawResponse e rn (sv_fit s1)\<rparr>
      in if \<not> isThinningIteration then storeIteration e numBurnIn majorIterationNum k s2
         else s2\<lparr>iterLog := iterLog s2 @ [(k, None)]\<rparr>)"

text \<open>
  The loop \<^verbatim>\<open>for (uint32_t k = 0; k < totalNumIterations; ++k)\<close>: the counter has 32
  bits and the bound is a \<^verbatim>\<open>size_t\<close>.
\<close>

partial_function (option) runSampler_loop ::
  "('tree, 'rng, 'cb) ext_tree \<Rightarrow> 'rng ext_random \<Rightarrow> nat \<Rightarrow> nat \<Rightarrow> 32 word
     \<Rightarrow> ('tree, 'rng, 'cb) SamplerVars \<Rightarrow> ('tree, 'rng, 'cb) SamplerVars option" where
  "runSampler_loop e rn numBurnIn totalNumIterations k s =
     (if unat k < totalNumIterations
      then runSampler_loop e rn numBurnIn totalNumIterations (k + 1) (iteration e rn numBurnIn k s)
      else Some s)"

text \<open>
  \<open>runSampler\<close> returns the pointer to the results (\<open>None\<close> is \<^verbatim>\<open>NULL\<close>) and the
  variables as the loop left them; it is \<open>None\<close> when the loop does not end. The
  timer and the printed messages are left out.
\<close>

definition runSampler ::
  "('tree, 'rng, 'cb) ext_tree \<Rightarrow> 'rng ext_random \<Rightarrow> ('tree, 'rng, 'cb) BARTFit \<Rightarrow> nat \<Rightarrow> nat
     \<Rightarrow> (Results option \<times> ('tree, 'rng, 'cb) SamplerVars) option" where
  "runSampler e rn fit numBurnIn numSamples =
     (let n = numObservations (data fit);
          m = numTestObservations (data fit);
          s0 = \<lparr>sv_fit = fit,
                sv_results = newResults n (numPredictors (data fit)) m
                               (if numSamples = 0 then 1 else numSamples),
                currFits = replicate n 0,
                currTestFits = (if m > 0 then Some (replicate m 0) else None),
                sv_variableCounts = replicate (numPredictors (data fit)) 0,
                iterLog = []\<rparr>;
          totalNumIterations =
            ((numBurnIn + numSamples) * unat (treeThinningRate (control fit))) mod 2 ^ 64
      in case runSampler_loop e rn numBurnIn totalNumIterations 0 s0 of
           None \<Rightarrow> None
         | Some s \<Rightarrow> Some (if numSamples = 0 then None else Some (sv_results s), s))"

section \<open>Replacing predictors (bartFit.cpp)\<close>

text \<open>
  \<open>Xt\<close> is the list of the rows of the predictor matrix.
  \<open>setXtColumn xt n col v\<close> is the loop
  \<^verbatim>\<open>for (row < n) Xt[row * numPredictors + col] = v[row]\<close>.
\<close>

definition setXtColumn :: "real list list \<Rightarrow> nat \<Rightarrow> nat \<Rightarrow> real list \<Rightarrow> real list list" where
  "setXtColumn xt n col v = fold (\<lambda>row t. t[row := (t ! row)[col := v ! row]]) [0..<n] xt"

text \<open>
  The loop \<^verbatim>\<open>for (treeNum = 0; treeNum < numTrees && allTreesAreValid; ++treeNum)\<close> of
  \<open>setPredictor\<close> and \<open>updatePredictors\<close>; it returns the fit, \<^verbatim>\<open>allTreesAreValid\<close> and
  \<^verbatim>\<open>treeNum\<close>.
\<close>

definition updateTreesWhileValid ::
  "('tree, 'rng, 'cb) ext_tree \<Rightarrow> real \<Rightarrow> ('tree, 'rng, 'cb) BARTFit
     \<Rightarrow> ('tree, 'rng, 'cb) BARTFit \<times> bool \<times> nat" where
  "updateTreesWhileValid e sigma_sq fit =
     fold (\<lambda>i (f, allTreesAreValid, treeNum).
             if allTreesAreValid
             then (let t = updateWithNewCovariates e f sigma_sq (trees (state f) ! i)
                   in (setTree f i t, isValid e t, Suc i))
             else (f, allTreesAreValid, treeNum))
       [0..<numTrees (control fit)] (fit, True, 0)"

definition setPredictor ::
  "('tree, 'rng, 'cb) ext_tree \<Rightarrow> ('tree, 'rng, 'cb) BARTFit \<Rightarrow> real list list
     \<Rightarrow> error + (bool \<times> ('tree, 'rng, 'cb) BARTFit)" where
  "setPredictor e fit newPredictor =
     (case setCutPoints fit [0..<numPredictors (data fit)] of
        Inl err \<Rightarrow> Inl err
      | Inr fit1 \<Rightarrow>
          let fit2 = fit1\<lparr>data := (data fit1)\<lparr>data_X := newPredictor\<rparr>\<rparr>;
              fit3 = fit2\<lparr>scratch := (scratch fit2)
                       \<lparr>Xt := fold (\<lambda>col t. setXtColumn t (numObservations (data fit2)) col
                                               (data_X (data fit2) ! col))
                                 [0..<numPredictors (data fit2)] (Xt (scratch fit2))\<rparr>\<rparr>;
              sigma_sq = sigma (responseModel (model fit3)) * sigma (responseModel (model fit3));
              r = updateTreesWhileValid e sigma_sq fit3;
              allTreesAreValid = fst (snd r)
          in Inr (allTreesAreValid,
                  if allTreesAreValid then updateTrainingFits e (fst r) else fst r))"

text \<open>
  \<open>updatePredictors\<close>. \<open>installColumn\<close> is one pass of the loop that copies a column
  into \<^verbatim>\<open>X\<close> and \<^verbatim>\<open>Xt\<close>; \<open>restoreColumn\<close> is one pass of the loop that copies the old
  column and the old cut points back.
\<close>

definition installColumn ::
  "real list list \<Rightarrow> nat list \<Rightarrow> nat \<Rightarrow> ('tree, 'rng, 'cb) BARTFit \<Rightarrow> ('tree, 'rng, 'cb) BARTFit" where
  "installColumn predictor columns i fit =
     (let n = numObservations (data fit); col = columns ! i in
      fit\<lparr>data := (data fit)
            \<lparr>data_X := (data_X (data fit))[col := memcpy (data_X (data fit) ! col) (predictor ! i) n]\<rparr>,
          scratch := (scratch fit)\<lparr>Xt := setXtColumn (Xt (scratch fit)) n col (predictor ! i)\<rparr>\<rparr>)"

definition restoreColumn ::
  "real list list \<Rightarrow> real list list \<Rightarrow> nat list \<Rightarrow> nat \<Rightarrow> ('tree, 'rng, 'cb) BARTFit
     \<Rightarrow> ('tree, 'rng, 'cb) BARTFit" where
  "restoreColumn oldPredictor oldCutPoints columns i fit =
     (let n = numObservations (data fit); col = columns ! i in
      fit\<lparr>data := (data fit)
            \<lparr>data_X := (data_X (data fit))[col := memcpy (data_X (data fit) ! col) (oldPredictor ! i) n]\<rparr>,
          scratch := (scratch fit)
            \<lparr>cutPoints := (cutPoints (scratch fit))
               [col := memcpy (cutPoints (scratch fit) ! col) (oldCutPoints ! i)
                         (unat (numCutsPerVariable (scratch fit) ! col))],
             Xt := setXtColumn (Xt (scratch fit)) n col (oldPredictor ! i)\<rparr>\<rparr>)"

definition updatePredictors ::
  "('tree, 'rng, 'cb) ext_tree \<Rightarrow> ('tree, 'rng, 'cb) BARTFit \<Rightarrow> real list list \<Rightarrow> nat list
     \<Rightarrow> error + (bool \<times> ('tree, 'rng, 'cb) BARTFit)" where
  "updatePredictors e fit newPredictor columns =
     (let n = numObservations (data fit);
          numColumns = length columns;
          oldPredictor = map (\<lambda>i. memcpy (replicate n 0) (data_X (data fit) ! (columns ! i)) n)
                           [0..<numColumns];
          oldCutPoints = map (\<lambda>i. memcpy (replicate (unat (numCutsPerVariable (scratch fit) ! (columns ! i))) 0)
                                     (cutPoints (scratch fit) ! (columns ! i))
                                     (unat (numCutsPerVariable (scratch fit) ! (columns ! i))))
                           [0..<numColumns]
      in
      case setCutPoints fit columns of
        Inl err \<Rightarrow> Inl err
      | Inr fit1 \<Rightarrow>
          let fit2 = fold (installColumn newPredictor columns) [0..<numColumns] fit1;
              sigma_sq = sigma (responseModel (model fit2)) * sigma (responseModel (model fit2));
              r = updateTreesWhileValid e sigma_sq fit2;
              allTreesAreValid = fst (snd r);
              treeNum = snd (snd r)
          in
          if \<not> allTreesAreValid then
            let fit3 = fold (restoreColumn oldPredictor oldCutPoints columns) [0..<numColumns] (fst r)
            in Inr (allTreesAreValid,
                    fold (\<lambda>i f. setTree f i (updateWithNewCovariates e f sigma_sq (trees (state f) ! i)))
                      [0..<treeNum] fit3)
          else Inr (allTreesAreValid, updateTrainingFits e (fst r)))"

definition updatePredictor ::
  "('tree, 'rng, 'cb) ext_tree \<Rightarrow> ('tree, 'rng, 'cb) BARTFit \<Rightarrow> real list \<Rightarrow> nat
     \<Rightarrow> error + (bool \<times> ('tree, 'rng, 'cb) BARTFit)" where
  "updatePredictor e fit newPredictor column = updatePredictors e fit [newPredictor] [column]"

section \<open>Reading the data from the host language (R\_interface.cpp)\<close>

text \<open>
  What \<open>initializeDataFromExpression\<close> reads of an R object: a null, the S4 null
  object, a vector of reals with its \<^verbatim>\<open>dim\<close> attribute, a vector of integers, or an
  object of another type with its length. \<open>DataExpr\<close> holds the slots of the data
  object that \<^verbatim>\<open>GET_ATTR\<close> reads.
\<close>

datatype SEXP =
  NILSXP
  | S4NULL
  | REALSXP "real list" "int list option"
  | INTSXP "int list"
  | OTHERSXP nat

record DataExpr =
  slot_y :: SEXP
  slot_x :: SEXP
  slot_varTypes :: SEXP
  slot_x_test :: SEXP
  slot_weights :: SEXP
  slot_offset :: SEXP
  slot_sigma :: SEXP
  slot_n_cuts :: SEXP

fun isReal :: "SEXP \<Rightarrow> bool" where
  "isReal (REALSXP v d) = True"
| "isReal s = False"

fun isInteger :: "SEXP \<Rightarrow> bool" where
  "isInteger (INTSXP v) = True"
| "isInteger s = False"

fun isNull :: "SEXP \<Rightarrow> bool" where
  "isNull NILSXP = True"
| "isNull s = False"

fun isS4Null :: "SEXP \<Rightarrow> bool" where
  "isS4Null S4NULL = True"
| "isS4Null s = False"

fun Rf_length :: "SEXP \<Rightarrow> nat" where
  "Rf_length NILSXP = 0"
| "Rf_length S4NULL = 1"
| "Rf_length (REALSXP v d) = length v"
| "Rf_length (INTSXP v) = length v"
| "Rf_length (OTHERSXP n) = n"

fun REAL :: "SEXP \<Rightarrow> real list" where
  "REAL (REALSXP v d) = v"
| "REAL s = []"

fun INTEGER :: "SEXP \<Rightarrow> int list" where
  "INTEGER (INTSXP v) = v"
| "INTEGER s = []"

fun R_DimSymbol :: "SEXP \<Rightarrow> int list option" where
  "R_DimSymbol (REALSXP v d) = d"
| "R_DimSymbol s = None"

text \<open>A real of the model is never NaN.\<close>

definition ISNAN :: "real \<Rightarrow> bool" where
  "ISNAN d = False"

text \<open>The columns of a matrix that R stores column by column.\<close>

definition matrixColumns :: "real list \<Rightarrow> nat \<Rightarrow> nat \<Rightarrow> real list list" where
  "matrixColumns v numRows numCols = map (\<lambda>c. take numRows (drop (c * numRows) v)) [0..<numCols]"

text \<open>
  \<open>initializeDataFromExpression\<close> handles the slots one after the other; \<open>error\<close> leaves
  the function. Each definition below is the part of the function for one slot, in the
  order of the source, and the function is their sequence.
\<close>

definition init_y :: "DataExpr \<Rightarrow> Data \<Rightarrow> error + Data" where
  "init_y dataExpr d =
     (let slotExpr = slot_y dataExpr in
      if \<not> isReal slotExpr then Inl (ThrowError ''y must be of type real.'')
      else if Rf_length slotExpr = 0 then Inl (ThrowError ''Length of y must be greater than 0.'')
      else Inr (d\<lparr>data_y := REAL slotExpr, numObservations := Rf_length slotExpr\<rparr>))"

definition init_x :: "DataExpr \<Rightarrow> Data \<Rightarrow> error + Data" where
  "init_x dataExpr d =
     (let slotExpr = slot_x dataExpr in
      if \<not> isReal slotExpr then Inl (ThrowError ''x must be of type real.'')
      else case R_DimSymbol slotExpr of
        None \<Rightarrow> Inl (ThrowError ''x must be a matrix, i.e. have two dimensions.'')
      | Some dims \<Rightarrow>
          if length dims \<noteq> 2 then Inl (ThrowError ''x must be a matrix, i.e. have two dimensions.'')
          else if dims ! 0 \<noteq> int (numObservations d)
          then Inl (ThrowError ''Number of rows of x and length of y must be equal.'')
          else Inr (d\<lparr>data_X := matrixColumns (REAL slotExpr) (numObservations d) (nat (dims ! 1)),
                      numPredictors := nat (dims ! 1)\<rparr>))"

definition init_varTypes :: "DataExpr \<Rightarrow> Data \<Rightarrow> error + Data" where
  "init_varTypes dataExpr d =
     (let slotExpr = slot_varTypes dataExpr in
      if \<not> isInteger slotExpr then Inl (ThrowError ''Variable types must be of type integer.'')
      else if Rf_length slotExpr \<noteq> numPredictors d
      then Inl (ThrowError ''Length of variable types must equal number of columns in x.'')
      else Inr (d\<lparr>variableTypes :=
                    map (\<lambda>i. if INTEGER slotExpr ! i = 0 then ORDINAL else CATEGORICAL)
                      [0..<numPredictors d]\<rparr>))"

definition init_x_test :: "DataExpr \<Rightarrow> Data \<Rightarrow> error + Data" where
  "init_x_test dataExpr d =
     (let slotExpr = slot_x_test dataExpr in
      if isS4Null slotExpr \<or> isNull slotExpr \<or> Rf_length slotExpr = 0
      then Inr (d\<lparr>data_X_test := None, numTestObservations := 0\<rparr>)
      else if \<not> isReal slotExpr then Inl (ThrowError ''x.test must be of type real.'')
      else case R_DimSymbol slotExpr of
        None \<Rightarrow> Inl (ThrowError ''x.test must be a matrix, i.e. have two dimensions.'')
      | Some dims \<Rightarrow>
          if length dims \<noteq> 2
          then Inl (ThrowError ''x.test must be a matrix, i.e. have two dimensions.'')
          else if dims ! 1 \<noteq> int (numPredictors d)
          then Inl (ThrowError ''Number of columns of x.test and x must be equal.'')
          else Inr (d\<lparr>data_X_test := Some (matrixColumns (REAL slotExpr) (nat (dims ! 0)) (numPredictors d)),
                      numTestObservations := nat (dims ! 0)\<rparr>))"

definition init_weights :: "DataExpr \<Rightarrow> Data \<Rightarrow> error + Data" where
  "init_weights dataExpr d =
     (let slotExpr = slot_weights dataExpr in
      if isS4Null slotExpr \<or> isNull slotExpr \<or> Rf_length slotExpr = 0
      then Inr (d\<lparr>weights := None\<rparr>)
      else if \<not> isReal slotExpr then Inl (ThrowError ''weights must be of type real.'')
      else if Rf_length slotExpr \<noteq> numObservations d
      then Inl (ThrowError ''Length of weights must equal length of y.'')
      else Inr (d\<lparr>weights := Some (REAL slotExpr)\<rparr>))"

definition init_offset :: "DataExpr \<Rightarrow> Data \<Rightarrow> error + Data" where
  "init_offset dataExpr d =
     (let slotExpr = slot_offset dataExpr in
      if isS4Null slotExpr \<or> isNull slotExpr \<or> Rf_length slotExpr = 0
      then Inr (d\<lparr>weights := None\<rparr>)
      else if \<not> isReal slotExpr then Inl (ThrowError ''offset must be of type real.'')
      else if Rf_length slotExpr \<noteq> numObservations d
      then Inl (ThrowError ''Length of offset must equal length of y.'')
      else Inr (d\<lparr>offset := Some (REAL slotExpr)\<rparr>))"

definition init_sigma :: "DataExpr \<Rightarrow> Data \<Rightarrow> error + Data" where
  "init_sigma dataExpr d =
     (let slotExpr = slot_sigma dataExpr in
      if \<not> isReal slotExpr then Inl (ThrowError ''sigma estimate must be of type real.'')
      else if Rf_length slotExpr \<noteq> 1 then Inl (ThrowError ''sigma estimate must be of length 1.'')
      else
        let d_temp = (if ISNAN (REAL slotExpr ! 0) then 1 else REAL slotExpr ! 0) in
        if d_temp \<le> 0 then Inl (ThrowError ''sigma estimate must be positive.'')
        else Inr (d\<lparr>sigmaEstimate := d_temp\<rparr>))"

definition init_n_cuts :: "DataExpr \<Rightarrow> Data \<Rightarrow> error + Data" where
  "init_n_cuts dataExpr d =
     (let slotExpr = slot_n_cuts dataExpr in
      if \<not> isInteger slotExpr then Inl (ThrowError ''Maximum number of cuts must be of integer type.'')
      else if Rf_length slotExpr \<noteq> numPredictors d
      then Inl (ThrowError
        ''Length of maximum number of cuts and the number of columns of x must be equal.'')
      else Inr (d\<lparr>maxNumCuts :=
                    Some (map (\<lambda>i. word_of_int (INTEGER slotExpr ! i)) [0..<numPredictors d])\<rparr>))"

definition andThen :: "error + 'a \<Rightarrow> ('a \<Rightarrow> error + 'b) \<Rightarrow> error + 'b" where
  "andThen r f = (case r of Inl err \<Rightarrow> Inl err | Inr v \<Rightarrow> f v)"

definition initializeDataFromExpression :: "Data \<Rightarrow> DataExpr \<Rightarrow> error + Data" where
  "initializeDataFromExpression d dataExpr =
     andThen (andThen (andThen (andThen (andThen (andThen (andThen
       (init_y dataExpr d)
       (init_x dataExpr)) (init_varTypes dataExpr)) (init_x_test dataExpr))
       (init_weights dataExpr)) (init_offset dataExpr)) (init_sigma dataExpr)) (init_n_cuts dataExpr)"

section \<open>Instances of the parameters, to run the model on concrete inputs\<close>

text \<open>
  Modelled from the spec: the reductions of external/stats\_mt.h, which are not in the
  source files. A mean is the (weighted) sum over the (weighted) count; a variance
  around a known mean divides the (weighted) sum of squares by the number of
  observations less one. The theorems below hold for every \<open>ext_stats\<close>; this one only
  serves to evaluate them.
\<close>

definition stats_ref :: ext_stats where
  "stats_ref =
     \<lparr>ext_mt_computeMean = (\<lambda>y n. sum_list (map (\<lambda>i. y ! i) [0..<n]) / real n),
      ext_mt_computeIndexedMean = (\<lambda>y ix n. sum_list (map (\<lambda>k. y ! (ix ! k)) [0..<n]) / real n),
      ext_mt_computeWeightedMean = (\<lambda>y n w.
         (sum_list (map (\<lambda>i. w ! i * y ! i) [0..<n]) / sum_list (map (\<lambda>i. w ! i) [0..<n]),
          sum_list (map (\<lambda>i. w ! i) [0..<n]))),
      ext_mt_computeIndexedWeightedMean = (\<lambda>y ix n w.
         (sum_list (map (\<lambda>k. w ! (ix ! k) * y ! (ix ! k)) [0..<n])
            / sum_list (map (\<lambda>k. w ! (ix ! k)) [0..<n]),
          sum_list (map (\<lambda>k. w ! (ix ! k)) [0..<n]))),
      ext_mt_computeVarianceForKnownMean = (\<lambda>y n m.
         sum_list (map (\<lambda>i. (y ! i - m)\<^sup>2) [0..<n]) / real (n - 1)),
      ext_mt_computeIndexedVarianceForKnownMean = (\<lambda>y ix n m.
         sum_list (map (\<lambda>k. (y ! (ix ! k) - m)\<^sup>2) [0..<n]) / real (n - 1)),
      ext_mt_computeWeightedVarianceForKnownMean = (\<lambda>y n w m.
         sum_list (map (\<lambda>i. w ! i * (y ! i - m)\<^sup>2) [0..<n]) / real (n - 1)),
      ext_mt_computeIndexedWeightedVarianceForKnownMean = (\<lambda>y ix n w m.
         sum_list (map (\<lambda>k. w ! (ix ! k) * (y ! (ix ! k) - m)\<^sup>2) [0..<n]) / real (n - 1))\<rparr>"

text \<open>
  Modelled from the spec: the tree class, which is not in the source files. A tree is a
  leaf with its observation indices and its parameter, or an ordinal split on variable
  \<open>j\<close> at cut index \<open>c\<close>, which sends an observation left iff
  \<open>X[\<cdot>, j] \<le> cutPoints[j][c]\<close>. A split is feasible when it sends at least one
  observation to each side, so a tree is valid when none of its leaves is empty. The
  structure step of this instance proposes no move, the draw of a leaf parameter is
  the mean of the residuals of the leaf, and the draw of the response model halves sigma,
  so that the samples of successive passes differ.
\<close>

datatype STree = Bottom "nat list" real | Parent nat nat STree STree

fun partitionTree :: "real list list \<Rightarrow> real list list \<Rightarrow> nat list \<Rightarrow> STree \<Rightarrow> STree" where
  "partitionTree xt cp ix (Bottom old m) = Bottom ix m"
| "partitionTree xt cp ix (Parent j c l r) =
     Parent j c (partitionTree xt cp (filter (\<lambda>i. xt ! i ! j \<le> cp ! j ! c) ix) l)
                (partitionTree xt cp (filter (\<lambda>i. \<not> xt ! i ! j \<le> cp ! j ! c) ix) r)"

fun noEmptyLeaf :: "STree \<Rightarrow> bool" where
  "noEmptyLeaf (Bottom ix m) = (ix \<noteq> [])"
| "noEmptyLeaf (Parent j c l r) = (noEmptyLeaf l \<and> noEmptyLeaf r)"

fun drawLeafMeans :: "real list \<Rightarrow> STree \<Rightarrow> STree" where
  "drawLeafMeans y (Bottom ix m) = Bottom ix (sum_list (map (\<lambda>i. y ! i) ix) / real (length ix))"
| "drawLeafMeans y (Parent j c l r) = Parent j c (drawLeafMeans y l) (drawLeafMeans y r)"

fun leafFits :: "STree \<Rightarrow> real list \<Rightarrow> real list" where
  "leafFits (Bottom ix m) buf = fold (\<lambda>i b. b[i := m]) ix buf"
| "leafFits (Parent j c l r) buf = leafFits r (leafFits l buf)"

fun splitCounts :: "STree \<Rightarrow> 32 word list \<Rightarrow> 32 word list" where
  "splitCounts (Bottom ix m) vc = vc"
| "splitCounts (Parent j c l r) vc = splitCounts r (splitCounts l (vc[j := vc ! j + 1]))"

definition tree_ref :: "(STree, nat, unit) ext_tree" where
  "tree_ref =
     \<lparr>updateWithNewCovariates = (\<lambda>fit sigma_sq t.
         partitionTree (Xt (scratch fit)) (cutPoints (scratch fit)) [0..<numObservations (data fit)] t),
      isValid = noEmptyLeaf,
      prepareForMetropolisStep = (\<lambda>fit y sigma_sq t. t),
      drawFromTreeStructurePosterior = (\<lambda>fit y sigma_sq t. (t, Suc (rng fit))),
      drawFromEndNodePosteriors = (\<lambda>fit y sigma_sq t. (drawLeafMeans y t, Suc (rng fit))),
      getFits_training = (\<lambda>fit t buf. leafFits t buf),
      getFits_test = (\<lambda>fit t buf. buf),
      tree_countVariableUses = splitCounts,
      drawFromPosterior = (\<lambda>fit y f.
         ((responseModel (model fit))\<lparr>sigma := sigma (responseModel (model fit)) / 2\<rparr>,
          Suc (rng fit))),
      callback = None\<rparr>"

text \<open>
  Stand-ins for the truncated normal draws: the mean, moved to the bound when it lies on
  the wrong side of it.
\<close>

definition random_ref :: "nat ext_random" where
  "random_ref =
     \<lparr>ext_rng_simulateLowerTruncatedNormalScale1 = (\<lambda>r mean bound. (max mean bound, Suc r)),
      ext_rng_simulateUpperTruncatedNormalScale1 = (\<lambda>r mean bound. (min mean bound, Suc r))\<rparr>"

text \<open>
  A fit of one stump to three observations of one predictor, in quantile mode: the
  column \<open>[1, 2, 3]\<close> has the cut points \<open>1.5\<close> and \<open>2.5\<close>, and the stump splits at the
  first. \<open>fitB\<close> is the same with a binary response and the total fits
  \<open>[1/2, -1/4, 1/3]\<close>, \<open>fitBo\<close> is \<open>fitB\<close> with an offset, and \<open>fitW\<close> is \<open>fitQ\<close> with
  weights.
\<close>

definition fitQ :: "(STree, nat, unit) BARTFit" where
  "fitQ =
     \<lparr>control = \<lparr>responseIsBinary = False, keepTrainingFits = True, useQuantiles = True,
                  numTrees = 1, treeThinningRate = 1, callbackData = ()\<rparr>,
      model = \<lparr>responseModel = \<lparr>sigma = 1, priorScale = 3, HAS_SCALE_PARAMETER = True\<rparr>,
                endNodeModel = \<lparr>precision = 1\<rparr>\<rparr>,
      data = \<lparr>data_y = [0, 1, 4], data_X = [[1, 2, 3]], variableTypes = [ORDINAL],
               data_X_test = None, weights = None, offset = None, testOffset = None,
               numObservations = 3, numPredictors = 1, numTestObservations = 0,
               sigmaEstimate = 1, maxNumCuts = Some [100]\<rparr>,
      scratch = \<lparr>yRescaled = [- 1 / 2, - 1 / 4, 1 / 2], Xt = [[1], [2], [3]], Xt_test = None,
                  treeY = [- 1 / 2, - 1 / 4, 1 / 2],
                  dataScale = \<lparr>dataScale_min = 0, dataScale_max = 4, dataScale_range = 4\<rparr>,
                  numCutsPerVariable = [2], cutPoints = [[3 / 2, 5 / 2]]\<rparr>,
      state = \<lparr>trees = [Parent 0 0 (Bottom [0] 0) (Bottom [1, 2] 0)],
                treeFits = [[0, 0, 0]], totalFits = [0, 0, 0], totalTestFits = []\<rparr>,
      rng = 0\<rparr>"

definition fitB :: "(STree, nat, unit) BARTFit" where
  "fitB = fitQ\<lparr>control := (control fitQ)\<lparr>responseIsBinary := True\<rparr>,
               data := (data fitQ)\<lparr>data_y := [0, 1, 1]\<rparr>,
               scratch := (scratch fitQ)\<lparr>yRescaled := [- 1, 1, 1]\<rparr>,
               state := (state fitQ)\<lparr>treeFits := [[1 / 2, - 1 / 4, 1 / 3]],
                                       totalFits := [1 / 2, - 1 / 4, 1 / 3]\<rparr>\<rparr>"

definition fitBo :: "(STree, nat, unit) BARTFit" where
  "fitBo = fitB\<lparr>data := (data fitB)\<lparr>offset := Some [1, 0, - 1]\<rparr>\<rparr>"

definition fitW :: "(STree, nat, unit) BARTFit" where
  "fitW = fitQ\<lparr>data := (data fitQ)\<lparr>weights := Some [2, 2, 1]\<rparr>\<rparr>"

definition leafW :: Node where
  "leafW = \<lparr>isTop = False, getObservationIndices = [0, 1],
            getScratch = \<lparr>mu = 0, numEffectiveObservations = 0\<rparr>\<rparr>"

section \<open>Predicates of the properties\<close>

text \<open>
  What replacing the response or the offset does to the residual standard deviation and
  to the scale of its prior, \<open>fit\<close> being the fit before and \<open>fit'\<close> the fit after.
\<close>

definition rescaled ::
  "('tree, 'rng, 'cb) BARTFit \<Rightarrow> ('tree, 'rng, 'cb) BARTFit \<Rightarrow> bool" where
  "rescaled fit fit' =
     (let oldRange = dataScale_range (dataScale (scratch fit));
          newRange = dataScale_range (dataScale (scratch fit'))
      in priorScale (responseModel (model fit'))
           = priorScale (responseModel (model fit)) * (oldRange / newRange)\<^sup>2
         \<and> sigma (responseModel (model fit')) = sigma (responseModel (model fit)) * (oldRange / newRange)
         \<and> (newRange \<noteq> 0 \<longrightarrow>
              sigma (responseModel (model fit')) * newRange
                = sigma (responseModel (model fit)) * oldRange
              \<and> priorScale (responseModel (model fit')) * newRange\<^sup>2
                = priorScale (responseModel (model fit)) * oldRange\<^sup>2))"

text \<open>
  The sorted distinct values of a column, as \<open>setCutPointsFromQuantiles\<close> collects them,
  and the cut point of the specification: the midpoint of the gap at
  \<open>idx = min(i \<cdot> (numCuts / numUnique) + (numCuts / numUnique) / 2, numUnique - 2)\<close>, the
  divisions being those of the integers.
\<close>

definition sortedDistinct :: "('tree, 'rng, 'cb) BARTFit \<Rightarrow> real list \<Rightarrow> real list" where
  "sortedDistinct fit x = sort (remdups (map (\<lambda>i. x ! i) [0..<numObservations (data fit)]))"

definition specQuantileCutPoint :: "real list \<Rightarrow> nat \<Rightarrow> nat \<Rightarrow> real" where
  "specQuantileCutPoint v numCuts i =
     (let numUnique = length v;
          idx = min (i * (numCuts div numUnique) + (numCuts div numUnique) div 2) (numUnique - 2)
      in (v ! idx + v ! (idx + 1)) / 2)"

text \<open>A fit of five observations, to set cut points on a column of five distinct values.\<close>

definition fit5 :: "(STree, nat, unit) BARTFit" where
  "fit5 = fitQ\<lparr>data := (data fitQ)\<lparr>data_X := [[5, 1, 4, 2, 3]], numObservations := 5\<rparr>\<rparr>"

text \<open>
  The fit vectors are allocated when there is one vector per tree, and consistent when
  for every observation the total fit is the sum of the fits of the trees.
  \<open>sameFits\<close> says that a step has touched neither the fit vectors nor their sizes.
\<close>

definition fitsAllocated :: "('tree, 'rng, 'cb) BARTFit \<Rightarrow> bool" where
  "fitsAllocated fit = (length (treeFits (state fit)) = numTrees (control fit))"

definition fitsConsistent :: "('tree, 'rng, 'cb) BARTFit \<Rightarrow> bool" where
  "fitsConsistent fit =
     list_all (\<lambda>i. totalFits (state fit) ! i
                   = sum_list (map (\<lambda>t. treeFits (state fit) ! t ! i) [0..<numTrees (control fit)]))
       [0..<numObservations (data fit)]"

definition sameFits :: "('tree, 'rng, 'cb) BARTFit \<Rightarrow> ('tree, 'rng, 'cb) BARTFit \<Rightarrow> bool" where
  "sameFits fit fit' =
     (treeFits (state fit') = treeFits (state fit) \<and> totalFits (state fit') = totalFits (state fit)
      \<and> numTrees (control fit') = numTrees (control fit)
      \<and> numObservations (data fit') = numObservations (data fit))"


text \<open>The variables of \<open>runSampler\<close> before its loop, on \<open>fitQ\<close> with one sample.\<close>

definition svQ :: "(STree, nat, unit) SamplerVars" where
  "svQ = \<lparr>sv_fit = fitQ, sv_results = newResults 3 1 0 1, currFits = [0, 0, 0],
          currTestFits = None, sv_variableCounts = [0], iterLog = []\<rparr>"

text \<open>\<open>fitQ\<close> after its predictor column has been replaced by \<open>[1, 3, 3]\<close>.\<close>

definition fitQ133 :: "(STree, nat, unit) BARTFit" where
  "fitQ133 = fitQ\<lparr>data := (data fitQ)\<lparr>data_X := [[1, 3, 3]]\<rparr>,
                   scratch := (scratch fitQ)\<lparr>Xt := [[1], [3], [3]]\<rparr>\<rparr>"

text \<open>
  The number of cut points a column induces in quantile mode: the \<^verbatim>\<open>numCuts\<close> of
  \<open>setCutPointsFromQuantiles\<close>.
\<close>

definition inducedNumCuts :: "('tree, 'rng, 'cb) BARTFit \<Rightarrow> real list \<Rightarrow> 32 word \<Rightarrow> nat" where
  "inducedNumCuts fit x maxNumCuts' =
     (if length (sortedDistinct fit x) \<le> unat (maxNumCuts' + 1)
      then size_t_minus (length (sortedDistinct fit x)) 1 else unat maxNumCuts')"

text \<open>
  \<open>fitQ\<close> with the column \<open>[5, 5, 5]\<close> in place of \<open>[1, 2, 3]\<close>: every observation
  lies right of the cut point 1.5, and the left leaf of the stump is empty.
\<close>

definition fitQ555 :: "(STree, nat, unit) BARTFit" where
  "fitQ555 = fitQ\<lparr>data := (data fitQ)\<lparr>data_X := [[5, 5, 5]]\<rparr>,
                   scratch := (scratch fitQ)\<lparr>Xt := [[5], [5], [5]]\<rparr>,
                   state := (state fitQ)\<lparr>trees := [Parent 0 0 (Bottom [] 0) (Bottom [0, 1, 2] 0)]\<rparr>\<rparr>"

text \<open>
  The tests of the loop of \<open>runSampler\<close> on its counter \<open>k\<close>, with the names of the
  source: a pass is a thinning iteration when \<open>(k + 1) % treeThinningRate\<close> is not 0, and
  it is still burning in when \<open>k / treeThinningRate < numBurnIn\<close>. \<open>storedSample\<close> is
  the sample number of the pass, if it stores one. \<open>specWritesSample\<close> is the condition
  of the specification for a pass to write a sample.
\<close>

definition isThinningIteration :: "32 word \<Rightarrow> 32 word \<Rightarrow> bool" where
  "isThinningIteration thin k = ((k + 1) mod thin \<noteq> 0)"

definition isBurningIn :: "nat \<Rightarrow> 32 word \<Rightarrow> 32 word \<Rightarrow> bool" where
  "isBurningIn numBurnIn thin k = (unat (k div thin) < numBurnIn)"

definition storedSample :: "nat \<Rightarrow> 32 word \<Rightarrow> 32 word \<Rightarrow> nat option" where
  "storedSample numBurnIn thin k =
     (if isThinningIteration thin k then None
      else Some (if isBurningIn numBurnIn thin k then 0 else unat (k div thin) - numBurnIn))"

definition specWritesSample :: "nat \<Rightarrow> 32 word \<Rightarrow> 32 word \<Rightarrow> bool" where
  "specWritesSample numBurnIn thin k =
     (\<not> isThinningIteration thin k \<and> \<not> isBurningIn numBurnIn thin k)"


text \<open>\<open>fitQ\<close> with a thinning rate of 2.\<close>

definition fitQ2 :: "(STree, nat, unit) BARTFit" where
  "fitQ2 = fitQ\<lparr>control := (control fitQ)\<lparr>treeThinningRate := 2\<rparr>\<rparr>"

text \<open>
  For the data initializer: \<open>nullOrEmpty\<close> is the test that opens both the weights and the
  offset branch of the source; \<open>dataExprW\<close> supplies weights but no offset, \<open>dataExprO\<close> an
  offset but no weights, and \<open>dataU\<close> is a data object whose weights and offset hold
  earlier values, so that an unassigned field can be told from one set to NULL.
\<close>

definition nullOrEmpty :: "SEXP \<Rightarrow> bool" where
  "nullOrEmpty s = (isS4Null s \<or> isNull s \<or> Rf_length s = 0)"

definition dataExprW :: DataExpr where
  "dataExprW =
     \<lparr>slot_y = REALSXP [0, 1, 4] None, slot_x = REALSXP [1, 2, 3] (Some [3, 1]),
      slot_varTypes = INTSXP [0], slot_x_test = NILSXP, slot_weights = REALSXP [2, 2, 1] None,
      slot_offset = NILSXP, slot_sigma = REALSXP [1] None, slot_n_cuts = INTSXP [100]\<rparr>"

definition dataExprO :: DataExpr where
  "dataExprO = dataExprW\<lparr>slot_weights := NILSXP, slot_offset := REALSXP [1, 0, - 1] None\<rparr>"

definition dataU :: Data where
  "dataU = \<lparr>data_y = [], data_X = [], variableTypes = [], data_X_test = None,
             weights = Some [7], offset = Some [9, 9, 9], testOffset = None,
             numObservations = 0, numPredictors = 0, numTestObservations = 0,
             sigmaEstimate = 0, maxNumCuts = None\<rparr>"

text \<open>
  For the latent variables of a binary response: the truncation point handed to the sampler
  for observation \<open>i\<close>, and the draw made for it from the generator state \<open>r\<close>.
\<close>

definition probitBound :: "('tree, 'rng, 'cb) BARTFit \<Rightarrow> nat \<Rightarrow> real" where
  "probitBound fit i = - (case offset (data fit) of None \<Rightarrow> 0 | Some off \<Rightarrow> off ! i)"

definition probitDraw ::
  "'rng ext_random \<Rightarrow> ('tree, 'rng, 'cb) BARTFit \<Rightarrow> real list \<Rightarrow> nat \<Rightarrow> 'rng \<Rightarrow> real \<times> 'rng" where
  "probitDraw rn fit fits i r =
     (if data_y (data fit) ! i > 0
      then ext_rng_simulateLowerTruncatedNormalScale1 rn r (fits ! i) (probitBound fit i)
      else ext_rng_simulateUpperTruncatedNormalScale1 rn r (fits ! i) (probitBound fit i))"

text \<open>
  The cut points of a column in quantile mode: \<open>quantileIndex\<close> is the index of the
  source for cut point \<open>i\<close> where the column has more distinct values than cut points, and
  \<open>specEvenlySpaced\<close> is what the specification asks of the chosen indices: they advance
  by one and the same positive step.
\<close>

definition quantileIndex :: "nat \<Rightarrow> nat \<Rightarrow> nat \<Rightarrow> nat" where
  "quantileIndex numCuts numUnique i =
     min (i * (numCuts div numUnique) + (numCuts div numUnique) div 2) (numUnique - 2)"

definition specEvenlySpaced :: "nat list \<Rightarrow> bool" where
  "specEvenlySpaced idx =
     list_all (\<lambda>i. idx ! i < idx ! Suc i \<and> idx ! Suc i - idx ! i = idx ! 1 - idx ! 0)
       [0..<length idx - 1]"

text \<open>
  The run of the sampler. \<open>specNumIterations\<close> is the number of passes of the
  specification. \<open>samplerInit\<close> holds the variables of \<open>runSampler\<close> before its loop and
  \<open>samplerAfter\<close> the variables after the first \<open>j\<close> passes. \<open>sampleSlot\<close> is the
  \<^verbatim>\<open>simNum\<close> of pass \<open>k\<close>, and \<open>sampleIteration\<close> the pass whose sample stays in slot \<open>s\<close>.
\<close>

definition specNumIterations :: "nat \<Rightarrow> nat \<Rightarrow> 32 word \<Rightarrow> nat" where
  "specNumIterations numBurnIn numSamples thin = (numBurnIn + numSamples) * unat thin"

definition samplerInit :: "('tree, 'rng, 'cb) BARTFit \<Rightarrow> nat \<Rightarrow> ('tree, 'rng, 'cb) SamplerVars" where
  "samplerInit fit numSamples =
     \<lparr>sv_fit = fit,
      sv_results = newResults (numObservations (data fit)) (numPredictors (data fit))
                     (numTestObservations (data fit)) (if numSamples = 0 then 1 else numSamples),
      currFits = replicate (numObservations (data fit)) 0,
      currTestFits = (if numTestObservations (data fit) > 0
                      then Some (replicate (numTestObservations (data fit)) 0) else None),
      sv_variableCounts = replicate (numPredictors (data fit)) 0,
      iterLog = []\<rparr>"

definition samplerAfter ::
  "('tree, 'rng, 'cb) ext_tree \<Rightarrow> 'rng ext_random \<Rightarrow> ('tree, 'rng, 'cb) BARTFit \<Rightarrow> nat \<Rightarrow> nat \<Rightarrow> nat
     \<Rightarrow> ('tree, 'rng, 'cb) SamplerVars" where
  "samplerAfter e rn fit numBurnIn numSamples j =
     fold (\<lambda>k. iteration e rn numBurnIn (word_of_nat k)) [0..<j] (samplerInit fit numSamples)"

definition sampleSlot :: "nat \<Rightarrow> 32 word \<Rightarrow> 32 word \<Rightarrow> nat" where
  "sampleSlot numBurnIn thin k =
     (if isBurningIn numBurnIn thin k then 0 else unat (k div thin) - numBurnIn)"

definition sampleIteration :: "nat \<Rightarrow> 32 word \<Rightarrow> nat \<Rightarrow> nat" where
  "sampleIteration numBurnIn thin s = (numBurnIn + s + 1) * unat thin - 1"

text \<open>
  The sample of the specification. A fit on the scale of the sampler is de-scaled to
  \<open>range \<cdot> (f + 0.5) + min\<close> (a binary response is not scaled), and the offset of the
  observation is added. \<open>sampleAt\<close> is the content of one slot of the result buffers.
  \<open>holdsSample\<close> says that the slot holds the sample of the fit: sigma in the units of
  the response (1 for a binary response), the de-scaled training fits when training fits
  are kept, the de-scaled test fits, and for each variable the number of its uses over
  all trees, counted into the array \<open>vc\<close>. \<open>resultsSized\<close> gives the number of slots.
\<close>

definition offsetAt :: "real list option \<Rightarrow> nat \<Rightarrow> real" where
  "offsetAt off i = (case off of None \<Rightarrow> 0 | Some o' \<Rightarrow> o' ! i)"

definition specDeScaled :: "('tree, 'rng, 'cb) BARTFit \<Rightarrow> real \<Rightarrow> real" where
  "specDeScaled fit f =
     (if responseIsBinary (control fit) then f
      else dataScale_range (dataScale (scratch fit)) * (f + 0.5)
           + dataScale_min (dataScale (scratch fit)))"

definition sampleAt :: "Results \<Rightarrow> nat \<Rightarrow> real \<times> real list \<times> real list \<times> real list" where
  "sampleAt res s =
     (sigmaSamples res ! s, trainingSamples res ! s, testSamples res ! s,
      variableCountSamples res ! s)"

definition holdsSample ::
  "('tree, 'rng, 'cb) ext_tree \<Rightarrow> ('tree, 'rng, 'cb) BARTFit \<Rightarrow> 32 word list \<Rightarrow> Results \<Rightarrow> nat
     \<Rightarrow> bool" where
  "holdsSample e fit vc res slot =
     (sigmaSamples res ! slot
        = (if responseIsBinary (control fit) then 1
           else sigma (responseModel (model fit)) * dataScale_range (dataScale (scratch fit)))
      \<and> (keepTrainingFits (control fit) \<longrightarrow>
           take (numObservations (data fit)) (trainingSamples res ! slot)
             = map (\<lambda>i. specDeScaled fit (totalFits (state fit) ! i) + offsetAt (offset (data fit)) i)
                 [0..<numObservations (data fit)])
      \<and> take (numTestObservations (data fit)) (testSamples res ! slot)
           = map (\<lambda>i. specDeScaled fit (totalTestFits (state fit) ! i)
                        + offsetAt (testOffset (data fit)) i)
               [0..<numTestObservations (data fit)]
      \<and> take (numPredictors (data fit)) (variableCountSamples res ! slot)
           = map (\<lambda>j. real (unat (countVariableUses e fit vc ! j))) [0..<numPredictors (data fit)])"

definition resultsSized :: "nat \<Rightarrow> Results \<Rightarrow> bool" where
  "resultsSized N res =
     (length (sigmaSamples res) = N \<and> length (trainingSamples res) = N
      \<and> length (testSamples res) = N \<and> length (variableCountSamples res) = N)"

text \<open>
  A pass advances the chain: the fit it leaves is the one that the sweep over all the
  trees, followed by the draw of the response model (of the latent variables for a binary
  response), makes of the fit it found; only the data of the callback may differ.
\<close>

definition advancesChain ::
  "('tree, 'rng, 'cb) ext_tree \<Rightarrow> 'rng ext_random \<Rightarrow> bool \<Rightarrow> ('tree, 'rng, 'cb) SamplerVars
     \<Rightarrow> ('tree, 'rng, 'cb) SamplerVars \<Rightarrow> bool" where
  "advancesChain e rn thinning s s' =
     (let d = drawResponse e rn (sv_fit (sweepTrees e thinning s))
      in state (sv_fit s') = state d \<and> model (sv_fit s') = model d
         \<and> scratch (sv_fit s') = scratch d \<and> rng (sv_fit s') = rng d
         \<and> data (sv_fit s') = data d \<and> currFits s' = currFits (sweepTrees e thinning s))"

text \<open>
  \<open>fitQ2\<close> in the course of a run: the leaf values \<open>a\<close> and \<open>b\<close> of its stump, the fits
  \<open>f\<close>, sigma and the state of the generator; and the variables of \<open>runSampler\<close> on it.
\<close>

definition fitQ2State :: "real \<Rightarrow> real \<Rightarrow> real list \<Rightarrow> real \<Rightarrow> nat \<Rightarrow> (STree, nat, unit) BARTFit" where
  "fitQ2State a b f sg r =
     fitQ2\<lparr>model := (model fitQ2)\<lparr>responseModel := (responseModel (model fitQ2))\<lparr>sigma := sg\<rparr>\<rparr>,
           state := (state fitQ2)\<lparr>trees := [Parent 0 0 (Bottom [0] a) (Bottom [1, 2] b)],
                                    treeFits := [f], totalFits := f\<rparr>,
           rng := r\<rparr>"

definition svQ2State ::
  "real \<Rightarrow> real \<Rightarrow> real list \<Rightarrow> real list \<Rightarrow> real \<Rightarrow> nat \<Rightarrow> Results \<Rightarrow> 32 word list
     \<Rightarrow> (32 word \<times> nat option) list \<Rightarrow> (STree, nat, unit) SamplerVars" where
  "svQ2State a b f cf sg r res vc lg =
     \<lparr>sv_fit = fitQ2State a b f sg r, sv_results = res, currFits = cf, currTestFits = None,
      sv_variableCounts = vc, iterLog = lg\<rparr>"

chapter \<open>Properties\<close>

section \<open>The integrated log-likelihood of a Mean-Normal leaf\<close>

lemma logIntegratedLikelihood_unfold:
  "0 < getNumObservations node \<Longrightarrow>
   logIntegratedLikelihood st fit node y sigma_sq =
     1 / 2 * ln (precision (endNodeModel (model fit))
                 / (precision (endNodeModel (model fit))
                    + numEffectiveObservations (getScratch node) / sigma_sq))
     - 1 / 2 * (real (getNumObservations node) - 1)
         * computeVarianceForNode st fit node y (mu (getScratch node)) / sigma_sq
     - 1 / 2 * (precision (endNodeModel (model fit)) * numEffectiveObservations (getScratch node)
                * (mu (getScratch node))\<^sup>2)
         / (sigma_sq * (precision (endNodeModel (model fit))
                        + numEffectiveObservations (getScratch node) / sigma_sq))"
  by (simp add: logIntegratedLikelihood_def Let_def power2_eq_square algebra_simps)

text \<open>
  Claim C2, as amended. For a leaf with at least one observation the integrated
  log-likelihood is
  \<open>1/2 ln (\<tau> / (\<tau> + n_eff / \<sigma>\<^sup>2)) - 1/2 (n - 1) var_y / \<sigma>\<^sup>2
    - 1/2 \<tau> n_eff y_bar\<^sup>2 / (\<sigma>\<^sup>2 (\<tau> + n_eff / \<sigma>\<^sup>2))\<close>,
  where \<open>n\<close> is the number of observations of the leaf: the variance term is weighted by
  the count of the observations less one, not by the sum of their weights less one.
  Where the effective number of observations is that count the value is the formula of
  the specification, and without weights the scratch is prepared with exactly that
  count.
\<close>

theorem logIntegratedLikelihood_count_less_one:
  assumes "0 < getNumObservations node"
  shows "logIntegratedLikelihood st fit node y sigma_sq =
     1 / 2 * ln (precision (endNodeModel (model fit))
                 / (precision (endNodeModel (model fit))
                    + numEffectiveObservations (getScratch node) / sigma_sq))
     - 1 / 2 * (real (getNumObservations node) - 1)
         * computeVarianceForNode st fit node y (mu (getScratch node)) / sigma_sq
     - 1 / 2 * (precision (endNodeModel (model fit)) * numEffectiveObservations (getScratch node)
                * (mu (getScratch node))\<^sup>2)
         / (sigma_sq * (precision (endNodeModel (model fit))
                        + numEffectiveObservations (getScratch node) / sigma_sq))
   \<and> (numEffectiveObservations (getScratch node) = real (getNumObservations node) \<longrightarrow>
        logIntegratedLikelihood st fit node y sigma_sq =
          specLogIntegratedLikelihood (precision (endNodeModel (model fit))) sigma_sq
            (numEffectiveObservations (getScratch node)) (mu (getScratch node))
            (computeVarianceForNode st fit node y (mu (getScratch node))))
   \<and> (weights (data fit) = None \<longrightarrow>
        numEffectiveObservations
          (getScratch (prepareScratchForLikelihoodAndPosteriorCalculations st fit node y))
        = real (getNumObservations node))"
proof (intro conjI impI)
  show "logIntegratedLikelihood st fit node y sigma_sq =
     1 / 2 * ln (precision (endNodeModel (model fit))
                 / (precision (endNodeModel (model fit))
                    + numEffectiveObservations (getScratch node) / sigma_sq))
     - 1 / 2 * (real (getNumObservations node) - 1)
         * computeVarianceForNode st fit node y (mu (getScratch node)) / sigma_sq
     - 1 / 2 * (precision (endNodeModel (model fit)) * numEffectiveObservations (getScratch node)
                * (mu (getScratch node))\<^sup>2)
         / (sigma_sq * (precision (endNodeModel (model fit))
                        + numEffectiveObservations (getScratch node) / sigma_sq))"
    using assms by (rule logIntegratedLikelihood_unfold)
next
  assume "numEffectiveObservations (getScratch node) = real (getNumObservations node)"
  then show "logIntegratedLikelihood st fit node y sigma_sq =
          specLogIntegratedLikelihood (precision (endNodeModel (model fit))) sigma_sq
            (numEffectiveObservations (getScratch node)) (mu (getScratch node))
            (computeVarianceForNode st fit node y (mu (getScratch node)))"
    using logIntegratedLikelihood_unfold [OF assms, of st fit y sigma_sq]
    by (simp add: specLogIntegratedLikelihood_def)
next
  assume "weights (data fit) = None"
  then show "numEffectiveObservations
          (getScratch (prepareScratchForLikelihoodAndPosteriorCalculations st fit node y))
        = real (getNumObservations node)"
    by (simp add: prepareScratchForLikelihoodAndPosteriorCalculations_def Let_def)
qed

text \<open>
  A leaf of two observations with the weights 2 and 2: its effective number of
  observations is 4, and with the residuals 1 and -1 around the mean 0 its variance is 4.
\<close>

lemma leafW_scratch:
  "getScratch (updateScratchWithMemberships fitW leafW) = \<lparr>mu = 0, numEffectiveObservations = 4\<rparr>"
  by (simp add: updateScratchWithMemberships_def fitW_def fitQ_def leafW_def)

lemma leafW_numObservations: "getNumObservations (updateScratchWithMemberships fitW leafW) = 2"
  by (simp add: updateScratchWithMemberships_def fitW_def fitQ_def leafW_def getNumObservations_def)

lemma leafW_variance:
  "computeVarianceForNode stats_ref fitW (updateScratchWithMemberships fitW leafW) [1, - 1, 0] 0 = 4"
  by (simp add: computeVarianceForNode_def updateScratchWithMemberships_def fitW_def fitQ_def
      leafW_def stats_ref_def getNumObservations_def)

lemma fitW_precision: "precision (endNodeModel (model fitW)) = 1"
  by (simp add: fitW_def fitQ_def)

theorem logIntegratedLikelihood_count_less_one_witness:
  "0 < getNumObservations (updateScratchWithMemberships fitW leafW)
   \<and> logIntegratedLikelihood stats_ref fitW (updateScratchWithMemberships fitW leafW) [1, - 1, 0] 1
       = 1 / 2 * ln (1 / 5) - 2"
  using logIntegratedLikelihood_count_less_one
    [of "updateScratchWithMemberships fitW leafW" stats_ref fitW "[1, - 1, 0]" 1]
  by (simp add: leafW_scratch leafW_numObservations leafW_variance fitW_precision)

text \<open>
  Claim C2 as stated fails on that leaf: the code gives \<open>1/2 ln (1/5) - 2\<close>, the formula
  with \<open>n_eff - 1 = 3\<close> gives \<open>1/2 ln (1/5) - 6\<close>.
\<close>

theorem logIntegratedLikelihood_not_effective_count:
  "0 < getNumObservations (updateScratchWithMemberships fitW leafW)
   \<and> logIntegratedLikelihood stats_ref fitW (updateScratchWithMemberships fitW leafW) [1, - 1, 0] 1
       \<noteq> specLogIntegratedLikelihood (precision (endNodeModel (model fitW))) 1
            (numEffectiveObservations (getScratch (updateScratchWithMemberships fitW leafW)))
            (mu (getScratch (updateScratchWithMemberships fitW leafW)))
            (computeVarianceForNode stats_ref fitW (updateScratchWithMemberships fitW leafW)
               [1, - 1, 0] (mu (getScratch (updateScratchWithMemberships fitW leafW))))"
  using logIntegratedLikelihood_unfold
    [of "updateScratchWithMemberships fitW leafW" stats_ref fitW "[1, - 1, 0]" 1]
  by (simp add: leafW_scratch leafW_numObservations leafW_variance fitW_precision
      specLogIntegratedLikelihood_def)

section \<open>Replacing the response or the offset\<close>

lemma upt3: "[Suc 0..<3] = [1, 2]" "[0..<3] = [0, 1, 2]" "[1..<3] = [1, 2]"
  by (simp_all add: upt_conv_Cons)

lemma rescaleResponse_returns:
  assumes "0 < numObservations (data fit)"
  obtains fit1 where "rescaleResponse fit = Inr fit1" "model fit1 = model fit"
    "control fit1 = control fit" "data fit1 = data fit"
  using assms by (simp add: rescaleResponse_def Let_def)

lemma rescaleSigmaAndPrior_values:
  assumes "HAS_SCALE_PARAMETER (responseModel (model fit1))"
  shows "sigma (responseModel (model (rescaleSigmaAndPrior su pu fit1)))
           = su / dataScale_range (dataScale (scratch fit1))"
    and "priorScale (responseModel (model (rescaleSigmaAndPrior su pu fit1)))
           = pu / (dataScale_range (dataScale (scratch fit1)) * dataScale_range (dataScale (scratch fit1)))"
    and "scratch (rescaleSigmaAndPrior su pu fit1) = scratch fit1"
  using assms by (simp_all add: rescaleSigmaAndPrior_def Let_def setScale_def)

lemma rescaled_after:
  assumes "rescaleResponse fit0 = Inr fit1" "model fit1 = model fit0"
    and "HAS_SCALE_PARAMETER (responseModel (model fit0))"
    and "scratch fit0 = scratch fit" "model fit0 = model fit"
  shows "rescaled fit
     (rescaleSigmaAndPrior
        (sigma (responseModel (model fit)) * dataScale_range (dataScale (scratch fit)))
        (getScale (responseModel (model fit)) * dataScale_range (dataScale (scratch fit))
           * dataScale_range (dataScale (scratch fit))) fit1)"
  using assms
  by (simp add: rescaled_def Let_def rescaleSigmaAndPrior_values getScale_def power2_eq_square)

text \<open>
  Claim C6. On a fit with a continuous response, whose response model has a scale
  parameter, \<open>setResponse\<close> and \<open>setOffset\<close> return a fit with
  \<open>scale_new = scale_old \<cdot> (oldRange / newRange)\<^sup>2\<close> and
  \<open>sigma_new = sigma_old \<cdot> (oldRange / newRange)\<close>, the ranges being those of the data
  scale before and after the call; where the new range is not zero, sigma and the prior
  scale in the units of the data are the same before and after.
\<close>

theorem setResponse_setOffset_rescale:
  assumes "\<not> responseIsBinary (control fit)"
    and "HAS_SCALE_PARAMETER (responseModel (model fit))"
    and "0 < numObservations (data fit)"
  shows "(\<exists>fit'. setResponse rn fit newY = Inr fit' \<and> rescaled fit fit')
       \<and> (\<exists>fit'. setOffset rn fit newOffset = Inr fit' \<and> rescaled fit fit')"
proof
  let ?f = "fit\<lparr>data := (data fit)\<lparr>data_y := newY\<rparr>\<rparr>"
  have "0 < numObservations (data ?f)" using assms(3) by simp
  then obtain fit1 where f1: "rescaleResponse ?f = Inr fit1" "model fit1 = model ?f"
    by (rule rescaleResponse_returns)
  have "rescaled fit (rescaleSigmaAndPrior
        (sigma (responseModel (model fit)) * dataScale_range (dataScale (scratch fit)))
        (getScale (responseModel (model fit)) * dataScale_range (dataScale (scratch fit))
           * dataScale_range (dataScale (scratch fit))) fit1)"
    by (rule rescaled_after [OF f1]) (simp_all add: assms(2))
  then show "\<exists>fit'. setResponse rn fit newY = Inr fit' \<and> rescaled fit fit'"
    using assms(1) f1(1) by (simp add: setResponse_def Let_def)
next
  let ?f = "fit\<lparr>data := (data fit)\<lparr>offset := newOffset\<rparr>\<rparr>"
  have "0 < numObservations (data ?f)" using assms(3) by simp
  then obtain fit1 where f1: "rescaleResponse ?f = Inr fit1" "model fit1 = model ?f"
    by (rule rescaleResponse_returns)
  have "rescaled fit (rescaleSigmaAndPrior
        (sigma (responseModel (model fit)) * dataScale_range (dataScale (scratch fit)))
        (getScale (responseModel (model fit)) * dataScale_range (dataScale (scratch fit))
           * dataScale_range (dataScale (scratch fit))) fit1)"
    by (rule rescaled_after [OF f1]) (simp_all add: assms(2))
  then show "\<exists>fit'. setOffset rn fit newOffset = Inr fit' \<and> rescaled fit fit'"
    using assms(1) f1(1) by (simp add: setOffset_def Let_def)
qed

text \<open>
  On \<open>fitQ\<close> the range of the data is 4. The response \<open>[0, 2, 8]\<close> has the range 8: sigma
  goes from 1 to 1/2 and the prior scale from 3 to 3/4. With the offset \<open>[0, 1, 2]\<close> the
  range is 2: sigma becomes 2 and the prior scale 12.
\<close>

lemma fitQ_setResponse:
  "setResponse random_ref fitQ [0, 2, 8]
     = Inr (fitQ\<lparr>model := (model fitQ)\<lparr>responseModel :=
                     \<lparr>sigma = 1 / 2, priorScale = 3 / 4, HAS_SCALE_PARAMETER = True\<rparr>\<rparr>,
                  data := (data fitQ)\<lparr>data_y := [0, 2, 8]\<rparr>,
                  scratch := (scratch fitQ)
                    \<lparr>yRescaled := [- 1 / 2, - 1 / 4, 1 / 2],
                     dataScale := \<lparr>dataScale_min = 0, dataScale_max = 8, dataScale_range = 8\<rparr>\<rparr>\<rparr>)"
  by (simp add: setResponse_def rescaleResponse_def rescaleSigmaAndPrior_def fitQ_def Let_def
      memcpy_def ext_addScalarToVectorInPlace_def ext_scalarMultiplyVectorInPlace_def upt3
      getScale_def setScale_def)

lemma fitQ_setOffset:
  "setOffset random_ref fitQ (Some [0, 1, 2])
     = Inr (fitQ\<lparr>model := (model fitQ)\<lparr>responseModel :=
                     \<lparr>sigma = 2, priorScale = 12, HAS_SCALE_PARAMETER = True\<rparr>\<rparr>,
                  data := (data fitQ)\<lparr>offset := Some [0, 1, 2]\<rparr>,
                  scratch := (scratch fitQ)
                    \<lparr>yRescaled := [- 1 / 2, - 1 / 2, 1 / 2],
                     dataScale := \<lparr>dataScale_min = 0, dataScale_max = 2, dataScale_range = 2\<rparr>\<rparr>\<rparr>)"
  by (simp add: setOffset_def rescaleResponse_def rescaleSigmaAndPrior_def fitQ_def Let_def
      ext_addVectors_def ext_addScalarToVectorInPlace_def ext_scalarMultiplyVectorInPlace_def upt3
      getScale_def setScale_def)

theorem setResponse_setOffset_rescale_witness:
  "\<not> responseIsBinary (control fitQ) \<and> HAS_SCALE_PARAMETER (responseModel (model fitQ))
   \<and> 0 < numObservations (data fitQ)
   \<and> (\<exists>fit'. setResponse random_ref fitQ [0, 2, 8] = Inr fit' \<and> rescaled fitQ fit'
         \<and> dataScale_range (dataScale (scratch fitQ)) = 4
         \<and> dataScale_range (dataScale (scratch fit')) = 8
         \<and> sigma (responseModel (model fit')) = 1 / 2
         \<and> priorScale (responseModel (model fit')) = 3 / 4)
   \<and> (\<exists>fit'. setOffset random_ref fitQ (Some [0, 1, 2]) = Inr fit' \<and> rescaled fitQ fit'
         \<and> dataScale_range (dataScale (scratch fit')) = 2
         \<and> sigma (responseModel (model fit')) = 2
         \<and> priorScale (responseModel (model fit')) = 12)"
  using setResponse_setOffset_rescale [of fitQ random_ref "[0, 2, 8]" "Some [0, 1, 2]"]
  by (simp add: fitQ_setResponse fitQ_setOffset) (simp add: fitQ_def)

section \<open>Cut points from quantiles\<close>

lemma sortedDistinct_length: "length (sortedDistinct fit x) \<le> numObservations (data fit)"
proof -
  have "length (remdups (map (\<lambda>i. x ! i) [0..<numObservations (data fit)]))
          \<le> length (map (\<lambda>i. x ! i) [0..<numObservations (data fit)])"
    by (rule length_remdups_leq)
  then show ?thesis by (simp add: sortedDistinct_def)
qed

lemma size_t_minus_eq:
  assumes "b \<le> a" "a < 2 ^ 64"
  shows "size_t_minus a b = a - b"
proof -
  have "a + 2 ^ 64 - b = (a - b) + 2 ^ 64" using assms(1) by (rule Nat.diff_add_assoc2)
  then have "size_t_minus a b = ((a - b) + 2 ^ 64) mod 2 ^ 64"
    unfolding size_t_minus_def by (rule arg_cong)
  also have "\<dots> = (a - b) mod 2 ^ 64" by (rule mod_add_self2)
  also have "\<dots> = a - b" by (rule mod_less) (rule less_imp_diff_less [OF assms(2)])
  finally show ?thesis .
qed

lemma unat_plus_one_le: "unat (w + 1 :: 32 word) \<le> unat w + 1"
  by (simp add: unat_word_ariths)

lemma quantiles_initial:
  assumes big: "unat maxNumCuts' + 1 < length (sortedDistinct fit x)"
    and n: "numObservations (data fit) < 2 ^ 64"
  shows "setCutPointsFromQuantiles fit x maxNumCuts' (- 1) cutPoints'
     = Inr (maxNumCuts',
            map (specQuantileCutPoint (sortedDistinct fit x) (unat maxNumCuts')) [0..<unat maxNumCuts'])"
proof -
  let ?v = "sortedDistinct fit x"
  have v: "sort (remdups (map (\<lambda>i. x ! i) [0..<numObservations (data fit)])) = ?v"
    by (simp add: sortedDistinct_def)
  have nle: "\<not> length ?v \<le> unat (maxNumCuts' + 1)"
    using big unat_plus_one_le [of maxNumCuts'] by linarith
  have two: "2 \<le> length ?v" using big by linarith
  have lt: "length ?v < 2 ^ 64" using sortedDistinct_length [of fit x] n by (rule le_less_trans)
  have m2: "size_t_minus (length ?v) 2 = length ?v - 2"
    using two lt by (rule size_t_minus_eq)
  have nl2: "\<not> length ?v < 2" using two by simp
  show ?thesis
    unfolding setCutPointsFromQuantiles_def v Let_def
    by (simp add: nle nl2 m2 specQuantileCutPoint_def Let_def del: One_nat_def)
qed

text \<open>
  In that case \<open>numCuts < numUnique\<close>, so the integer quotient \<open>numCuts / numUnique\<close> is
  0: every index is 0 and every cut point is the midpoint of the first gap.
\<close>

lemma specQuantileCutPoint_first_gap:
  "numCuts < length v \<Longrightarrow> specQuantileCutPoint v numCuts i = (v ! 0 + v ! 1) / 2"
  by (simp add: specQuantileCutPoint_def Let_def)

lemma specQuantileCutPoint_index:
  "specQuantileCutPoint v numCuts i
     = (v ! quantileIndex numCuts (length v) i + v ! (quantileIndex numCuts (length v) i + 1)) / 2"
  by (simp add: specQuantileCutPoint_def quantileIndex_def Let_def)

lemma quantileIndex_zero: "numCuts < numUnique \<Longrightarrow> quantileIndex numCuts numUnique i = 0"
  by (simp add: quantileIndex_def)

lemma not_specEvenlySpaced:
  assumes "2 \<le> n"
  shows "\<not> specEvenlySpaced (map (\<lambda>i. 0) [0..<n])"
proof
  assume "specEvenlySpaced (map (\<lambda>i. 0) [0..<n])"
  then have "\<forall>i. \<not> i < n - Suc 0"
    by (simp add: specEvenlySpaced_def list_all_iff)
  then have "\<not> 0 < n - Suc 0" by blast
  then show False using assms by simp
qed

text \<open>
  Claim C5. In quantile mode, on a column that has no cut points yet and more than
  \<open>maxNumCuts + 1\<close> distinct values \<open>v\<close>, \<open>numCuts\<close> is set to \<open>maxNumCuts\<close> and the
  \<open>i\<close>-th cut point is \<open>(v[idx] + v[idx + 1]) / 2\<close> with
  \<open>idx = min(i \<cdot> (numCuts / numUnique) + (numCuts / numUnique) / 2, numUnique - 2)\<close> in
  integer arithmetic. But every such \<open>idx\<close> is 0: all cut points are the midpoint of the
  two smallest values, and with two cut points or more the chosen indices are not evenly
  spaced in the sorted distinct values. The number of observations is a \<^verbatim>\<open>size_t\<close>.
\<close>

theorem setCutPointsFromQuantiles_indices_all_zero:
  assumes "unat maxNumCuts' + 1 < length (sortedDistinct fit x)"
    and "numObservations (data fit) < 2 ^ 64"
  shows "\<exists>cp. setCutPointsFromQuantiles fit x maxNumCuts' (- 1) cutPoints' = Inr (maxNumCuts', cp)
           \<and> length cp = unat maxNumCuts'
           \<and> (\<forall>i < unat maxNumCuts'.
                 cp ! i = specQuantileCutPoint (sortedDistinct fit x) (unat maxNumCuts') i
                 \<and> quantileIndex (unat maxNumCuts') (length (sortedDistinct fit x)) i = 0
                 \<and> cp ! i = (sortedDistinct fit x ! 0 + sortedDistinct fit x ! 1) / 2)
           \<and> (2 \<le> unat maxNumCuts' \<longrightarrow>
                 \<not> specEvenlySpaced
                      (map (quantileIndex (unat maxNumCuts') (length (sortedDistinct fit x)))
                         [0..<unat maxNumCuts']))"
proof -
  let ?v = "sortedDistinct fit x"
  let ?n = "unat maxNumCuts'"
  have lt: "?n < length ?v" using assms(1) by simp
  have ix: "map (quantileIndex ?n (length ?v)) [0..<?n] = map (\<lambda>i. 0) [0..<?n]"
    by (simp add: quantileIndex_zero [OF lt])
  have "setCutPointsFromQuantiles fit x maxNumCuts' (- 1) cutPoints'
          = Inr (maxNumCuts', map (specQuantileCutPoint ?v ?n) [0..<?n])"
    by (rule quantiles_initial [OF assms])
  moreover have "\<forall>i < ?n. map (specQuantileCutPoint ?v ?n) [0..<?n] ! i = specQuantileCutPoint ?v ?n i
                 \<and> quantileIndex ?n (length ?v) i = 0
                 \<and> map (specQuantileCutPoint ?v ?n) [0..<?n] ! i = (?v ! 0 + ?v ! 1) / 2"
    by (simp add: specQuantileCutPoint_first_gap [OF lt] quantileIndex_zero [OF lt])
  moreover have "2 \<le> ?n \<longrightarrow> \<not> specEvenlySpaced (map (quantileIndex ?n (length ?v)) [0..<?n])"
    unfolding ix using not_specEvenlySpaced by blast
  ultimately show ?thesis by simp
qed

lemma fit5_sortedDistinct: "sortedDistinct fit5 [5, 1, 4, 2, 3] = [1, 2, 3, 4, 5]"
  by (simp add: sortedDistinct_def fit5_def fitQ_def upt_conv_Cons)

lemma fit5_numObservations: "numObservations (data fit5) = 5"
  by (simp add: fit5_def)

text \<open>
  The column \<open>[5, 1, 4, 2, 3]\<close> with at most two cut points: both indices are 0 and both
  cut points are 1.5, the midpoint of 1 and 2.
\<close>

theorem setCutPointsFromQuantiles_indices_all_zero_witness:
  "unat (2 :: 32 word) + 1 < length (sortedDistinct fit5 [5, 1, 4, 2, 3])
   \<and> numObservations (data fit5) < 2 ^ 64
   \<and> sortedDistinct fit5 [5, 1, 4, 2, 3] = [1, 2, 3, 4, 5]
   \<and> setCutPointsFromQuantiles fit5 [5, 1, 4, 2, 3] 2 (- 1) [] = Inr (2, [3 / 2, 3 / 2])
   \<and> map (quantileIndex 2 5) [0, 1] = [0, 0]
   \<and> (2 :: nat) \<le> unat (2 :: 32 word)
   \<and> \<not> specEvenlySpaced
          (map (quantileIndex (unat (2 :: 32 word)) (length (sortedDistinct fit5 [5, 1, 4, 2, 3])))
             [0..<unat (2 :: 32 word)])"
proof -
  have a: "unat (2 :: 32 word) + 1 < length (sortedDistinct fit5 [5, 1, 4, 2, 3])"
    by (simp add: fit5_sortedDistinct)
  have b: "numObservations (data fit5) < 2 ^ 64" by (simp add: fit5_numObservations)
  obtain cp where cp: "setCutPointsFromQuantiles fit5 [5, 1, 4, 2, 3] 2 (- 1) [] = Inr (2, cp)"
    "length cp = unat (2 :: 32 word)"
    "\<forall>i < unat (2 :: 32 word).
       cp ! i = specQuantileCutPoint (sortedDistinct fit5 [5, 1, 4, 2, 3]) (unat (2 :: 32 word)) i
       \<and> quantileIndex (unat (2 :: 32 word)) (length (sortedDistinct fit5 [5, 1, 4, 2, 3])) i = 0
       \<and> cp ! i = (sortedDistinct fit5 [5, 1, 4, 2, 3] ! 0 + sortedDistinct fit5 [5, 1, 4, 2, 3] ! 1) / 2"
    "2 \<le> unat (2 :: 32 word) \<longrightarrow>
       \<not> specEvenlySpaced
            (map (quantileIndex (unat (2 :: 32 word)) (length (sortedDistinct fit5 [5, 1, 4, 2, 3])))
               [0..<unat (2 :: 32 word)])"
    using setCutPointsFromQuantiles_indices_all_zero [OF a b, of "[]"] by blast
  have z: "(0 :: nat) < unat (2 :: 32 word)" "(1 :: nat) < unat (2 :: 32 word)"
    "(2 :: nat) \<le> unat (2 :: 32 word)"
    by simp_all
  have "cp ! 0 = (sortedDistinct fit5 [5, 1, 4, 2, 3] ! 0 + sortedDistinct fit5 [5, 1, 4, 2, 3] ! 1) / 2"
    "cp ! 1 = (sortedDistinct fit5 [5, 1, 4, 2, 3] ! 0 + sortedDistinct fit5 [5, 1, 4, 2, 3] ! 1) / 2"
    using cp(3) z(1,2) by blast+
  then have "cp ! 0 = 3 / 2" "cp ! 1 = 3 / 2"
    by (simp_all add: fit5_sortedDistinct)
  moreover have "length cp = 2" using cp(2) by simp
  ultimately have c: "cp = [3 / 2, 3 / 2]"
    by (simp add: list_eq_iff_nth_eq nth_Cons' less_Suc_eq numeral_2_eq_2)
  have q: "map (quantileIndex 2 5) [0, 1] = [0, 0]"
    by (simp add: quantileIndex_def)
  have e: "\<not> specEvenlySpaced
          (map (quantileIndex (unat (2 :: 32 word)) (length (sortedDistinct fit5 [5, 1, 4, 2, 3])))
             [0..<unat (2 :: 32 word)])"
    using cp(4) z(3) by blast
  show ?thesis
    by (intro conjI a b fit5_sortedDistinct q z(3) e) (simp add: cp(1) c)
qed

section \<open>The total fit is the sum of the tree fits\<close>

lemma fitsConsistent_iff:
  "fitsConsistent fit \<longleftrightarrow>
     (\<forall>i<numObservations (data fit).
        totalFits (state fit) ! i = (\<Sum>t<numTrees (control fit). treeFits (state fit) ! t ! i))"
  by (auto simp add: fitsConsistent_def list_all_iff interv_sum_list_conv_sum_set_nat
      lessThan_atLeast0)

lemma nth_ext_addVectorsInPlace:
  "i < n \<Longrightarrow> ext_addVectorsInPlace x n a y ! i = y ! i + a * x ! i"
  by (simp add: ext_addVectorsInPlace_def nth_append)

lemma nth_memcpy: "i < n \<Longrightarrow> memcpy dst src n ! i = src ! i"
  by (simp add: memcpy_def nth_append)

lemma nth_updateTotalFits:
  "i < n \<Longrightarrow> updateTotalFits old cur n tot ! i = tot ! i - old ! i + cur ! i"
  by (simp add: updateTotalFits_def nth_ext_addVectorsInPlace)

lemma sum_treeFits_update:
  assumes "t < T" "T = length tf"
  shows "(\<Sum>s<T. tf[t := r] ! s ! i) = (\<Sum>s<T. tf ! s ! i) - tf ! t ! i + (r :: real list) ! i"
proof -
  have fin: "finite {..<T}" and mem: "t \<in> {..<T}" using assms by simp_all
  have "(\<Sum>s<T. tf[t := r] ! s ! i) = tf[t := r] ! t ! i + (\<Sum>s\<in>{..<T} - {t}. tf[t := r] ! s ! i)"
    by (rule sum.remove [OF fin mem])
  also have "(\<Sum>s\<in>{..<T} - {t}. tf[t := r] ! s ! i) = (\<Sum>s\<in>{..<T} - {t}. tf ! s ! i)"
    by (rule sum.cong) simp_all
  also have "tf[t := r] ! t ! i = r ! i" using assms by simp
  finally have a: "(\<Sum>s<T. tf[t := r] ! s ! i) = r ! i + (\<Sum>s\<in>{..<T} - {t}. tf ! s ! i)" .
  have b: "(\<Sum>s<T. tf ! s ! i) = tf ! t ! i + (\<Sum>s\<in>{..<T} - {t}. tf ! s ! i)"
    by (rule sum.remove [OF fin mem])
  show ?thesis by (simp add: a b)
qed

lemma consistent_step:
  assumes al: "fitsAllocated fit" and co: "fitsConsistent fit"
    and t: "t < numTrees (control fit)"
    and c': "control fit' = control fit" and d': "numObservations (data fit') = numObservations (data fit)"
    and tf: "treeFits (state fit') = (treeFits (state fit))[t := r]"
    and tot: "\<forall>i<numObservations (data fit).
                totalFits (state fit') ! i
                  = totalFits (state fit) ! i - treeFits (state fit) ! t ! i + r ! i"
  shows "fitsAllocated fit' \<and> fitsConsistent fit'"
proof
  show "fitsAllocated fit'" using al by (simp add: fitsAllocated_def c' tf)
next
  have len: "numTrees (control fit) = length (treeFits (state fit))"
    using al by (simp add: fitsAllocated_def)
  show "fitsConsistent fit'"
    unfolding fitsConsistent_iff c' d' tf
  proof (intro allI impI)
    fix i assume i: "i < numObservations (data fit)"
    have "totalFits (state fit) ! i = (\<Sum>s<numTrees (control fit). treeFits (state fit) ! s ! i)"
      using co i by (simp add: fitsConsistent_iff)
    then show "totalFits (state fit') ! i
        = (\<Sum>s<numTrees (control fit). (treeFits (state fit))[t := r] ! s ! i)"
      using tot i sum_treeFits_update [OF t len, of r i] by simp
  qed
qed

lemma treeIteration_state:
  "control (sv_fit (treeIteration e thin sq i s)) = control (sv_fit s)"
  "data (sv_fit (treeIteration e thin sq i s)) = data (sv_fit s)"
  "treeFits (state (sv_fit (treeIteration e thin sq i s)))
     = (treeFits (state (sv_fit s)))
         [i := memcpy (treeFits (state (sv_fit s)) ! i) (currFits (treeIteration e thin sq i s))
                 (numObservations (data (sv_fit s)))]"
  "totalFits (state (sv_fit (treeIteration e thin sq i s)))
     = updateTotalFits (treeFits (state (sv_fit s)) ! i) (currFits (treeIteration e thin sq i s))
         (numObservations (data (sv_fit s))) (totalFits (state (sv_fit s)))"
  by (simp_all add: treeIteration_def Let_def setTree_def)

lemma treeIteration_fits:
  assumes "fitsAllocated (sv_fit s)" "fitsConsistent (sv_fit s)" "i < numTrees (control (sv_fit s))"
  shows "fitsAllocated (sv_fit (treeIteration e thin sq i s))
       \<and> fitsConsistent (sv_fit (treeIteration e thin sq i s))"
  by (rule consistent_step [OF assms, where r = "memcpy (treeFits (state (sv_fit s)) ! i)
         (currFits (treeIteration e thin sq i s)) (numObservations (data (sv_fit s)))"])
     (simp_all add: treeIteration_state nth_updateTotalFits nth_memcpy)

lemma updateTrainingFits_tree_state:
  "control (updateTrainingFits_tree e i fit) = control fit"
  "data (updateTrainingFits_tree e i fit) = data fit"
  "scratch (updateTrainingFits_tree e i fit) = scratch fit"
  "trees (state (updateTrainingFits_tree e i fit)) = trees (state fit)"
  by (simp_all add: updateTrainingFits_tree_def Let_def)

lemma updateTrainingFits_tree_treeFits:
  "i < length (treeFits (state fit)) \<Longrightarrow>
   treeFits (state (updateTrainingFits_tree e i fit))
     = (treeFits (state fit))[i := treeFits (state (updateTrainingFits_tree e i fit)) ! i]"
  by (simp add: updateTrainingFits_tree_def Let_def)

lemma updateTrainingFits_tree_total:
  assumes "i < length (treeFits (state fit))" "j < numObservations (data fit)"
  shows "totalFits (state (updateTrainingFits_tree e i fit)) ! j
     = totalFits (state fit) ! j - treeFits (state fit) ! i ! j
       + treeFits (state (updateTrainingFits_tree e i fit)) ! i ! j"
  using assms by (simp add: updateTrainingFits_tree_def Let_def nth_ext_addVectorsInPlace)

lemma updateTrainingFits_tree_fits:
  assumes "fitsAllocated fit" "fitsConsistent fit" "i < numTrees (control fit)"
  shows "fitsAllocated (updateTrainingFits_tree e i fit)
       \<and> fitsConsistent (updateTrainingFits_tree e i fit)"
proof (rule consistent_step [OF assms, where r = "treeFits (state (updateTrainingFits_tree e i fit)) ! i"])
  show "control (updateTrainingFits_tree e i fit) = control fit"
    by (simp add: updateTrainingFits_tree_state)
  show "numObservations (data (updateTrainingFits_tree e i fit)) = numObservations (data fit)"
    by (simp add: updateTrainingFits_tree_state)
  have len: "i < length (treeFits (state fit))" using assms(1,3) by (simp add: fitsAllocated_def)
  then show "treeFits (state (updateTrainingFits_tree e i fit))
     = (treeFits (state fit))[i := treeFits (state (updateTrainingFits_tree e i fit)) ! i]"
    by (rule updateTrainingFits_tree_treeFits)
  from len show "\<forall>j<numObservations (data fit).
       totalFits (state (updateTrainingFits_tree e i fit)) ! j
         = totalFits (state fit) ! j - treeFits (state fit) ! i ! j
           + treeFits (state (updateTrainingFits_tree e i fit)) ! i ! j"
    by (simp add: updateTrainingFits_tree_total)
qed

lemma fold_updateTrainingFits_tree:
  assumes "fitsAllocated fit" "fitsConsistent fit" "\<forall>i\<in>set ixs. i < numTrees (control fit)"
  shows "fitsAllocated (fold (updateTrainingFits_tree e) ixs fit)
       \<and> fitsConsistent (fold (updateTrainingFits_tree e) ixs fit)"
  using assms
proof (induction ixs arbitrary: fit)
  case Nil
  then show ?case by simp
next
  case (Cons i ixs)
  have step: "fitsAllocated (updateTrainingFits_tree e i fit)"
    "fitsConsistent (updateTrainingFits_tree e i fit)"
    using updateTrainingFits_tree_fits [of fit i e] Cons.prems by simp_all
  have "\<forall>k\<in>set ixs. k < numTrees (control (updateTrainingFits_tree e i fit))"
    using Cons.prems(3) by (simp add: updateTrainingFits_tree_state)
  then show ?case using Cons.IH [OF step] by simp
qed

lemma updateTrainingFits_fits:
  assumes "fitsAllocated fit" "fitsConsistent fit"
  shows "fitsAllocated (updateTrainingFits e fit) \<and> fitsConsistent (updateTrainingFits e fit)"
  unfolding updateTrainingFits_def
  by (rule fold_updateTrainingFits_tree [OF assms]) simp


lemma sameFits_refl: "sameFits fit fit"
  by (simp add: sameFits_def)

lemma sameFits_trans: "sameFits a b \<Longrightarrow> sameFits b c \<Longrightarrow> sameFits a c"
  by (simp add: sameFits_def)

lemma sameFits_transfer:
  assumes "sameFits fit fit'" "fitsAllocated fit" "fitsConsistent fit"
  shows "fitsAllocated fit' \<and> fitsConsistent fit'"
  using assms by (simp add: sameFits_def fitsAllocated_def fitsConsistent_def)

lemma fold_sameFits:
  assumes "\<And>x s. sameFits s (f x s)"
  shows "sameFits s (fold f xs s)"
proof (induction xs arbitrary: s)
  case Nil
  show ?case by (simp add: sameFits_refl)
next
  case (Cons x xs)
  show ?case using assms [of s x] Cons [of "f x s"] by (auto intro: sameFits_trans)
qed

lemma sameFits_setTree: "sameFits fit (setTree fit i t)"
  by (simp add: sameFits_def setTree_def)

lemma sameFits_storeCutPoints: "sameFits fit (storeCutPoints fit col r)"
  by (simp add: sameFits_def storeCutPoints_def)

lemma sameFits_installColumn: "sameFits fit (installColumn p cols i fit)"
  by (simp add: sameFits_def installColumn_def Let_def)

lemma sameFits_setCutPoints_loop:
  "setCutPoints_loop q mnc fit cols = Inr fit' \<Longrightarrow> sameFits fit fit'"
proof (induction cols arbitrary: fit)
  case Nil
  then show ?case by (simp add: sameFits_refl)
next
  case (Cons col cols)
  then show ?case
    by (auto split: sum.splits if_splits
        intro: sameFits_trans [OF sameFits_storeCutPoints])
qed

lemma sameFits_setCutPoints: "setCutPoints fit cols = Inr fit' \<Longrightarrow> sameFits fit fit'"
  by (auto simp: setCutPoints_def sameFits_refl split: option.splits if_splits
      dest: sameFits_setCutPoints_loop)

lemma sameFits_updateTreesWhileValid: "sameFits fit (fst (updateTreesWhileValid e sq fit))"
proof -
  have "sameFits fit (fst (fold (\<lambda>i (f, allTreesAreValid, treeNum).
             if allTreesAreValid
             then (let t = updateWithNewCovariates e f sq (trees (state f) ! i)
                   in (setTree f i t, isValid e t, Suc i))
             else (f, allTreesAreValid, treeNum)) ixs (f0, v0, n0)))"
    if "sameFits fit f0" for ixs f0 v0 n0
    using that
  proof (induction ixs arbitrary: f0 v0 n0)
    case Nil
    then show ?case by simp
  next
    case (Cons i ixs)
    show ?case
    proof (cases v0)
      case True
      have "sameFits fit (setTree f0 i (updateWithNewCovariates e f0 sq (trees (state f0) ! i)))"
        using Cons.prems sameFits_setTree by (rule sameFits_trans)
      then show ?thesis using True Cons.IH by (simp add: Let_def)
    next
      case False
      then show ?thesis using Cons.IH [OF Cons.prems] by simp
    qed
  qed
  then show ?thesis unfolding updateTreesWhileValid_def by (simp add: sameFits_refl)
qed

lemma setInitialFit_fits:
  "fitsAllocated (setInitialFit e fit) \<and> fitsConsistent (setInitialFit e fit)"
proof -
  let ?fit1 = "fit\<lparr>state := (state fit)
                   \<lparr>treeFits := replicate (numTrees (control fit)) (replicate (numObservations (data fit)) 0),
                    totalFits := replicate (numObservations (data fit)) 0,
                    totalTestFits := (if numTestObservations (data fit) > 0
                                      then replicate (numTestObservations (data fit)) 0
                                      else totalTestFits (state fit))\<rparr>\<rparr>"
  have a: "fitsAllocated ?fit1" by (simp add: fitsAllocated_def)
  have b: "fitsConsistent ?fit1" by (simp add: fitsConsistent_iff)
  have "sameFits ?fit1 (setInitialFit e fit)"
    unfolding setInitialFit_def Let_def
    by (rule sameFits_trans [OF _ fold_sameFits [where s = "?fit1"]])
       (simp_all add: sameFits_refl sameFits_setTree)
  then show ?thesis using a b by (rule sameFits_transfer)
qed

lemma setPredictor_fits:
  assumes "fitsAllocated fit" "fitsConsistent fit" "setPredictor e fit newPredictor = Inr (True, fit')"
  shows "fitsAllocated fit' \<and> fitsConsistent fit'"
proof -
  obtain fit1 where f1: "setCutPoints fit [0..<numPredictors (data fit)] = Inr fit1"
    using assms(3) by (auto simp: setPredictor_def split: sum.splits)
  let ?fit3 = "fit1\<lparr>data := (data fit1)\<lparr>data_X := newPredictor\<rparr>,
     scratch := (scratch fit1)
        \<lparr>Xt := fold (\<lambda>col t. setXtColumn t (numObservations (data fit1)) col (newPredictor ! col))
                  [0..<numPredictors (data fit1)] (Xt (scratch fit1))\<rparr>\<rparr>"
  let ?sq = "sigma (responseModel (model fit1)) * sigma (responseModel (model fit1))"
  have eq: "fit' = updateTrainingFits e (fst (updateTreesWhileValid e ?sq ?fit3))"
    using assms(3) f1 by (simp add: setPredictor_def Let_def split: if_splits)
  have "sameFits fit fit1" using f1 by (rule sameFits_setCutPoints)
  moreover have "sameFits fit1 ?fit3" by (simp add: sameFits_def)
  moreover have "sameFits ?fit3 (fst (updateTreesWhileValid e ?sq ?fit3))"
    by (rule sameFits_updateTreesWhileValid)
  ultimately have "sameFits fit (fst (updateTreesWhileValid e ?sq ?fit3))"
    by (blast intro: sameFits_trans)
  then have "fitsAllocated (fst (updateTreesWhileValid e ?sq ?fit3))
           \<and> fitsConsistent (fst (updateTreesWhileValid e ?sq ?fit3))"
    using assms(1,2) by (rule sameFits_transfer)
  then show ?thesis unfolding eq by (simp add: updateTrainingFits_fits)
qed

lemma updatePredictors_fits:
  assumes "fitsAllocated fit" "fitsConsistent fit"
    "updatePredictors e fit newPredictor columns = Inr (True, fit')"
  shows "fitsAllocated fit' \<and> fitsConsistent fit'"
proof -
  obtain fit1 where f1: "setCutPoints fit columns = Inr fit1"
    using assms(3) by (auto simp: updatePredictors_def Let_def split: sum.splits)
  let ?fit2 = "fold (installColumn newPredictor columns) [0..<length columns] fit1"
  let ?sq = "sigma (responseModel (model ?fit2)) * sigma (responseModel (model ?fit2))"
  have eq: "fit' = updateTrainingFits e (fst (updateTreesWhileValid e ?sq ?fit2))"
    using assms(3) f1 by (simp add: updatePredictors_def Let_def split: if_splits)
  have "sameFits fit fit1" using f1 by (rule sameFits_setCutPoints)
  moreover have "sameFits fit1 ?fit2" by (rule fold_sameFits) (rule sameFits_installColumn)
  moreover have "sameFits ?fit2 (fst (updateTreesWhileValid e ?sq ?fit2))"
    by (rule sameFits_updateTreesWhileValid)
  ultimately have "sameFits fit (fst (updateTreesWhileValid e ?sq ?fit2))"
    by (blast intro: sameFits_trans)
  then have "fitsAllocated (fst (updateTreesWhileValid e ?sq ?fit2))
           \<and> fitsConsistent (fst (updateTreesWhileValid e ?sq ?fit2))"
    using assms(1,2) by (rule sameFits_transfer)
  then show ?thesis unfolding eq by (simp add: updateTrainingFits_fits)
qed

subsection \<open>The example fit, run\<close>

lemma upt_small: "[0..<1] = [0]" "[0..<2] = [0, 1]" "[Suc 0..<2] = [1]" "[1..<2] = [1]"
  by (simp_all add: upt_conv_Cons)

lemma fitQ_numObservations: "numObservations (data fitQ) = 3"
  by (simp add: fitQ_def)

lemma fitQ_quantiles_old:
  "setCutPointsFromQuantiles fitQ [1, 2, 3] 100 2 [3 / 2, 5 / 2] = Inr (2, [3 / 2, 5 / 2])"
  by (simp add: setCutPointsFromQuantiles_def fitQ_numObservations upt3 upt_small size_t_minus_eq Let_def)

lemma fitQ_quantiles_new_fresh:
  "setCutPointsFromQuantiles fitQ [1, 3, 3] 100 (- 1) [] = Inr (1, [2])"
  by (simp add: setCutPointsFromQuantiles_def fitQ_numObservations upt3 upt_small size_t_minus_eq Let_def)

lemma fitQ_quantiles_new:
  "setCutPointsFromQuantiles fitQ [1, 3, 3] 100 2 [3 / 2, 5 / 2] = Inl (ThrowError
     ''Number of induced cut points in new predictor less than previous: old splits would be invalid.'')"
  by (simp add: setCutPointsFromQuantiles_def fitQ_numObservations upt3 upt_small size_t_minus_eq Let_def)

lemma fitQ_setCutPoints: "setCutPoints fitQ [0] = Inr fitQ"
proof -
  have "setCutPointsFromQuantiles fitQ (data_X (data fitQ) ! 0) ([100] ! 0)
          (numCutsPerVariable (scratch fitQ) ! 0) (cutPoints (scratch fitQ) ! 0)
        = Inr (2, [3 / 2, 5 / 2])"
    using fitQ_quantiles_old by (simp add: fitQ_def)
  moreover have "storeCutPoints fitQ 0 (2, [3 / 2, 5 / 2]) = fitQ"
    by (simp add: storeCutPoints_def fitQ_def)
  moreover have "maxNumCuts (data fitQ) = Some [100]" "useQuantiles (control fitQ)"
    by (simp_all add: fitQ_def)
  ultimately show ?thesis by (simp add: setCutPoints_def)
qed

lemma fitQ_install:
  "fold (installColumn [[1, 3, 3]] [0]) [0..<length [0 :: nat]] fitQ = fitQ133"
  by (simp add: installColumn_def setXtColumn_def memcpy_def fitQ133_def fitQ_def upt3 upt_small Let_def)

lemma fitQ133_trees:
  "updateTreesWhileValid tree_ref sq fitQ133 = (fitQ133, True, 1)"
  by (simp add: updateTreesWhileValid_def fitQ133_def fitQ_def tree_ref_def setTree_def
      upt3 upt_small Let_def)

lemma fitQ133_fits: "updateTrainingFits tree_ref fitQ133 = fitQ133"
  by (simp add: updateTrainingFits_def updateTrainingFits_tree_def fitQ133_def fitQ_def tree_ref_def
      ext_addVectorsInPlace_def upt3 upt_small Let_def)

lemma fitQ_updatePredictors:
  "updatePredictors tree_ref fitQ [[1, 3, 3]] [0] = Inr (True, fitQ133)"
  using fitQ_install
  by (simp add: updatePredictors_def fitQ_setCutPoints Let_def fitQ133_trees fitQ133_fits)

lemma fitQ_setPredictor:
  "setPredictor tree_ref fitQ [[1, 3, 3]] = Inr (True, fitQ133)"
proof -
  have p: "[0..<numPredictors (data fitQ)] = [0]" by (simp add: fitQ_def upt_small)
  have x: "fitQ\<lparr>data := (data fitQ)\<lparr>data_X := [[1, 3, 3]]\<rparr>,
       scratch := (scratch fitQ)
          \<lparr>Xt := fold (\<lambda>col t. setXtColumn t (numObservations (data fitQ)) col ([[1, 3, 3]] ! col))
                    [0..<numPredictors (data fitQ)] (Xt (scratch fitQ))\<rparr>\<rparr> = fitQ133"
    by (simp add: setXtColumn_def fitQ133_def fitQ_def upt3 upt_small)
  show ?thesis
    unfolding setPredictor_def p fitQ_setCutPoints
    by (simp add: Let_def x fitQ133_trees fitQ133_fits)
qed

lemma fitQ_consistent: "fitsAllocated fitQ" "fitsConsistent fitQ"
  by (simp_all add: fitsAllocated_def fitsConsistent_def fitQ_def upt3 upt_small)

lemma svQ_treeIteration:
  "sv_fit (treeIteration tree_ref False 1 0 svQ)
     = fitQ\<lparr>state := (state fitQ)
               \<lparr>trees := [Parent 0 0 (Bottom [0] (- 1 / 2)) (Bottom [1, 2] (1 / 8))],
                treeFits := [[- 1 / 2, 1 / 8, 1 / 8]],
                totalFits := [- 1 / 2, 1 / 8, 1 / 8]\<rparr>,
            rng := 2\<rparr>"
  by (simp add: treeIteration_def svQ_def fitQ_def tree_ref_def setTree_def Let_def
      calculateResidualsFromOtherTreeFits_def updateTotalFits_def ext_addVectorsInPlace_def
      memcpy_def upt3 upt_small)


text \<open>
  Claim C8. For every observation the total fit is the sum of the fits of the trees:
  this holds after \<open>setInitialFit\<close>, and every pass of the loop over the trees in
  \<open>runSampler\<close>, every \<open>setPredictor\<close> that returns true and every \<open>updatePredictors\<close>
  that returns true keep it. The fit vectors hold one vector per tree throughout.
  Additions of doubles are those of the reals.
\<close>

theorem totalFits_sum_of_treeFits:
  "(fitsAllocated (setInitialFit e fit0) \<and> fitsConsistent (setInitialFit e fit0))
   \<and> (fitsAllocated (sv_fit s) \<and> fitsConsistent (sv_fit s) \<and> i < numTrees (control (sv_fit s))
        \<longrightarrow> fitsAllocated (sv_fit (treeIteration e thin sq i s))
            \<and> fitsConsistent (sv_fit (treeIteration e thin sq i s)))
   \<and> (fitsAllocated fit \<and> fitsConsistent fit \<and> setPredictor e fit newPredictor = Inr (True, fit1)
        \<longrightarrow> fitsAllocated fit1 \<and> fitsConsistent fit1)
   \<and> (fitsAllocated fit \<and> fitsConsistent fit
        \<and> updatePredictors e fit newColumns columns = Inr (True, fit2)
        \<longrightarrow> fitsAllocated fit2 \<and> fitsConsistent fit2)"
  using setInitialFit_fits [of e fit0] treeIteration_fits [of s i e thin sq]
    setPredictor_fits [of fit e newPredictor fit1]
    updatePredictors_fits [of fit e newColumns columns fit2]
  by blast

lemma fitQ_setInitialFit:
  "treeFits (state (setInitialFit tree_ref fitQ)) = [[0, 0, 0]]"
  "totalFits (state (setInitialFit tree_ref fitQ)) = [0, 0, 0]"
  by (simp_all add: setInitialFit_def fitQ_def tree_ref_def setTree_def Let_def upt3 upt_small
      numeral_3_eq_3)

theorem totalFits_sum_of_treeFits_witness:
  "fitsAllocated (sv_fit svQ) \<and> fitsConsistent (sv_fit svQ) \<and> 0 < numTrees (control (sv_fit svQ))
   \<and> fitsConsistent (setInitialFit tree_ref fitQ)
   \<and> totalFits (state (setInitialFit tree_ref fitQ)) = [0, 0, 0]
   \<and> treeFits (state (sv_fit (treeIteration tree_ref False 1 0 svQ))) = [[- 1 / 2, 1 / 8, 1 / 8]]
   \<and> totalFits (state (sv_fit (treeIteration tree_ref False 1 0 svQ))) = [- 1 / 2, 1 / 8, 1 / 8]
   \<and> fitsConsistent (sv_fit (treeIteration tree_ref False 1 0 svQ))
   \<and> fitsAllocated fitQ \<and> fitsConsistent fitQ
   \<and> setPredictor tree_ref fitQ [[1, 3, 3]] = Inr (True, fitQ133)
   \<and> updatePredictors tree_ref fitQ [[1, 3, 3]] [0] = Inr (True, fitQ133)
   \<and> fitsAllocated fitQ133 \<and> fitsConsistent fitQ133"
proof -
  have sv: "sv_fit svQ = fitQ" by (simp add: svQ_def)
  have n: "0 < numTrees (control fitQ)" by (simp add: fitQ_def)
  show ?thesis
    using totalFits_sum_of_treeFits [where e = tree_ref and ?fit0.0 = fitQ and s = svQ and i = 0
        and thin = False and sq = 1 and fit = fitQ and newPredictor = "[[1, 3, 3]]"
        and ?fit1.0 = fitQ133 and newColumns = "[[1, 3, 3]]" and columns = "[0]" and ?fit2.0 = fitQ133]
      fitQ_consistent n fitQ_setPredictor fitQ_updatePredictors
    by (simp add: sv svQ_treeIteration fitQ_setInitialFit)
qed

section \<open>Replacing a predictor column\<close>

lemma quantiles_fewer_raises:
  assumes "numCutsPerVariable' \<noteq> - 1"
  shows "(\<exists>msg. setCutPointsFromQuantiles fit x maxNumCuts' numCutsPerVariable' cutPoints'
                  = Inl (ThrowError msg))
         \<longleftrightarrow> inducedNumCuts fit x maxNumCuts' < unat numCutsPerVariable'"
  using assms
  by (auto simp add: setCutPointsFromQuantiles_def inducedNumCuts_def sortedDistinct_def Let_def)

lemma quantiles_keeps_count:
  assumes "numCutsPerVariable' \<noteq> - 1"
    and "setCutPointsFromQuantiles fit x maxNumCuts' numCutsPerVariable' cutPoints' = Inr r"
  shows "fst r = numCutsPerVariable'"
  using assms
  by (auto simp add: setCutPointsFromQuantiles_def Let_def split: if_splits)

lemma uniformly_never_raises:
  assumes "0 < numObservations (data fit)"
  shows "\<exists>r. setCutPointsUniformly fit x maxNumCuts' numCutsPerVariable' cutPoints' = Inr r
             \<and> (numCutsPerVariable' \<noteq> - 1 \<longrightarrow> fst r = numCutsPerVariable')"
  using assms by (simp add: setCutPointsUniformly_def Let_def)

lemma updatePredictors_raises_iff:
  "(\<exists>err. updatePredictors e fit newPredictor columns = Inl err)
     \<longleftrightarrow> (\<exists>err. setCutPoints fit columns = Inl err)"
  by (auto simp add: updatePredictors_def Let_def split: sum.splits)

lemma updateTreesWhileValid_induct:
  assumes "P fit" and "\<And>f i t. P f \<Longrightarrow> P (setTree f i t)"
  shows "P (fst (updateTreesWhileValid e sq fit))"
proof -
  have "P (fst (fold (\<lambda>i (f, allTreesAreValid, treeNum).
             if allTreesAreValid
             then (let t = updateWithNewCovariates e f sq (trees (state f) ! i)
                   in (setTree f i t, isValid e t, Suc i))
             else (f, allTreesAreValid, treeNum)) ixs (f0, v0, n0)))"
    if "P f0" for ixs f0 v0 n0
    using that
  proof (induction ixs arbitrary: f0 v0 n0)
    case Nil
    then show ?case by simp
  next
    case (Cons i ixs)
    show ?case
    proof (cases v0)
      case True
      have "P (setTree f0 i (updateWithNewCovariates e f0 sq (trees (state f0) ! i)))"
        using Cons.prems by (rule assms(2))
      then show ?thesis using True Cons.IH by (simp add: Let_def)
    next
      case False
      then show ?thesis using Cons.IH [OF Cons.prems] by simp
    qed
  qed
  then show ?thesis unfolding updateTreesWhileValid_def using assms(1) by simp
qed

lemma updateTreesWhileValid_data:
  "data (fst (updateTreesWhileValid e sq fit)) = data fit"
  "scratch (fst (updateTreesWhileValid e sq fit)) = scratch fit"
  by (rule updateTreesWhileValid_induct; simp add: setTree_def)+

lemma setPredictor_false_keeps_new_matrix:
  assumes "setPredictor e fit newPredictor = Inr (False, fit')"
  shows "data_X (data fit') = newPredictor"
proof -
  obtain fit1 where f1: "setCutPoints fit [0..<numPredictors (data fit)] = Inr fit1"
    using assms by (auto simp: setPredictor_def split: sum.splits)
  show ?thesis
    using assms f1
    by (auto simp add: setPredictor_def Let_def updateTreesWhileValid_data split: if_splits)
qed

lemma fitQ555_trees:
  "updateTreesWhileValid tree_ref sq
     (fitQ\<lparr>data := (data fitQ)\<lparr>data_X := [[5, 5, 5]]\<rparr>,
           scratch := (scratch fitQ)\<lparr>Xt := [[5], [5], [5]]\<rparr>\<rparr>) = (fitQ555, False, 1)"
  by (simp add: updateTreesWhileValid_def fitQ555_def fitQ_def tree_ref_def setTree_def
      upt3 upt_small Let_def)

lemma fitQ_setPredictor_555:
  "setPredictor tree_ref fitQ [[5, 5, 5]] = Inr (False, fitQ555)"
proof -
  have p: "[0..<numPredictors (data fitQ)] = [0]" by (simp add: fitQ_def upt_small)
  have x: "fitQ\<lparr>data := (data fitQ)\<lparr>data_X := [[5, 5, 5]]\<rparr>,
       scratch := (scratch fitQ)
          \<lparr>Xt := fold (\<lambda>col t. setXtColumn t (numObservations (data fitQ)) col ([[5, 5, 5]] ! col))
                    [0..<numPredictors (data fitQ)] (Xt (scratch fitQ))\<rparr>\<rparr>
     = fitQ\<lparr>data := (data fitQ)\<lparr>data_X := [[5, 5, 5]]\<rparr>,
           scratch := (scratch fitQ)\<lparr>Xt := [[5], [5], [5]]\<rparr>\<rparr>"
    by (simp add: setXtColumn_def fitQ_def upt3 upt_small)
  show ?thesis
    unfolding setPredictor_def p fitQ_setCutPoints
    by (simp add: Let_def x fitQ555_trees)
qed

lemma fitQ_install_555:
  "fold (installColumn [[5, 5, 5]] [0]) [0..<length [0 :: nat]] fitQ
     = fitQ\<lparr>data := (data fitQ)\<lparr>data_X := [[5, 5, 5]]\<rparr>,
            scratch := (scratch fitQ)\<lparr>Xt := [[5], [5], [5]]\<rparr>\<rparr>"
  by (simp add: installColumn_def setXtColumn_def memcpy_def fitQ_def upt3 upt_small Let_def)

lemma fitQ555_restore:
  "fold (restoreColumn [[1, 2, 3]] [[3 / 2, 5 / 2]] [0]) [0..<length [0 :: nat]] fitQ555
     = fitQ\<lparr>state := (state fitQ)\<lparr>trees := [Parent 0 0 (Bottom [] 0) (Bottom [0, 1, 2] 0)]\<rparr>\<rparr>"
  by (simp add: restoreColumn_def setXtColumn_def memcpy_def fitQ555_def fitQ_def upt3 upt_small Let_def)

lemma fitQ_updatePredictors_555:
  "updatePredictors tree_ref fitQ [[5, 5, 5]] [0] = Inr (False, fitQ)"
proof -
  have old: "map (\<lambda>i. memcpy (replicate (numObservations (data fitQ)) 0) (data_X (data fitQ) ! ([0] ! i))
                        (numObservations (data fitQ))) [0..<length [0 :: nat]] = [[1, 2, 3]]"
    "map (\<lambda>i. memcpy (replicate (unat (numCutsPerVariable (scratch fitQ) ! ([0] ! i))) 0)
                 (cutPoints (scratch fitQ) ! ([0] ! i))
                 (unat (numCutsPerVariable (scratch fitQ) ! ([0] ! i)))) [0..<length [0 :: nat]]
       = [[3 / 2, 5 / 2]]"
    by (simp_all add: memcpy_def fitQ_def upt3 upt_small)
  have re: "fold (\<lambda>i f. setTree f i (updateWithNewCovariates tree_ref f sq (trees (state f) ! i)))
              [0..<1] (fitQ\<lparr>state := (state fitQ)\<lparr>trees := [Parent 0 0 (Bottom [] 0) (Bottom [0, 1, 2] 0)]\<rparr>\<rparr>)
            = fitQ" for sq
    by (simp add: tree_ref_def setTree_def fitQ_def upt3 upt_small)
  show ?thesis
    unfolding updatePredictors_def Let_def old fitQ_setCutPoints
    using fitQ_install_555 fitQ555_restore re
    by (simp add: fitQ555_trees upt_small)
qed


lemma updatePredictors_fitQ_never_raises:
  "updatePredictors e fitQ newPredictor [0] \<noteq> Inl err"
  using updatePredictors_raises_iff [of e fitQ newPredictor "[0]"] fitQ_setCutPoints by auto

lemma fitQ_inducedNumCuts: "inducedNumCuts fitQ [1, 3, 3] 100 = 1"
  by (simp add: inducedNumCuts_def sortedDistinct_def fitQ_numObservations upt3 size_t_minus_eq)

text \<open>
  Claim C4 on \<open>fitQ\<close>, whose column \<open>[1, 2, 3]\<close> has two cut points. The column
  \<open>[1, 3, 3]\<close> induces one cut point, and \<open>setCutPointsFromQuantiles\<close> raises the fatal
  error when it is given that column. \<open>updatePredictors\<close> and \<open>setPredictor\<close> call
  \<open>setCutPoints\<close> before they install the new column, so the cut points are computed
  from the column they are about to replace: neither raises, both return true, and the
  fit holds the new column with the cut points of the old one.
\<close>

theorem replacement_cut_points_from_old_column:
  "numCutsPerVariable (scratch fitQ) = [2]
   \<and> inducedNumCuts fitQ [1, 3, 3] 100 = 1
   \<and> setCutPointsFromQuantiles fitQ [1, 3, 3] 100 2 [3 / 2, 5 / 2] = Inl (ThrowError
        ''Number of induced cut points in new predictor less than previous: old splits would be invalid.'')
   \<and> updatePredictors tree_ref fitQ [[1, 3, 3]] [0] = Inr (True, fitQ133)
   \<and> setPredictor tree_ref fitQ [[1, 3, 3]] = Inr (True, fitQ133)
   \<and> data_X (data fitQ133) = [[1, 3, 3]]
   \<and> numCutsPerVariable (scratch fitQ133) = [2]
   \<and> cutPoints (scratch fitQ133) = [[3 / 2, 5 / 2]]"
  by (simp add: fitQ_inducedNumCuts fitQ_quantiles_new fitQ_updatePredictors fitQ_setPredictor)
     (simp add: fitQ133_def fitQ_def)

text \<open>
  Claim C1 on \<open>fitQ\<close>. With the column \<open>[5, 5, 5]\<close> the stump is not valid.
  \<open>setPredictor\<close> returns false and leaves the new matrix, its transpose and the new
  memberships of the tree in the fit; \<open>updatePredictors\<close> returns false and the fit as it
  was before the call.
\<close>

theorem setPredictor_false_without_rollback:
  "setPredictor tree_ref fitQ [[5, 5, 5]] = Inr (False, fitQ555)
   \<and> data_X (data fitQ) = [[1, 2, 3]] \<and> data_X (data fitQ555) = [[5, 5, 5]]
   \<and> Xt (scratch fitQ) = [[1], [2], [3]] \<and> Xt (scratch fitQ555) = [[5], [5], [5]]
   \<and> trees (state fitQ) = [Parent 0 0 (Bottom [0] 0) (Bottom [1, 2] 0)]
   \<and> trees (state fitQ555) = [Parent 0 0 (Bottom [] 0) (Bottom [0, 1, 2] 0)]
   \<and> updatePredictors tree_ref fitQ [[5, 5, 5]] [0] = Inr (False, fitQ)"
  by (simp add: fitQ_setPredictor_555 fitQ_updatePredictors_555) (simp add: fitQ555_def fitQ_def)

section \<open>The loop of the sampler\<close>

lemma fold_treeIteration_frame:
  "control (sv_fit (fold (treeIteration e thin sq) ixs s)) = control (sv_fit s)
   \<and> data (sv_fit (fold (treeIteration e thin sq) ixs s)) = data (sv_fit s)
   \<and> iterLog (fold (treeIteration e thin sq) ixs s) = iterLog s
   \<and> sv_results (fold (treeIteration e thin sq) ixs s) = sv_results s"
proof (induction ixs arbitrary: s)
  case Nil
  show ?case by simp
next
  case (Cons i ixs)
  have "iterLog (treeIteration e thin sq i s) = iterLog s"
    "sv_results (treeIteration e thin sq i s) = sv_results s"
    by (simp_all add: treeIteration_def Let_def)
  then show ?case using Cons [of "treeIteration e thin sq i s"] by (simp add: treeIteration_state)
qed

lemma sweepTrees_frame:
  "control (sv_fit (sweepTrees e thin s)) = control (sv_fit s)"
  "data (sv_fit (sweepTrees e thin s)) = data (sv_fit s)"
  "iterLog (sweepTrees e thin s) = iterLog s"
  "sv_results (sweepTrees e thin s) = sv_results s"
  by (simp_all add: sweepTrees_def Let_def fold_treeIteration_frame)

lemma drawResponse_frame:
  "control (drawResponse e rn fit) = control fit" "data (drawResponse e rn fit) = data fit"
  by (simp_all add: drawResponse_def resampleLatents_def Let_def)

lemma storeIteration_frame:
  "iterLog (storeIteration e numBurnIn major k s)
     = iterLog s @ [(k, Some (if unat major < numBurnIn then 0 else unat major - numBurnIn))]"
  "treeThinningRate (control (sv_fit (storeIteration e numBurnIn major k s)))
     = treeThinningRate (control (sv_fit s))"
  "length (sigmaSamples (sv_results (storeIteration e numBurnIn major k s)))
     = length (sigmaSamples (sv_results s))"
  by (simp_all add: storeIteration_def Let_def storeSamples_def split: option.splits)

lemma iteration_log:
  "iterLog (iteration e rn numBurnIn k s)
     = iterLog s @ [(k, storedSample numBurnIn (treeThinningRate (control (sv_fit s))) k)]"
  by (simp add: iteration_def Let_def storeIteration_frame sweepTrees_frame storedSample_def
      isThinningIteration_def isBurningIn_def)

lemma iteration_thin:
  "treeThinningRate (control (sv_fit (iteration e rn numBurnIn k s)))
     = treeThinningRate (control (sv_fit s))"
  by (simp add: iteration_def Let_def storeIteration_frame sweepTrees_frame drawResponse_frame)

lemma iteration_results_length:
  "length (sigmaSamples (sv_results (iteration e rn numBurnIn k s)))
     = length (sigmaSamples (sv_results s))"
  by (simp add: iteration_def Let_def storeIteration_frame sweepTrees_frame)

lemma runSampler_loop_from:
  assumes "totalNum < 2 ^ 32" "unat k \<le> totalNum"
  shows "runSampler_loop e rn numBurnIn totalNum k s
           = Some (fold (\<lambda>j. iteration e rn numBurnIn (word_of_nat j)) [unat k..<totalNum] s)"
  using assms(2)
proof (induction "totalNum - unat k" arbitrary: k s)
  case 0
  then have "unat k = totalNum" by simp
  then show ?case by (subst runSampler_loop.simps) simp
next
  case (Suc d)
  then have lt: "unat k < totalNum" by simp
  have "unat k + 1 < 2 ^ 32" using lt assms(1) by simp
  then have uk: "unat (k + 1) = unat k + 1"
    by (simp add: unat_word_ariths)
  have d: "d = totalNum - unat (k + 1)" using Suc(2) uk by simp
  have le: "unat (k + 1) \<le> totalNum" using lt uk by simp
  have "runSampler_loop e rn numBurnIn totalNum k s
          = runSampler_loop e rn numBurnIn totalNum (k + 1) (iteration e rn numBurnIn k s)"
    using lt by (subst runSampler_loop.simps) simp
  also have "\<dots> = Some (fold (\<lambda>j. iteration e rn numBurnIn (word_of_nat j)) [unat (k + 1)..<totalNum]
                           (iteration e rn numBurnIn k s))"
    by (rule Suc(1) [OF d le])
  also have "\<dots> = Some (fold (\<lambda>j. iteration e rn numBurnIn (word_of_nat j)) [unat k..<totalNum] s)"
    using lt uk by (simp add: upt_conv_Cons)
  finally show ?case .
qed

lemma fold_iteration_log:
  "iterLog (fold (\<lambda>j. iteration e rn numBurnIn (word_of_nat j)) js s)
     = iterLog s @ map (\<lambda>j. (word_of_nat j,
                               storedSample numBurnIn (treeThinningRate (control (sv_fit s)))
                                 (word_of_nat j))) js
   \<and> treeThinningRate (control (sv_fit (fold (\<lambda>j. iteration e rn numBurnIn (word_of_nat j)) js s)))
       = treeThinningRate (control (sv_fit s))
   \<and> length (sigmaSamples (sv_results (fold (\<lambda>j. iteration e rn numBurnIn (word_of_nat j)) js s)))
       = length (sigmaSamples (sv_results s))"
proof (induction js arbitrary: s)
  case Nil
  show ?case by simp
next
  case (Cons j js)
  show ?case
    using Cons [of "iteration e rn numBurnIn (word_of_nat j) s"]
    by (simp add: iteration_log iteration_thin iteration_results_length)
qed

text \<open>
  The counter of the loop has 32 bits: where the number of iterations does not fit,
  the counter wraps around before it reaches the bound and the loop does not end.
\<close>

lemma runSampler_loop_never_returns:
  assumes "runSampler_loop e rn numBurnIn totalNum k s = Some r"
  shows "totalNum < 2 ^ 32"
proof (rule runSampler_loop.raw_induct
    [where P = "\<lambda>e rn numBurnIn totalNum k s r. totalNum < 2 ^ 32", OF _ assms])
  fix f :: "('a, 'b, 'c) ext_tree \<Rightarrow> 'b ext_random \<Rightarrow> nat \<Rightarrow> nat \<Rightarrow> 32 word
              \<Rightarrow> ('a, 'b, 'c) SamplerVars \<Rightarrow> ('a, 'b, 'c) SamplerVars option"
    and e rn numBurnIn totalNum k s r
  assume ih: "\<And>e rn numBurnIn totalNum k s r.
                 f e rn numBurnIn totalNum k s = Some r \<Longrightarrow> totalNum < 2 ^ 32"
    and body: "(if unat k < totalNum
                then f e rn numBurnIn totalNum (k + 1) (iteration e rn numBurnIn k s)
                else Some s) = Some r"
  show "totalNum < 2 ^ 32"
  proof (cases "unat k < totalNum")
    case True
    then have "f e rn numBurnIn totalNum (k + 1) (iteration e rn numBurnIn k s) = Some r"
      using body by simp
    then show ?thesis by (rule ih)
  next
    case False
    have "unat k < 2 ^ 32" using unsigned_less [of k] by simp
    then show ?thesis using False by simp
  qed
qed

lemma runSampler_loop_diverges:
  "2 ^ 32 \<le> totalNum \<Longrightarrow> runSampler_loop e rn numBurnIn totalNum k s = None"
  using runSampler_loop_never_returns [of e rn numBurnIn totalNum k s]
  by (cases "runSampler_loop e rn numBurnIn totalNum k s") auto

lemma runSampler_diverges:
  assumes "2 ^ 32 \<le> (numBurnIn + numSamples) * unat (treeThinningRate (control fit))"
    and "(numBurnIn + numSamples) * unat (treeThinningRate (control fit)) < 2 ^ 64"
  shows "runSampler e rn fit numBurnIn numSamples = None"
proof -
  have m: "((numBurnIn + numSamples) * unat (treeThinningRate (control fit))) mod 2 ^ 64
             = (numBurnIn + numSamples) * unat (treeThinningRate (control fit))"
    using assms(2) by (rule mod_less)
  show ?thesis
    unfolding runSampler_def Let_def m
    by (simp add: runSampler_loop_diverges [OF assms(1)])
qed

text \<open>What \<open>storeSamples\<close> writes to a slot.\<close>

lemma take_map_upt_append: "take n (map f [0..<n] @ ys) = map f [0..<n]"
  by simp

lemma deScale_vector:
  "take n (addOffset off n
             (ext_addVectorsInPlace x n r (ext_setVectorToConstant old n c)))
     = map (\<lambda>i. c + r * x ! i + offsetAt off i) [0..<n]"
  by (cases off)
    (simp_all add: addOffset_def ext_addVectorsInPlace_def ext_setVectorToConstant_def offsetAt_def
      nth_append)

lemma copy_vector:
  "take n (addOffset off n (memcpy old x n)) = map (\<lambda>i. x ! i + offsetAt off i) [0..<n]"
  by (cases off)
    (simp_all add: addOffset_def ext_addVectorsInPlace_def memcpy_def offsetAt_def nth_append)

lemma storeSamples_sigma:
  "slot < length (sigmaSamples res) \<Longrightarrow>
   sigmaSamples (storeSamples fit res ts tts sg vc slot) ! slot
     = (if responseIsBinary (control fit) then 1
        else sg * dataScale_range (dataScale (scratch fit)))"
  by (simp add: storeSamples_def Let_def)

lemma storeSamples_training:
  "slot < length (trainingSamples res) \<Longrightarrow> keepTrainingFits (control fit) \<Longrightarrow>
   take (numObservations (data fit)) (trainingSamples (storeSamples fit res ts tts sg vc slot) ! slot)
     = map (\<lambda>i. specDeScaled fit (ts ! i) + offsetAt (offset (data fit)) i)
         [0..<numObservations (data fit)]"
  by (simp add: storeSamples_def Let_def deScale_vector copy_vector specDeScaled_def algebra_simps)

lemma storeSamples_test:
  "slot < length (testSamples res) \<Longrightarrow>
   take (numTestObservations (data fit)) (testSamples (storeSamples fit res ts tts sg vc slot) ! slot)
     = map (\<lambda>i. specDeScaled fit (tts ! i) + offsetAt (testOffset (data fit)) i)
         [0..<numTestObservations (data fit)]"
  by (simp add: storeSamples_def Let_def deScale_vector copy_vector specDeScaled_def algebra_simps)

lemma storeSamples_counts:
  "slot < length (variableCountSamples res) \<Longrightarrow>
   take (numPredictors (data fit)) (variableCountSamples (storeSamples fit res ts tts sg vc slot) ! slot)
     = map (\<lambda>j. real (unat (vc ! j))) [0..<numPredictors (data fit)]"
  by (simp add: storeSamples_def Let_def)

lemma storeSamples_sized:
  "resultsSized N (storeSamples fit res ts tts sg vc slot) = resultsSized N res"
  by (simp add: storeSamples_def Let_def resultsSized_def)

lemma storeSamples_other:
  "s \<noteq> slot \<Longrightarrow> sampleAt (storeSamples fit res ts tts sg vc slot) s = sampleAt res s"
  by (simp add: storeSamples_def Let_def sampleAt_def)

lemma storeSamples_not_kept:
  "\<not> keepTrainingFits (control fit) \<Longrightarrow>
   trainingSamples (storeSamples fit res ts tts sg vc slot) = trainingSamples res"
  by (simp add: storeSamples_def Let_def)


lemma holdsSample_store:
  assumes "resultsSized N res" "slot < N"
  shows "holdsSample e fit vc
           (storeSamples fit res (totalFits (state fit)) (totalTestFits (state fit))
              (sigma (responseModel (model fit))) (countVariableUses e fit vc) slot) slot"
proof -
  have l: "slot < length (sigmaSamples res)" "slot < length (trainingSamples res)"
    "slot < length (testSamples res)" "slot < length (variableCountSamples res)"
    using assms by (simp_all add: resultsSized_def)
  show ?thesis
    unfolding holdsSample_def
  proof (intro conjI impI)
    assume "keepTrainingFits (control fit)"
    then show "take (numObservations (data fit))
        (trainingSamples (storeSamples fit res (totalFits (state fit)) (totalTestFits (state fit))
           (sigma (responseModel (model fit))) (countVariableUses e fit vc) slot) ! slot)
        = map (\<lambda>i. specDeScaled fit (totalFits (state fit) ! i) + offsetAt (offset (data fit)) i)
            [0..<numObservations (data fit)]"
      by (rule storeSamples_training [OF l(2)])
  qed (rule storeSamples_sigma [OF l(1)] storeSamples_test [OF l(3)] storeSamples_counts [OF l(4)])+
qed

lemma holdsSample_callbackData:
  "holdsSample e (fit\<lparr>control := (control fit)\<lparr>callbackData := c\<rparr>\<rparr>) vc res slot
     = holdsSample e fit vc res slot"
  by (simp add: holdsSample_def specDeScaled_def countVariableUses_def)

lemma storeIteration_results:
  "sv_results (storeIteration e numBurnIn major k s)
     = storeSamples (sv_fit s) (sv_results s) (totalFits (state (sv_fit s)))
         (totalTestFits (state (sv_fit s))) (sigma (responseModel (model (sv_fit s))))
         (countVariableUses e (sv_fit s) (sv_variableCounts s))
         (if unat major < numBurnIn then 0 else unat major - numBurnIn)"
  by (simp add: storeIteration_def Let_def)

lemma storeIteration_holdsSample:
  "holdsSample e (sv_fit (storeIteration e numBurnIn major k s)) vc res slot
     = holdsSample e (sv_fit s) vc res slot"
  by (cases "callback e") (simp_all add: storeIteration_def Let_def holdsSample_callbackData)

lemma fold_treeIteration_counts:
  "sv_variableCounts (fold (treeIteration e thin sq) ixs s) = sv_variableCounts s"
proof (induction ixs arbitrary: s)
  case Nil
  show ?case by simp
next
  case (Cons i ixs)
  have "sv_variableCounts (treeIteration e thin sq i s) = sv_variableCounts s"
    by (simp add: treeIteration_def Let_def)
  then show ?case using Cons [of "treeIteration e thin sq i s"] by simp
qed

lemma sweepTrees_counts: "sv_variableCounts (sweepTrees e thin s) = sv_variableCounts s"
  by (simp add: sweepTrees_def Let_def fold_treeIteration_counts)

lemma iteration_thinning_results:
  "isThinningIteration (treeThinningRate (control (sv_fit s))) k \<Longrightarrow>
   sv_results (iteration e rn numBurnIn k s) = sv_results s"
  by (simp add: iteration_def Let_def isThinningIteration_def sweepTrees_frame)

lemma iteration_storing_results:
  assumes "\<not> isThinningIteration (treeThinningRate (control (sv_fit s))) k"
    and "resultsSized N (sv_results s)"
    and "sampleSlot numBurnIn (treeThinningRate (control (sv_fit s))) k < N"
  shows "holdsSample e (sv_fit (iteration e rn numBurnIn k s)) (sv_variableCounts s)
           (sv_results (iteration e rn numBurnIn k s))
           (sampleSlot numBurnIn (treeThinningRate (control (sv_fit s))) k)"
    and "t \<noteq> sampleSlot numBurnIn (treeThinningRate (control (sv_fit s))) k \<Longrightarrow>
         sampleAt (sv_results (iteration e rn numBurnIn k s)) t = sampleAt (sv_results s) t"
proof -
  let ?thin = "treeThinningRate (control (sv_fit s))"
  let ?s1 = "sweepTrees e False s"
  let ?s2 = "?s1\<lparr>sv_fit := drawResponse e rn (sv_fit ?s1)\<rparr>"
  have it: "iteration e rn numBurnIn k s = storeIteration e numBurnIn (k div ?thin) k ?s2"
    using assms(1) by (simp add: iteration_def Let_def isThinningIteration_def)
  have slot: "(if unat (k div ?thin) < numBurnIn then 0 else unat (k div ?thin) - numBurnIn)
                = sampleSlot numBurnIn ?thin k"
    by (simp add: sampleSlot_def isBurningIn_def)
  have r2: "sv_results ?s2 = sv_results s" "sv_variableCounts ?s2 = sv_variableCounts s"
    by (simp_all add: sweepTrees_frame sweepTrees_counts)
  have res: "sv_results (iteration e rn numBurnIn k s)
       = storeSamples (sv_fit ?s2) (sv_results s) (totalFits (state (sv_fit ?s2)))
           (totalTestFits (state (sv_fit ?s2))) (sigma (responseModel (model (sv_fit ?s2))))
           (countVariableUses e (sv_fit ?s2) (sv_variableCounts s))
           (sampleSlot numBurnIn ?thin k)"
    unfolding it storeIteration_results slot r2 ..
  show "holdsSample e (sv_fit (iteration e rn numBurnIn k s)) (sv_variableCounts s)
           (sv_results (iteration e rn numBurnIn k s)) (sampleSlot numBurnIn ?thin k)"
    unfolding res unfolding it storeIteration_holdsSample
    by (rule holdsSample_store [OF assms(2,3)])
  show "sampleAt (sv_results (iteration e rn numBurnIn k s)) t = sampleAt (sv_results s) t"
    if "t \<noteq> sampleSlot numBurnIn ?thin k"
    unfolding res by (rule storeSamples_other [OF that])
qed

lemma iteration_sized:
  "resultsSized N (sv_results (iteration e rn numBurnIn k s)) = resultsSized N (sv_results s)"
  by (simp add: iteration_def Let_def sweepTrees_frame storeIteration_results storeSamples_sized)


lemma storeIteration_fit:
  "state (sv_fit (storeIteration e numBurnIn major k s)) = state (sv_fit s)"
  "model (sv_fit (storeIteration e numBurnIn major k s)) = model (sv_fit s)"
  "scratch (sv_fit (storeIteration e numBurnIn major k s)) = scratch (sv_fit s)"
  "rng (sv_fit (storeIteration e numBurnIn major k s)) = rng (sv_fit s)"
  "data (sv_fit (storeIteration e numBurnIn major k s)) = data (sv_fit s)"
  "currFits (storeIteration e numBurnIn major k s) = currFits s"
  by (cases "callback e"; simp add: storeIteration_def Let_def)+

lemma iteration_advances:
  "advancesChain e rn (isThinningIteration (treeThinningRate (control (sv_fit s))) k) s
     (iteration e rn numBurnIn k s)"
  by (simp add: advancesChain_def iteration_def Let_def isThinningIteration_def storeIteration_fit)

lemma unat_counter: "k < 2 ^ 32 \<Longrightarrow> unat (word_of_nat k :: 32 word) = k"
  by (simp add: unat_of_nat)

lemma isThinningIteration_nat:
  assumes "k + 1 < 2 ^ 32"
  shows "isThinningIteration thin (word_of_nat k) \<longleftrightarrow> (k + 1) mod unat thin \<noteq> 0"
proof -
  have "(word_of_nat k + 1 :: 32 word) = word_of_nat (k + 1)" by simp
  then have "unat ((word_of_nat k + 1 :: 32 word) mod thin) = (k + 1) mod unat thin"
    using unat_counter [OF assms] by (simp add: unat_mod del: of_nat_Suc of_nat_add)
  then show ?thesis
    unfolding isThinningIteration_def by (metis unat_eq_zero)
qed

lemma majorIterationNum_nat:
  "k < 2 ^ 32 \<Longrightarrow> unat ((word_of_nat k :: 32 word) div thin) = k div unat thin"
  by (simp add: unat_div unat_counter)

lemma sampleSlot_nat:
  "k < 2 ^ 32 \<Longrightarrow>
   sampleSlot numBurnIn thin (word_of_nat k)
     = (if k div unat thin < numBurnIn then 0 else k div unat thin - numBurnIn)"
  by (simp add: sampleSlot_def isBurningIn_def majorIterationNum_nat)

lemma sampleSlot_bound:
  assumes "k < (numBurnIn + numSamples) * unat thin" "(numBurnIn + numSamples) * unat thin < 2 ^ 32"
  shows "sampleSlot numBurnIn thin (word_of_nat k) < (if numSamples = 0 then 1 else numSamples)"
proof -
  have k: "k < 2 ^ 32" using assms by (rule less_trans)
  have "k div unat thin < numBurnIn + numSamples"
    using assms(1) by (rule less_mult_imp_div_less)
  then show ?thesis unfolding sampleSlot_nat [OF k] by auto
qed

lemma samplerAfter_0: "samplerAfter e rn fit numBurnIn numSamples 0 = samplerInit fit numSamples"
  by (simp add: samplerAfter_def)

lemma samplerAfter_Suc:
  "samplerAfter e rn fit numBurnIn numSamples (Suc j)
     = iteration e rn numBurnIn (word_of_nat j) (samplerAfter e rn fit numBurnIn numSamples j)"
  by (simp add: samplerAfter_def)

lemma samplerAfter_thin:
  "treeThinningRate (control (sv_fit (samplerAfter e rn fit numBurnIn numSamples j)))
     = treeThinningRate (control fit)"
  unfolding samplerAfter_def
  using fold_iteration_log [of e rn numBurnIn "[0..<j]" "samplerInit fit numSamples"]
  by (simp add: samplerInit_def)

lemma samplerAfter_log:
  "iterLog (samplerAfter e rn fit numBurnIn numSamples j)
     = map (\<lambda>k. (word_of_nat k, storedSample numBurnIn (treeThinningRate (control fit)) (word_of_nat k)))
         [0..<j]"
  unfolding samplerAfter_def
  using fold_iteration_log [of e rn numBurnIn "[0..<j]" "samplerInit fit numSamples"]
  by (simp add: samplerInit_def)

lemma samplerAfter_sized:
  "resultsSized (if numSamples = 0 then 1 else numSamples)
     (sv_results (samplerAfter e rn fit numBurnIn numSamples j))"
proof (induction j)
  case 0
  show ?case by (simp add: samplerAfter_0 samplerInit_def newResults_def resultsSized_def)
next
  case (Suc j)
  then show ?case by (simp only: samplerAfter_Suc iteration_sized)
qed

lemma runSampler_samplerAfter:
  assumes "(numBurnIn + numSamples) * unat (treeThinningRate (control fit)) < 2 ^ 32"
  shows "runSampler e rn fit numBurnIn numSamples
           = Some (if numSamples = 0 then None
                   else Some (sv_results (samplerAfter e rn fit numBurnIn numSamples
                                ((numBurnIn + numSamples) * unat (treeThinningRate (control fit))))),
                   samplerAfter e rn fit numBurnIn numSamples
                     ((numBurnIn + numSamples) * unat (treeThinningRate (control fit))))"
proof -
  let ?total = "(numBurnIn + numSamples) * unat (treeThinningRate (control fit))"
  have "(2 :: nat) ^ 32 < 2 ^ 64" by simp
  then have "?total < 2 ^ 64" using assms by (rule less_trans [rotated])
  then have m: "?total mod 2 ^ 64 = ?total" by (rule mod_less)
  have l: "runSampler_loop e rn numBurnIn ?total 0 (samplerInit fit numSamples)
             = Some (samplerAfter e rn fit numBurnIn numSamples ?total)"
    using runSampler_loop_from [OF assms, of 0 e rn numBurnIn "samplerInit fit numSamples"]
    by (simp add: samplerAfter_def)
  show ?thesis
    unfolding runSampler_def Let_def m
    unfolding samplerInit_def [symmetric] l by simp
qed

lemma samplerAfter_advances:
  "advancesChain e rn (isThinningIteration (treeThinningRate (control fit)) (word_of_nat k))
     (samplerAfter e rn fit numBurnIn numSamples k)
     (samplerAfter e rn fit numBurnIn numSamples (Suc k))"
  unfolding samplerAfter_Suc
  using iteration_advances [of e rn "samplerAfter e rn fit numBurnIn numSamples k" "word_of_nat k"
      numBurnIn]
  unfolding samplerAfter_thin .

lemma holdsSample_sampleAt:
  "sampleAt res s = sampleAt res' s \<Longrightarrow> holdsSample e fit vc res s = holdsSample e fit vc res' s"
  by (simp add: holdsSample_def sampleAt_def)

text \<open>What one pass does to the result buffers.\<close>

lemma samplerAfter_step:
  assumes total: "(numBurnIn + numSamples) * unat (treeThinningRate (control fit)) < 2 ^ 32"
    and k: "k < (numBurnIn + numSamples) * unat (treeThinningRate (control fit))"
  shows "isThinningIteration (treeThinningRate (control fit)) (word_of_nat k) \<Longrightarrow>
           sv_results (samplerAfter e rn fit numBurnIn numSamples (Suc k))
             = sv_results (samplerAfter e rn fit numBurnIn numSamples k)"
    and "\<not> isThinningIteration (treeThinningRate (control fit)) (word_of_nat k) \<Longrightarrow>
           holdsSample e (sv_fit (samplerAfter e rn fit numBurnIn numSamples (Suc k)))
             (sv_variableCounts (samplerAfter e rn fit numBurnIn numSamples k))
             (sv_results (samplerAfter e rn fit numBurnIn numSamples (Suc k)))
             (sampleSlot numBurnIn (treeThinningRate (control fit)) (word_of_nat k))"
    and "\<not> isThinningIteration (treeThinningRate (control fit)) (word_of_nat k) \<Longrightarrow>
         t \<noteq> sampleSlot numBurnIn (treeThinningRate (control fit)) (word_of_nat k) \<Longrightarrow>
           sampleAt (sv_results (samplerAfter e rn fit numBurnIn numSamples (Suc k))) t
             = sampleAt (sv_results (samplerAfter e rn fit numBurnIn numSamples k)) t"
proof -
  let ?s = "samplerAfter e rn fit numBurnIn numSamples k"
  let ?thin = "treeThinningRate (control fit)"
  have th: "treeThinningRate (control (sv_fit ?s)) = ?thin" by (rule samplerAfter_thin)
  have sz: "resultsSized (if numSamples = 0 then 1 else numSamples) (sv_results ?s)"
    by (rule samplerAfter_sized)
  have sl: "sampleSlot numBurnIn (treeThinningRate (control (sv_fit ?s))) (word_of_nat k)
              < (if numSamples = 0 then 1 else numSamples)"
    unfolding th by (rule sampleSlot_bound [OF k total])
  show "sv_results (samplerAfter e rn fit numBurnIn numSamples (Suc k)) = sv_results ?s"
    if "isThinningIteration ?thin (word_of_nat k)"
    unfolding samplerAfter_Suc using that th by (simp add: iteration_thinning_results)
  assume n: "\<not> isThinningIteration ?thin (word_of_nat k)"
  then have n': "\<not> isThinningIteration (treeThinningRate (control (sv_fit ?s))) (word_of_nat k)"
    unfolding th .
  show "holdsSample e (sv_fit (samplerAfter e rn fit numBurnIn numSamples (Suc k)))
          (sv_variableCounts ?s) (sv_results (samplerAfter e rn fit numBurnIn numSamples (Suc k)))
          (sampleSlot numBurnIn ?thin (word_of_nat k))"
    unfolding samplerAfter_Suc
    using iteration_storing_results(1) [OF n' sz sl, of e rn] unfolding th .
  show "sampleAt (sv_results (samplerAfter e rn fit numBurnIn numSamples (Suc k))) t
          = sampleAt (sv_results ?s) t"
    if "t \<noteq> sampleSlot numBurnIn ?thin (word_of_nat k)"
    unfolding samplerAfter_Suc
    using iteration_storing_results(2) [OF n' sz sl, of t e rn] that unfolding th by simp
qed


text \<open>The pass that fills slot \<open>s\<close>, and the passes after it, which leave the slot alone.\<close>

lemma sampleIteration_facts:
  assumes total: "(numBurnIn + numSamples) * unat thin < 2 ^ 32"
    and thin: "0 < unat thin" and s: "s < numSamples"
  shows "Suc (sampleIteration numBurnIn thin s) = (numBurnIn + s + 1) * unat thin"
    and "sampleIteration numBurnIn thin s < (numBurnIn + numSamples) * unat thin"
    and "\<not> isThinningIteration thin (word_of_nat (sampleIteration numBurnIn thin s))"
    and "sampleSlot numBurnIn thin (word_of_nat (sampleIteration numBurnIn thin s)) = s"
proof -
  let ?k = "sampleIteration numBurnIn thin s"
  let ?T = "unat thin"
  have pos: "0 < (numBurnIn + s + 1) * ?T" using thin by simp
  then show suc: "Suc ?k = (numBurnIn + s + 1) * ?T" by (simp add: sampleIteration_def)
  have "numBurnIn + s + 1 \<le> numBurnIn + numSamples" using s by simp
  then have le: "(numBurnIn + s + 1) * ?T \<le> (numBurnIn + numSamples) * ?T" by (rule mult_le_mono1)
  then show lt: "?k < (numBurnIn + numSamples) * ?T" using suc by simp
  have b1: "?k + 1 < 2 ^ 32" using le total suc by simp
  have "(?k + 1) mod ?T = 0" using suc by simp
  then show "\<not> isThinningIteration thin (word_of_nat ?k)"
    unfolding isThinningIteration_nat [OF b1] by simp
  have b: "?k < 2 ^ 32" using b1 by simp
  have "?T * (numBurnIn + s) \<le> ?k" "?k < ?T * Suc (numBurnIn + s)"
    using thin by (simp_all add: sampleIteration_def algebra_simps)
  then have d: "?k div ?T = numBurnIn + s" by (rule div_nat_eqI)
  show "sampleSlot numBurnIn thin (word_of_nat ?k) = s"
    unfolding sampleSlot_nat [OF b] d by simp
qed

lemma sample_kept:
  assumes total: "(numBurnIn + numSamples) * unat (treeThinningRate (control fit)) < 2 ^ 32"
    and thin: "0 < unat (treeThinningRate (control fit))"
    and lo: "(numBurnIn + s + 1) * unat (treeThinningRate (control fit)) \<le> j"
    and hi: "j \<le> (numBurnIn + numSamples) * unat (treeThinningRate (control fit))"
  shows "sampleAt (sv_results (samplerAfter e rn fit numBurnIn numSamples j)) s
           = sampleAt (sv_results (samplerAfter e rn fit numBurnIn numSamples
                         ((numBurnIn + s + 1) * unat (treeThinningRate (control fit))))) s"
  using lo hi
proof (induction j rule: dec_induct)
  case base
  show ?case ..
next
  case (step j)
  let ?thin = "treeThinningRate (control fit)"
  have k: "j < (numBurnIn + numSamples) * unat ?thin" using step.prems by simp
  have b: "j < 2 ^ 32" using k total by (rule less_trans)
  have ih: "sampleAt (sv_results (samplerAfter e rn fit numBurnIn numSamples j)) s
              = sampleAt (sv_results (samplerAfter e rn fit numBurnIn numSamples
                            ((numBurnIn + s + 1) * unat ?thin))) s"
    using step.IH k by simp
  have "((numBurnIn + s + 1) * unat ?thin) div unat ?thin \<le> j div unat ?thin"
    using step.hyps(1) by (rule div_le_mono)
  then have d: "numBurnIn + s + 1 \<le> j div unat ?thin" using thin by simp
  then have ne: "s \<noteq> sampleSlot numBurnIn ?thin (word_of_nat j)"
    unfolding sampleSlot_nat [OF b] by auto
  have "sampleAt (sv_results (samplerAfter e rn fit numBurnIn numSamples (Suc j))) s
          = sampleAt (sv_results (samplerAfter e rn fit numBurnIn numSamples j)) s"
  proof (cases "isThinningIteration ?thin (word_of_nat j)")
    case True
    show ?thesis using samplerAfter_step(1) [OF total k True, of e rn] by simp
  next
    case False
    show ?thesis by (rule samplerAfter_step(3) [OF total k False ne])
  qed
  then show ?case using ih by simp
qed

lemma sample_returned:
  assumes total: "(numBurnIn + numSamples) * unat (treeThinningRate (control fit)) < 2 ^ 32"
    and thin: "0 < unat (treeThinningRate (control fit))" and s: "s < numSamples"
  shows "holdsSample e
           (sv_fit (samplerAfter e rn fit numBurnIn numSamples
                      (Suc (sampleIteration numBurnIn (treeThinningRate (control fit)) s))))
           (sv_variableCounts (samplerAfter e rn fit numBurnIn numSamples
                      (sampleIteration numBurnIn (treeThinningRate (control fit)) s)))
           (sv_results (samplerAfter e rn fit numBurnIn numSamples
                      ((numBurnIn + numSamples) * unat (treeThinningRate (control fit))))) s"
proof -
  let ?thin = "treeThinningRate (control fit)"
  let ?k = "sampleIteration numBurnIn ?thin s"
  note f = sampleIteration_facts [OF total thin s]
  have "numBurnIn + s + 1 \<le> numBurnIn + numSamples" using s by simp
  then have le: "(numBurnIn + s + 1) * unat ?thin \<le> (numBurnIn + numSamples) * unat ?thin"
    by (rule mult_le_mono1)
  have w: "holdsSample e (sv_fit (samplerAfter e rn fit numBurnIn numSamples (Suc ?k)))
             (sv_variableCounts (samplerAfter e rn fit numBurnIn numSamples ?k))
             (sv_results (samplerAfter e rn fit numBurnIn numSamples (Suc ?k))) s"
    using samplerAfter_step(2) [OF total f(2) f(3), of e rn] unfolding f(4) .
  have "sampleAt (sv_results (samplerAfter e rn fit numBurnIn numSamples
                     ((numBurnIn + numSamples) * unat ?thin))) s
          = sampleAt (sv_results (samplerAfter e rn fit numBurnIn numSamples (Suc ?k))) s"
    unfolding f(1) by (rule sample_kept [OF total thin le le_refl])
  from holdsSample_sampleAt [OF this, of e] show ?thesis using w by (rule ssubst)
qed

text \<open>The run of \<open>fitQ2\<close> with the reference instances, pass by pass.\<close>

lemma fitQ2_thin: "treeThinningRate (control fitQ2) = 2"
  by (simp add: fitQ2_def)

lemma samplerInit_fitQ2:
  "samplerInit fitQ2 numSamples
     = svQ2State 0 0 [0, 0, 0] [0, 0, 0] 1 0
         (newResults 3 1 0 (if numSamples = 0 then 1 else numSamples)) [0] []"
  by (simp add: samplerInit_def svQ2State_def fitQ2State_def fitQ2_def fitQ_def numeral_3_eq_3)

lemma fitQ2State_treeIteration:
  "treeIteration tree_ref th sq 0 (svQ2State a b [f0, f1, f2] [c0, c1, c2] sg r res vc lg)
     = svQ2State (- 1 / 2) (1 / 8) [- 1 / 2, 1 / 8, 1 / 8] [- 1 / 2, 1 / 8, 1 / 8] sg (Suc (Suc r)) res vc lg"
  by (simp add: treeIteration_def svQ2State_def fitQ2State_def fitQ2_def fitQ_def tree_ref_def
      setTree_def Let_def calculateResidualsFromOtherTreeFits_def updateTotalFits_def
      ext_addVectorsInPlace_def memcpy_def upt3 upt_small)

lemma fitQ2State_sweepTrees:
  "sweepTrees tree_ref th (svQ2State a b [f0, f1, f2] [c0, c1, c2] sg r res vc lg)
     = svQ2State (- 1 / 2) (1 / 8) [- 1 / 2, 1 / 8, 1 / 8] [- 1 / 2, 1 / 8, 1 / 8] sg (Suc (Suc r)) res vc lg"
proof -
  let ?s = "svQ2State a b [f0, f1, f2] [c0, c1, c2] sg r res vc lg"
  have c: "numTestObservations (data (sv_fit ?s)) = 0" "numTrees (control (sv_fit ?s)) = 1"
    by (simp_all add: svQ2State_def fitQ2State_def fitQ2_def fitQ_def)
  have b: "?s\<lparr>sv_fit := sv_fit ?s\<rparr> = ?s" by simp
  show ?thesis
    unfolding sweepTrees_def Let_def
    by (simp add: c upt_small b fitQ2State_treeIteration)
qed

lemma fitQ2State_drawResponse:
  "drawResponse tree_ref random_ref (fitQ2State a b f sg r) = fitQ2State a b f (sg / 2) (Suc r)"
  by (simp add: drawResponse_def fitQ2State_def fitQ2_def fitQ_def tree_ref_def Let_def)

lemma fitQ2State_storeIteration:
  "storeIteration tree_ref numBurnIn major k (svQ2State a b f cf sg r res [v] lg)
     = svQ2State a b f cf sg r
         (storeSamples (fitQ2State a b f sg r) res f [] sg [1]
            (if unat major < numBurnIn then 0 else unat major - numBurnIn))
         [1] (lg @ [(k, Some (if unat major < numBurnIn then 0 else unat major - numBurnIn))])"
proof -
  have f: "sv_fit (svQ2State a b f cf sg r res [v] lg) = fitQ2State a b f sg r"
    "sv_results (svQ2State a b f cf sg r res [v] lg) = res"
    "sv_variableCounts (svQ2State a b f cf sg r res [v] lg) = [v]"
    "iterLog (svQ2State a b f cf sg r res [v] lg) = lg"
    by (simp_all add: svQ2State_def)
  have g: "totalFits (state (fitQ2State a b f sg r)) = f"
    "totalTestFits (state (fitQ2State a b f sg r)) = []"
    "sigma (responseModel (model (fitQ2State a b f sg r))) = sg"
    by (simp_all add: fitQ2State_def fitQ2_def fitQ_def)
  have c: "countVariableUses tree_ref (fitQ2State a b f sg r) [v] = [1]"
    by (simp add: countVariableUses_def fitQ2State_def fitQ2_def fitQ_def tree_ref_def upt_small)
  have cb: "callback tree_ref = None" by (simp add: tree_ref_def)
  show ?thesis
    unfolding storeIteration_def Let_def f g c cb
    by (simp add: svQ2State_def)
qed

lemma fitQ2State_iteration:
  "iteration tree_ref random_ref numBurnIn k (svQ2State a b [f0, f1, f2] [c0, c1, c2] sg r res [v] lg)
     = (if (k + 1) mod 2 \<noteq> 0
        then svQ2State (- 1 / 2) (1 / 8) [- 1 / 2, 1 / 8, 1 / 8] [- 1 / 2, 1 / 8, 1 / 8] (sg / 2) (Suc (Suc (Suc r)))
               res [v] (lg @ [(k, None)])
        else svQ2State (- 1 / 2) (1 / 8) [- 1 / 2, 1 / 8, 1 / 8] [- 1 / 2, 1 / 8, 1 / 8] (sg / 2) (Suc (Suc (Suc r)))
               (storeSamples
                  (fitQ2State (- 1 / 2) (1 / 8) [- 1 / 2, 1 / 8, 1 / 8] (sg / 2) (Suc (Suc (Suc r)))) res
                  [- 1 / 2, 1 / 8, 1 / 8] [] (sg / 2) [1]
                  (if unat (k div 2) < numBurnIn then 0 else unat (k div 2) - numBurnIn))
               [1]
               (lg @ [(k, Some (if unat (k div 2) < numBurnIn then 0
                                else unat (k div 2) - numBurnIn))]))"
proof -
  let ?s = "svQ2State a b [f0, f1, f2] [c0, c1, c2] sg r res [v] lg"
  let ?F = "[- 1 / 2, 1 / 8, 1 / 8] :: real list"
  have t: "treeThinningRate (control (sv_fit ?s)) = 2"
    by (simp add: svQ2State_def fitQ2State_def fitQ2_def)
  have d: "(svQ2State (- 1 / 2) (1 / 8) ?F ?F sg (Suc (Suc r)) res [v] lg)
             \<lparr>sv_fit := drawResponse tree_ref random_ref
                          (sv_fit (svQ2State (- 1 / 2) (1 / 8) ?F ?F sg (Suc (Suc r)) res [v] lg))\<rparr>
           = svQ2State (- 1 / 2) (1 / 8) ?F ?F (sg / 2) (Suc (Suc (Suc r))) res [v] lg"
    by (simp add: svQ2State_def fitQ2State_drawResponse)
  show ?thesis
    unfolding iteration_def Let_def t fitQ2State_sweepTrees d
    by (simp add: fitQ2State_storeIteration) (simp add: svQ2State_def)
qed


lemma fitQ2State_storeSamples:
  "storeSamples (fitQ2State a b [f0, f1, f2] sg r)
     \<lparr>sigmaSamples = ss, trainingSamples = tr, testSamples = te, variableCountSamples = vcs\<rparr>
     [f0, f1, f2] [] sg [1] slot
   = \<lparr>sigmaSamples = ss[slot := sg * 4],
      trainingSamples = tr[slot := [2 + 4 * f0, 2 + 4 * f1, 2 + 4 * f2] @ drop 3 (tr ! slot)],
      testSamples = te,
      variableCountSamples = vcs[slot := 1 # drop 1 (vcs ! slot)]\<rparr>"
  by (simp add: storeSamples_def fitQ2State_def fitQ2_def fitQ_def Let_def addOffset_def
      ext_addVectorsInPlace_def ext_setVectorToConstant_def upt3 upt_small numeral_3_eq_3)

lemma newResults_2:
  "newResults 3 1 0 2
     = \<lparr>sigmaSamples = [0, 0], trainingSamples = [[0, 0, 0], [0, 0, 0]], testSamples = [[], []],
        variableCountSamples = [[0], [0]]\<rparr>"
  "newResults 3 1 0 1
     = \<lparr>sigmaSamples = [0], trainingSamples = [[0, 0, 0]], testSamples = [[]],
        variableCountSamples = [[0]]\<rparr>"
  by (simp_all add: newResults_def numeral_2_eq_2 numeral_3_eq_3)

lemma fitQ2_pass_1:
  "samplerAfter tree_ref random_ref fitQ2 1 2 1
     = svQ2State (- 1 / 2) (1 / 8) [- 1 / 2, 1 / 8, 1 / 8] [- 1 / 2, 1 / 8, 1 / 8] (1 / 2) 3
         \<lparr>sigmaSamples = [0, 0], trainingSamples = [[0, 0, 0], [0, 0, 0]],
          testSamples = [[], []], variableCountSamples = [[0], [0]]\<rparr>
         [0] [(0, None)]"
proof -
  have "samplerAfter tree_ref random_ref fitQ2 1 2 1 = samplerAfter tree_ref random_ref fitQ2 1 2 (Suc 0)"
    by (rule arg_cong [where f = "samplerAfter tree_ref random_ref fitQ2 1 2"]) simp
  also have "\<dots> = iteration tree_ref random_ref 1 (word_of_nat 0) (samplerAfter tree_ref random_ref fitQ2 1 2 0)"
    by (rule samplerAfter_Suc)
  also have "\<dots> = svQ2State (- 1 / 2) (1 / 8) [- 1 / 2, 1 / 8, 1 / 8] [- 1 / 2, 1 / 8, 1 / 8] (1 / 2) 3
         \<lparr>sigmaSamples = [0, 0], trainingSamples = [[0, 0, 0], [0, 0, 0]],
          testSamples = [[], []], variableCountSamples = [[0], [0]]\<rparr>
         [0] [(0, None)]"
    unfolding samplerAfter_0 samplerInit_fitQ2
    by (simp add: fitQ2State_iteration newResults_def numeral_2_eq_2 numeral_3_eq_3)
  finally show ?thesis .
qed

lemma fitQ2_pass_2:
  "samplerAfter tree_ref random_ref fitQ2 1 2 2
     = svQ2State (- 1 / 2) (1 / 8) [- 1 / 2, 1 / 8, 1 / 8] [- 1 / 2, 1 / 8, 1 / 8] (1 / 4) 6
         \<lparr>sigmaSamples = [1, 0], trainingSamples = [[0, 5 / 2, 5 / 2], [0, 0, 0]],
          testSamples = [[], []], variableCountSamples = [[1], [0]]\<rparr>
         [1] [(0, None), (1, Some 0)]"
proof -
  have "samplerAfter tree_ref random_ref fitQ2 1 2 2 = samplerAfter tree_ref random_ref fitQ2 1 2 (Suc 1)"
    by (rule arg_cong [where f = "samplerAfter tree_ref random_ref fitQ2 1 2"]) simp
  also have "\<dots> = iteration tree_ref random_ref 1 (word_of_nat 1) (samplerAfter tree_ref random_ref fitQ2 1 2 1)"
    by (rule samplerAfter_Suc)
  also have "\<dots> = svQ2State (- 1 / 2) (1 / 8) [- 1 / 2, 1 / 8, 1 / 8] [- 1 / 2, 1 / 8, 1 / 8] (1 / 4) 6
         \<lparr>sigmaSamples = [1, 0], trainingSamples = [[0, 5 / 2, 5 / 2], [0, 0, 0]],
          testSamples = [[], []], variableCountSamples = [[1], [0]]\<rparr>
         [1] [(0, None), (1, Some 0)]"
    unfolding fitQ2_pass_1
    by (simp add: fitQ2State_iteration fitQ2State_storeSamples)
  finally show ?thesis .
qed

lemma fitQ2_pass_3:
  "samplerAfter tree_ref random_ref fitQ2 1 2 3
     = svQ2State (- 1 / 2) (1 / 8) [- 1 / 2, 1 / 8, 1 / 8] [- 1 / 2, 1 / 8, 1 / 8] (1 / 8) 9
         \<lparr>sigmaSamples = [1, 0], trainingSamples = [[0, 5 / 2, 5 / 2], [0, 0, 0]],
          testSamples = [[], []], variableCountSamples = [[1], [0]]\<rparr>
         [1] [(0, None), (1, Some 0), (2, None)]"
proof -
  have "samplerAfter tree_ref random_ref fitQ2 1 2 3 = samplerAfter tree_ref random_ref fitQ2 1 2 (Suc 2)"
    by (rule arg_cong [where f = "samplerAfter tree_ref random_ref fitQ2 1 2"]) simp
  also have "\<dots> = iteration tree_ref random_ref 1 (word_of_nat 2) (samplerAfter tree_ref random_ref fitQ2 1 2 2)"
    by (rule samplerAfter_Suc)
  also have "\<dots> = svQ2State (- 1 / 2) (1 / 8) [- 1 / 2, 1 / 8, 1 / 8] [- 1 / 2, 1 / 8, 1 / 8] (1 / 8) 9
         \<lparr>sigmaSamples = [1, 0], trainingSamples = [[0, 5 / 2, 5 / 2], [0, 0, 0]],
          testSamples = [[], []], variableCountSamples = [[1], [0]]\<rparr>
         [1] [(0, None), (1, Some 0), (2, None)]"
    unfolding fitQ2_pass_2
    by (simp add: fitQ2State_iteration fitQ2State_storeSamples)
  finally show ?thesis .
qed

lemma fitQ2_pass_4:
  "samplerAfter tree_ref random_ref fitQ2 1 2 4
     = svQ2State (- 1 / 2) (1 / 8) [- 1 / 2, 1 / 8, 1 / 8] [- 1 / 2, 1 / 8, 1 / 8] (1 / 16) 12
         \<lparr>sigmaSamples = [1 / 4, 0], trainingSamples = [[0, 5 / 2, 5 / 2], [0, 0, 0]],
          testSamples = [[], []], variableCountSamples = [[1], [0]]\<rparr>
         [1] [(0, None), (1, Some 0), (2, None), (3, Some 0)]"
proof -
  have "samplerAfter tree_ref random_ref fitQ2 1 2 4 = samplerAfter tree_ref random_ref fitQ2 1 2 (Suc 3)"
    by (rule arg_cong [where f = "samplerAfter tree_ref random_ref fitQ2 1 2"]) simp
  also have "\<dots> = iteration tree_ref random_ref 1 (word_of_nat 3) (samplerAfter tree_ref random_ref fitQ2 1 2 3)"
    by (rule samplerAfter_Suc)
  also have "\<dots> = svQ2State (- 1 / 2) (1 / 8) [- 1 / 2, 1 / 8, 1 / 8] [- 1 / 2, 1 / 8, 1 / 8] (1 / 16) 12
         \<lparr>sigmaSamples = [1 / 4, 0], trainingSamples = [[0, 5 / 2, 5 / 2], [0, 0, 0]],
          testSamples = [[], []], variableCountSamples = [[1], [0]]\<rparr>
         [1] [(0, None), (1, Some 0), (2, None), (3, Some 0)]"
    unfolding fitQ2_pass_3
    by (simp add: fitQ2State_iteration fitQ2State_storeSamples)
  finally show ?thesis .
qed

lemma fitQ2_pass_5:
  "samplerAfter tree_ref random_ref fitQ2 1 2 5
     = svQ2State (- 1 / 2) (1 / 8) [- 1 / 2, 1 / 8, 1 / 8] [- 1 / 2, 1 / 8, 1 / 8] (1 / 32) 15
         \<lparr>sigmaSamples = [1 / 4, 0], trainingSamples = [[0, 5 / 2, 5 / 2], [0, 0, 0]],
          testSamples = [[], []], variableCountSamples = [[1], [0]]\<rparr>
         [1] [(0, None), (1, Some 0), (2, None), (3, Some 0), (4, None)]"
proof -
  have "samplerAfter tree_ref random_ref fitQ2 1 2 5 = samplerAfter tree_ref random_ref fitQ2 1 2 (Suc 4)"
    by (rule arg_cong [where f = "samplerAfter tree_ref random_ref fitQ2 1 2"]) simp
  also have "\<dots> = iteration tree_ref random_ref 1 (word_of_nat 4) (samplerAfter tree_ref random_ref fitQ2 1 2 4)"
    by (rule samplerAfter_Suc)
  also have "\<dots> = svQ2State (- 1 / 2) (1 / 8) [- 1 / 2, 1 / 8, 1 / 8] [- 1 / 2, 1 / 8, 1 / 8] (1 / 32) 15
         \<lparr>sigmaSamples = [1 / 4, 0], trainingSamples = [[0, 5 / 2, 5 / 2], [0, 0, 0]],
          testSamples = [[], []], variableCountSamples = [[1], [0]]\<rparr>
         [1] [(0, None), (1, Some 0), (2, None), (3, Some 0), (4, None)]"
    unfolding fitQ2_pass_4
    by (simp add: fitQ2State_iteration fitQ2State_storeSamples)
  finally show ?thesis .
qed

lemma fitQ2_pass_6:
  "samplerAfter tree_ref random_ref fitQ2 1 2 6
     = svQ2State (- 1 / 2) (1 / 8) [- 1 / 2, 1 / 8, 1 / 8] [- 1 / 2, 1 / 8, 1 / 8] (1 / 64) 18
         \<lparr>sigmaSamples = [1 / 4, 1 / 16], trainingSamples = [[0, 5 / 2, 5 / 2], [0, 5 / 2, 5 / 2]],
          testSamples = [[], []], variableCountSamples = [[1], [1]]\<rparr>
         [1] [(0, None), (1, Some 0), (2, None), (3, Some 0), (4, None), (5, Some 1)]"
proof -
  have "samplerAfter tree_ref random_ref fitQ2 1 2 6 = samplerAfter tree_ref random_ref fitQ2 1 2 (Suc 5)"
    by (rule arg_cong [where f = "samplerAfter tree_ref random_ref fitQ2 1 2"]) simp
  also have "\<dots> = iteration tree_ref random_ref 1 (word_of_nat 5) (samplerAfter tree_ref random_ref fitQ2 1 2 5)"
    by (rule samplerAfter_Suc)
  also have "\<dots> = svQ2State (- 1 / 2) (1 / 8) [- 1 / 2, 1 / 8, 1 / 8] [- 1 / 2, 1 / 8, 1 / 8] (1 / 64) 18
         \<lparr>sigmaSamples = [1 / 4, 1 / 16], trainingSamples = [[0, 5 / 2, 5 / 2], [0, 5 / 2, 5 / 2]],
          testSamples = [[], []], variableCountSamples = [[1], [1]]\<rparr>
         [1] [(0, None), (1, Some 0), (2, None), (3, Some 0), (4, None), (5, Some 1)]"
    unfolding fitQ2_pass_5
    by (simp add: fitQ2State_iteration fitQ2State_storeSamples)
  finally show ?thesis .
qed

lemma fitQ2_burn_in_pass_1:
  "samplerAfter tree_ref random_ref fitQ2 1 0 1
     = svQ2State (- 1 / 2) (1 / 8) [- 1 / 2, 1 / 8, 1 / 8] [- 1 / 2, 1 / 8, 1 / 8] (1 / 2) 3
         \<lparr>sigmaSamples = [0], trainingSamples = [[0, 0, 0]],
          testSamples = [[]], variableCountSamples = [[0]]\<rparr>
         [0] [(0, None)]"
proof -
  have "samplerAfter tree_ref random_ref fitQ2 1 0 1 = samplerAfter tree_ref random_ref fitQ2 1 0 (Suc 0)"
    by (rule arg_cong [where f = "samplerAfter tree_ref random_ref fitQ2 1 0"]) simp
  also have "\<dots> = iteration tree_ref random_ref 1 (word_of_nat 0) (samplerAfter tree_ref random_ref fitQ2 1 0 0)"
    by (rule samplerAfter_Suc)
  also have "\<dots> = svQ2State (- 1 / 2) (1 / 8) [- 1 / 2, 1 / 8, 1 / 8] [- 1 / 2, 1 / 8, 1 / 8] (1 / 2) 3
         \<lparr>sigmaSamples = [0], trainingSamples = [[0, 0, 0]],
          testSamples = [[]], variableCountSamples = [[0]]\<rparr>
         [0] [(0, None)]"
    unfolding samplerAfter_0 samplerInit_fitQ2
    by (simp add: fitQ2State_iteration newResults_def numeral_2_eq_2 numeral_3_eq_3)
  finally show ?thesis .
qed

lemma fitQ2_burn_in_pass_2:
  "samplerAfter tree_ref random_ref fitQ2 1 0 2
     = svQ2State (- 1 / 2) (1 / 8) [- 1 / 2, 1 / 8, 1 / 8] [- 1 / 2, 1 / 8, 1 / 8] (1 / 4) 6
         \<lparr>sigmaSamples = [1], trainingSamples = [[0, 5 / 2, 5 / 2]],
          testSamples = [[]], variableCountSamples = [[1]]\<rparr>
         [1] [(0, None), (1, Some 0)]"
proof -
  have "samplerAfter tree_ref random_ref fitQ2 1 0 2 = samplerAfter tree_ref random_ref fitQ2 1 0 (Suc 1)"
    by (rule arg_cong [where f = "samplerAfter tree_ref random_ref fitQ2 1 0"]) simp
  also have "\<dots> = iteration tree_ref random_ref 1 (word_of_nat 1) (samplerAfter tree_ref random_ref fitQ2 1 0 1)"
    by (rule samplerAfter_Suc)
  also have "\<dots> = svQ2State (- 1 / 2) (1 / 8) [- 1 / 2, 1 / 8, 1 / 8] [- 1 / 2, 1 / 8, 1 / 8] (1 / 4) 6
         \<lparr>sigmaSamples = [1], trainingSamples = [[0, 5 / 2, 5 / 2]],
          testSamples = [[]], variableCountSamples = [[1]]\<rparr>
         [1] [(0, None), (1, Some 0)]"
    unfolding fitQ2_burn_in_pass_1
    by (simp add: fitQ2State_iteration fitQ2State_storeSamples)
  finally show ?thesis .
qed


text \<open>
  Claim C3, as amended. Where \<open>(numBurnIn + numSamples) \<cdot> thinRate\<close> fits the 32-bit
  counter of the loop, \<open>runSampler\<close> returns after exactly that many passes, with the
  variables and the result buffers those passes leave, and every pass advances the chain
  by a sweep over the trees and a draw of the response model. A pass \<open>k\<close> that is a thinning
  iteration leaves the result buffers as they are. A pass that is not writes the sample of
  the fit it has just drawn to slot \<open>sampleSlot\<close>, which is 0 while the chain is in burn-in
  and \<open>k / thinRate - numBurnIn\<close> afterwards, and leaves the other slots as they are: the
  slot then holds sigma in the units of the response, the de-scaled training fits (when
  training fits are kept) and test fits, and the use counts of the variables over all
  trees. For a thinning rate above 0, slot \<open>s\<close> of the returned buffers holds the sample
  of pass \<open>(numBurnIn + s + 1) \<cdot> thinRate - 1\<close>.
\<close>

theorem runSampler_iterations_and_stores:
  assumes "specNumIterations numBurnIn numSamples (treeThinningRate (control fit)) < 2 ^ 32"
  shows "runSampler e rn fit numBurnIn numSamples
           = Some (if numSamples = 0 then None
                   else Some (sv_results (samplerAfter e rn fit numBurnIn numSamples
                          (specNumIterations numBurnIn numSamples (treeThinningRate (control fit))))),
                   samplerAfter e rn fit numBurnIn numSamples
                     (specNumIterations numBurnIn numSamples (treeThinningRate (control fit))))
       \<and> length (iterLog (samplerAfter e rn fit numBurnIn numSamples
                    (specNumIterations numBurnIn numSamples (treeThinningRate (control fit)))))
           = specNumIterations numBurnIn numSamples (treeThinningRate (control fit))
       \<and> (\<forall>k < specNumIterations numBurnIn numSamples (treeThinningRate (control fit)).
             advancesChain e rn (isThinningIteration (treeThinningRate (control fit)) (word_of_nat k))
               (samplerAfter e rn fit numBurnIn numSamples k)
               (samplerAfter e rn fit numBurnIn numSamples (Suc k))
           \<and> (isThinningIteration (treeThinningRate (control fit)) (word_of_nat k) \<longrightarrow>
                sv_results (samplerAfter e rn fit numBurnIn numSamples (Suc k))
                  = sv_results (samplerAfter e rn fit numBurnIn numSamples k))
           \<and> (\<not> isThinningIteration (treeThinningRate (control fit)) (word_of_nat k) \<longrightarrow>
                holdsSample e (sv_fit (samplerAfter e rn fit numBurnIn numSamples (Suc k)))
                  (sv_variableCounts (samplerAfter e rn fit numBurnIn numSamples k))
                  (sv_results (samplerAfter e rn fit numBurnIn numSamples (Suc k)))
                  (sampleSlot numBurnIn (treeThinningRate (control fit)) (word_of_nat k))
              \<and> (\<forall>t. t \<noteq> sampleSlot numBurnIn (treeThinningRate (control fit)) (word_of_nat k) \<longrightarrow>
                     sampleAt (sv_results (samplerAfter e rn fit numBurnIn numSamples (Suc k))) t
                       = sampleAt (sv_results (samplerAfter e rn fit numBurnIn numSamples k)) t)))
       \<and> (0 < unat (treeThinningRate (control fit)) \<longrightarrow>
            (\<forall>s < numSamples.
               holdsSample e
                 (sv_fit (samplerAfter e rn fit numBurnIn numSamples
                    (Suc (sampleIteration numBurnIn (treeThinningRate (control fit)) s))))
                 (sv_variableCounts (samplerAfter e rn fit numBurnIn numSamples
                    (sampleIteration numBurnIn (treeThinningRate (control fit)) s)))
                 (sv_results (samplerAfter e rn fit numBurnIn numSamples
                    (specNumIterations numBurnIn numSamples (treeThinningRate (control fit))))) s))"
proof -
  let ?thin = "treeThinningRate (control fit)"
  have total: "(numBurnIn + numSamples) * unat ?thin < 2 ^ 32"
    using assms by (simp add: specNumIterations_def)
  have 1: "runSampler e rn fit numBurnIn numSamples
           = Some (if numSamples = 0 then None
                   else Some (sv_results (samplerAfter e rn fit numBurnIn numSamples
                                (specNumIterations numBurnIn numSamples ?thin))),
                   samplerAfter e rn fit numBurnIn numSamples
                     (specNumIterations numBurnIn numSamples ?thin))"
    unfolding specNumIterations_def by (rule runSampler_samplerAfter [OF total])
  have 2: "length (iterLog (samplerAfter e rn fit numBurnIn numSamples
                     (specNumIterations numBurnIn numSamples ?thin)))
             = specNumIterations numBurnIn numSamples ?thin"
    by (simp add: samplerAfter_log)
  have 3: "advancesChain e rn (isThinningIteration ?thin (word_of_nat k))
               (samplerAfter e rn fit numBurnIn numSamples k)
               (samplerAfter e rn fit numBurnIn numSamples (Suc k))
           \<and> (isThinningIteration ?thin (word_of_nat k) \<longrightarrow>
                sv_results (samplerAfter e rn fit numBurnIn numSamples (Suc k))
                  = sv_results (samplerAfter e rn fit numBurnIn numSamples k))
           \<and> (\<not> isThinningIteration ?thin (word_of_nat k) \<longrightarrow>
                holdsSample e (sv_fit (samplerAfter e rn fit numBurnIn numSamples (Suc k)))
                  (sv_variableCounts (samplerAfter e rn fit numBurnIn numSamples k))
                  (sv_results (samplerAfter e rn fit numBurnIn numSamples (Suc k)))
                  (sampleSlot numBurnIn ?thin (word_of_nat k))
              \<and> (\<forall>t. t \<noteq> sampleSlot numBurnIn ?thin (word_of_nat k) \<longrightarrow>
                     sampleAt (sv_results (samplerAfter e rn fit numBurnIn numSamples (Suc k))) t
                       = sampleAt (sv_results (samplerAfter e rn fit numBurnIn numSamples k)) t))"
    if "k < specNumIterations numBurnIn numSamples ?thin" for k
  proof -
    have k: "k < (numBurnIn + numSamples) * unat ?thin"
      using that by (simp add: specNumIterations_def)
    show ?thesis
      using samplerAfter_step(1) [OF total k, of e rn] samplerAfter_step(2) [OF total k, of e rn]
        samplerAfter_step(3) [OF total k, of _ e rn]
        samplerAfter_advances [of e rn fit k numBurnIn numSamples]
      by blast
  qed
  have 4: "holdsSample e
             (sv_fit (samplerAfter e rn fit numBurnIn numSamples
                (Suc (sampleIteration numBurnIn ?thin s))))
             (sv_variableCounts (samplerAfter e rn fit numBurnIn numSamples
                (sampleIteration numBurnIn ?thin s)))
             (sv_results (samplerAfter e rn fit numBurnIn numSamples
                (specNumIterations numBurnIn numSamples ?thin))) s"
    if "0 < unat ?thin" "s < numSamples" for s
    unfolding specNumIterations_def by (rule sample_returned [OF total that])
  show ?thesis using 1 2 3 4 by blast
qed

lemma fitQ2_runs:
  "specNumIterations 1 2 (treeThinningRate (control fitQ2)) = 6"
  "specNumIterations 1 0 (treeThinningRate (control fitQ2)) = 2"
  "specNumIterations (2 ^ 31) 0 (treeThinningRate (control fitQ2)) = 2 ^ 32"
  by (simp_all add: specNumIterations_def fitQ2_thin)

lemma fitQ2_slots:
  "isThinningIteration (treeThinningRate (control fitQ2)) (word_of_nat 0)"
  "\<not> isThinningIteration (treeThinningRate (control fitQ2)) (word_of_nat 1)"
  "isBurningIn 1 (treeThinningRate (control fitQ2)) (word_of_nat 1)"
  "\<not> specWritesSample 1 (treeThinningRate (control fitQ2)) (word_of_nat 1)"
  "sampleSlot 1 (treeThinningRate (control fitQ2)) (word_of_nat 1) = 0"
  "sampleIteration 1 (treeThinningRate (control fitQ2)) 0 = 3"
  "sampleIteration 1 (treeThinningRate (control fitQ2)) 1 = 5"
  by (simp_all add: fitQ2_thin isThinningIteration_def isBurningIn_def specWritesSample_def
      sampleSlot_def sampleIteration_def)

text \<open>
  Claim C3 as stated fails with one burn-in iteration and a thinning rate of 2: the pass
  \<open>k = 1\<close> is not a thinning iteration and is still in burn-in, the result buffers hold
  zeros before it and the sample of the pass in slot 0 after it; and a run of burn-in
  alone leaves that sample in its buffer. It also fails where the number of iterations
  is \<open>2\<^sup>3\<^sup>2\<close>: the loop does not end after that many passes.
\<close>

theorem runSampler_stores_during_burn_in:
  "\<not> isThinningIteration (treeThinningRate (control fitQ2)) (word_of_nat 1)
   \<and> isBurningIn 1 (treeThinningRate (control fitQ2)) (word_of_nat 1)
   \<and> \<not> specWritesSample 1 (treeThinningRate (control fitQ2)) (word_of_nat 1)
   \<and> sv_results (samplerAfter tree_ref random_ref fitQ2 1 2 1)
       = \<lparr>sigmaSamples = [0, 0], trainingSamples = [[0, 0, 0], [0, 0, 0]],
          testSamples = [[], []], variableCountSamples = [[0], [0]]\<rparr>
   \<and> sv_results (samplerAfter tree_ref random_ref fitQ2 1 2 (Suc 1))
       = \<lparr>sigmaSamples = [1, 0], trainingSamples = [[0, 5 / 2, 5 / 2], [0, 0, 0]],
          testSamples = [[], []], variableCountSamples = [[1], [0]]\<rparr>
   \<and> map_option (sv_results \<circ> snd) (runSampler tree_ref random_ref fitQ2 1 0)
       = Some \<lparr>sigmaSamples = [1], trainingSamples = [[0, 5 / 2, 5 / 2]],
               testSamples = [[]], variableCountSamples = [[1]]\<rparr>
   \<and> specNumIterations (2 ^ 31 - 1) 1 (treeThinningRate (control fitQ2)) = 2 ^ 32
   \<and> runSampler tree_ref random_ref fitQ2 (2 ^ 31 - 1) 1 = None"
proof -
  have b: "(1 + 0) * unat (treeThinningRate (control fitQ2)) < 2 ^ 32"
    by (simp add: fitQ2_thin)
  have t: "(1 + 0) * unat (treeThinningRate (control fitQ2)) = 2"
    by (simp add: fitQ2_thin)
  have r: "map_option (sv_results \<circ> snd) (runSampler tree_ref random_ref fitQ2 1 0)
             = Some (sv_results (samplerAfter tree_ref random_ref fitQ2 1 0 2))"
    unfolding runSampler_samplerAfter [OF b] t by simp
  have s2: "Suc 1 = (2 :: nat)" by simp
  have n: "specNumIterations (2 ^ 31 - 1) 1 (treeThinningRate (control fitQ2)) = 2 ^ 32"
    by (simp add: specNumIterations_def fitQ2_thin)
  have d: "runSampler tree_ref random_ref fitQ2 (2 ^ 31 - 1) 1 = None"
    by (rule runSampler_diverges) (simp_all add: fitQ2_thin)
  show ?thesis
    unfolding r s2 fitQ2_pass_1 fitQ2_pass_2 fitQ2_burn_in_pass_2 n d
    using fitQ2_slots(2,3,4) by (simp add: svQ2State_def)
qed

theorem runSampler_iterations_and_stores_witness:
  "specNumIterations 1 2 (treeThinningRate (control fitQ2)) < 2 ^ 32
   \<and> specNumIterations 1 2 (treeThinningRate (control fitQ2)) = 6
   \<and> runSampler tree_ref random_ref fitQ2 1 2
       = Some (Some \<lparr>sigmaSamples = [1 / 4, 1 / 16],
                   trainingSamples = [[0, 5 / 2, 5 / 2], [0, 5 / 2, 5 / 2]],
                   testSamples = [[], []], variableCountSamples = [[1], [1]]\<rparr>,
            svQ2State (- 1 / 2) (1 / 8) [- 1 / 2, 1 / 8, 1 / 8] [- 1 / 2, 1 / 8, 1 / 8] (1 / 64) 18
              \<lparr>sigmaSamples = [1 / 4, 1 / 16],
               trainingSamples = [[0, 5 / 2, 5 / 2], [0, 5 / 2, 5 / 2]],
               testSamples = [[], []], variableCountSamples = [[1], [1]]\<rparr>
              [1] [(0, None), (1, Some 0), (2, None), (3, Some 0), (4, None), (5, Some 1)])
   \<and> (0 :: nat) < 6 \<and> isThinningIteration (treeThinningRate (control fitQ2)) (word_of_nat 0)
   \<and> sv_results (samplerAfter tree_ref random_ref fitQ2 1 2 (Suc 0))
       = sv_results (samplerAfter tree_ref random_ref fitQ2 1 2 0)
   \<and> (1 :: nat) < 6 \<and> \<not> isThinningIteration (treeThinningRate (control fitQ2)) (word_of_nat 1)
   \<and> sampleSlot 1 (treeThinningRate (control fitQ2)) (word_of_nat 1) = 0
   \<and> holdsSample tree_ref (sv_fit (samplerAfter tree_ref random_ref fitQ2 1 2 (Suc 1)))
        (sv_variableCounts (samplerAfter tree_ref random_ref fitQ2 1 2 1))
        (sv_results (samplerAfter tree_ref random_ref fitQ2 1 2 (Suc 1))) 0
   \<and> sampleAt (sv_results (samplerAfter tree_ref random_ref fitQ2 1 2 (Suc 1))) 1
       = sampleAt (sv_results (samplerAfter tree_ref random_ref fitQ2 1 2 1)) 1
   \<and> 0 < unat (treeThinningRate (control fitQ2)) \<and> (1 :: nat) < 2
   \<and> sampleIteration 1 (treeThinningRate (control fitQ2)) 1 = 5
   \<and> holdsSample tree_ref (sv_fit (samplerAfter tree_ref random_ref fitQ2 1 2 (Suc 5)))
        (sv_variableCounts (samplerAfter tree_ref random_ref fitQ2 1 2 5))
        (sv_results (samplerAfter tree_ref random_ref fitQ2 1 2 6)) 1"
proof -
  have b: "specNumIterations 1 2 (treeThinningRate (control fitQ2)) < 2 ^ 32"
    unfolding fitQ2_runs by simp
  note t = runSampler_iterations_and_stores [OF b, of tree_ref random_ref, unfolded fitQ2_runs]
  have r: "runSampler tree_ref random_ref fitQ2 1 2
       = Some (Some \<lparr>sigmaSamples = [1 / 4, 1 / 16],
                   trainingSamples = [[0, 5 / 2, 5 / 2], [0, 5 / 2, 5 / 2]],
                   testSamples = [[], []], variableCountSamples = [[1], [1]]\<rparr>,
            svQ2State (- 1 / 2) (1 / 8) [- 1 / 2, 1 / 8, 1 / 8] [- 1 / 2, 1 / 8, 1 / 8] (1 / 64) 18
              \<lparr>sigmaSamples = [1 / 4, 1 / 16],
               trainingSamples = [[0, 5 / 2, 5 / 2], [0, 5 / 2, 5 / 2]],
               testSamples = [[], []], variableCountSamples = [[1], [1]]\<rparr>
              [1] [(0, None), (1, Some 0), (2, None), (3, Some 0), (4, None), (5, Some 1)])"
    using conjunct1 [OF t] unfolding fitQ2_pass_6 by (simp add: svQ2State_def)
  have k: "\<forall>k<6.
      advancesChain tree_ref random_ref
        (isThinningIteration (treeThinningRate (control fitQ2)) (word_of_nat k))
        (samplerAfter tree_ref random_ref fitQ2 1 2 k)
        (samplerAfter tree_ref random_ref fitQ2 1 2 (Suc k))
      \<and> (isThinningIteration (treeThinningRate (control fitQ2)) (word_of_nat k) \<longrightarrow>
         sv_results (samplerAfter tree_ref random_ref fitQ2 1 2 (Suc k))
           = sv_results (samplerAfter tree_ref random_ref fitQ2 1 2 k))
      \<and> (\<not> isThinningIteration (treeThinningRate (control fitQ2)) (word_of_nat k) \<longrightarrow>
           holdsSample tree_ref (sv_fit (samplerAfter tree_ref random_ref fitQ2 1 2 (Suc k)))
             (sv_variableCounts (samplerAfter tree_ref random_ref fitQ2 1 2 k))
             (sv_results (samplerAfter tree_ref random_ref fitQ2 1 2 (Suc k)))
             (sampleSlot 1 (treeThinningRate (control fitQ2)) (word_of_nat k))
           \<and> (\<forall>t. t \<noteq> sampleSlot 1 (treeThinningRate (control fitQ2)) (word_of_nat k) \<longrightarrow>
                  sampleAt (sv_results (samplerAfter tree_ref random_ref fitQ2 1 2 (Suc k))) t
                    = sampleAt (sv_results (samplerAfter tree_ref random_ref fitQ2 1 2 k)) t))"
    using t by blast
  have k0: "sv_results (samplerAfter tree_ref random_ref fitQ2 1 2 (Suc 0))
              = sv_results (samplerAfter tree_ref random_ref fitQ2 1 2 0)"
    using k fitQ2_slots(1) by (metis zero_less_numeral)
  have lt: "(1 :: nat) < 6" by simp
  have k1: "holdsSample tree_ref (sv_fit (samplerAfter tree_ref random_ref fitQ2 1 2 (Suc 1)))
        (sv_variableCounts (samplerAfter tree_ref random_ref fitQ2 1 2 1))
        (sv_results (samplerAfter tree_ref random_ref fitQ2 1 2 (Suc 1))) 0"
    "sampleAt (sv_results (samplerAfter tree_ref random_ref fitQ2 1 2 (Suc 1))) 1
       = sampleAt (sv_results (samplerAfter tree_ref random_ref fitQ2 1 2 1)) 1"
    using k [rule_format, OF lt] fitQ2_slots(2) unfolding fitQ2_slots(5) by simp_all
  have th: "0 < unat (treeThinningRate (control fitQ2))" by (simp add: fitQ2_thin)
  have s: "holdsSample tree_ref (sv_fit (samplerAfter tree_ref random_ref fitQ2 1 2 (Suc 5)))
        (sv_variableCounts (samplerAfter tree_ref random_ref fitQ2 1 2 5))
        (sv_results (samplerAfter tree_ref random_ref fitQ2 1 2 6)) 1"
    using t th unfolding fitQ2_slots(7) [symmetric] by simp
  show ?thesis
    using b fitQ2_runs(1) r k0 fitQ2_slots(1,2,5,7) k1 th s by simp
qed

text \<open>
  Claim C10. Where the number of passes fits the 32-bit counter of the loop,
  \<open>runSampler(numBurnIn, 0)\<close> makes \<open>numBurnIn \<cdot> thinRate\<close> passes on result buffers of
  one sample and returns a null pointer, and with \<open>numSamples > 0\<close> it returns the buffers
  of \<open>numSamples\<close> samples that its passes have filled; every pass advances the chain by
  a sweep over the trees and a draw of the response model. Where the number of passes is
  \<open>2\<^sup>3\<^sup>2\<close> or more (and fits a \<^verbatim>\<open>size_t\<close>), the counter wraps around before it reaches the
  bound and the call does not return.
\<close>

theorem runSampler_returns_unless_counter_wraps:
  "(specNumIterations numBurnIn 0 (treeThinningRate (control fit)) < 2 ^ 32 \<longrightarrow>
      runSampler e rn fit numBurnIn 0
        = Some (None, samplerAfter e rn fit numBurnIn 0
                        (specNumIterations numBurnIn 0 (treeThinningRate (control fit))))
      \<and> resultsSized 1 (sv_results (samplerAfter e rn fit numBurnIn 0
                           (specNumIterations numBurnIn 0 (treeThinningRate (control fit)))))
      \<and> (\<forall>k < specNumIterations numBurnIn 0 (treeThinningRate (control fit)).
             advancesChain e rn (isThinningIteration (treeThinningRate (control fit)) (word_of_nat k))
               (samplerAfter e rn fit numBurnIn 0 k) (samplerAfter e rn fit numBurnIn 0 (Suc k))))
   \<and> (0 < numSamples
       \<and> specNumIterations numBurnIn numSamples (treeThinningRate (control fit)) < 2 ^ 32 \<longrightarrow>
      runSampler e rn fit numBurnIn numSamples
        = Some (Some (sv_results (samplerAfter e rn fit numBurnIn numSamples
                        (specNumIterations numBurnIn numSamples (treeThinningRate (control fit))))),
                samplerAfter e rn fit numBurnIn numSamples
                  (specNumIterations numBurnIn numSamples (treeThinningRate (control fit))))
      \<and> resultsSized numSamples (sv_results (samplerAfter e rn fit numBurnIn numSamples
                           (specNumIterations numBurnIn numSamples (treeThinningRate (control fit)))))
      \<and> (\<forall>k < specNumIterations numBurnIn numSamples (treeThinningRate (control fit)).
             advancesChain e rn (isThinningIteration (treeThinningRate (control fit)) (word_of_nat k))
               (samplerAfter e rn fit numBurnIn numSamples k)
               (samplerAfter e rn fit numBurnIn numSamples (Suc k))))
   \<and> (2 ^ 32 \<le> specNumIterations numBurnIn numSamples (treeThinningRate (control fit))
       \<and> specNumIterations numBurnIn numSamples (treeThinningRate (control fit)) < 2 ^ 64 \<longrightarrow>
      runSampler e rn fit numBurnIn numSamples = None)"
proof (intro conjI impI)
  assume "specNumIterations numBurnIn 0 (treeThinningRate (control fit)) < 2 ^ 32"
  then have a: "(numBurnIn + 0) * unat (treeThinningRate (control fit)) < 2 ^ 32"
    by (simp add: specNumIterations_def)
  show "runSampler e rn fit numBurnIn 0
        = Some (None, samplerAfter e rn fit numBurnIn 0
                        (specNumIterations numBurnIn 0 (treeThinningRate (control fit))))"
    unfolding specNumIterations_def runSampler_samplerAfter [OF a] by simp
  show "resultsSized 1 (sv_results (samplerAfter e rn fit numBurnIn 0
                           (specNumIterations numBurnIn 0 (treeThinningRate (control fit)))))"
    using samplerAfter_sized [of 0 e rn fit numBurnIn] by simp
  show "\<forall>k < specNumIterations numBurnIn 0 (treeThinningRate (control fit)).
             advancesChain e rn (isThinningIteration (treeThinningRate (control fit)) (word_of_nat k))
               (samplerAfter e rn fit numBurnIn 0 k) (samplerAfter e rn fit numBurnIn 0 (Suc k))"
    by (simp add: samplerAfter_advances)
next
  assume "0 < numSamples
       \<and> specNumIterations numBurnIn numSamples (treeThinningRate (control fit)) < 2 ^ 32"
  then have n: "0 < numSamples"
    and a: "(numBurnIn + numSamples) * unat (treeThinningRate (control fit)) < 2 ^ 32"
    by (simp_all add: specNumIterations_def)
  show "runSampler e rn fit numBurnIn numSamples
        = Some (Some (sv_results (samplerAfter e rn fit numBurnIn numSamples
                        (specNumIterations numBurnIn numSamples (treeThinningRate (control fit))))),
                samplerAfter e rn fit numBurnIn numSamples
                  (specNumIterations numBurnIn numSamples (treeThinningRate (control fit))))"
    unfolding specNumIterations_def runSampler_samplerAfter [OF a] using n by simp
  show "resultsSized numSamples (sv_results (samplerAfter e rn fit numBurnIn numSamples
                           (specNumIterations numBurnIn numSamples (treeThinningRate (control fit)))))"
    using samplerAfter_sized [of numSamples e rn fit numBurnIn] n by simp
  show "\<forall>k < specNumIterations numBurnIn numSamples (treeThinningRate (control fit)).
             advancesChain e rn (isThinningIteration (treeThinningRate (control fit)) (word_of_nat k))
               (samplerAfter e rn fit numBurnIn numSamples k)
               (samplerAfter e rn fit numBurnIn numSamples (Suc k))"
    by (simp add: samplerAfter_advances)
next
  assume "2 ^ 32 \<le> specNumIterations numBurnIn numSamples (treeThinningRate (control fit))
       \<and> specNumIterations numBurnIn numSamples (treeThinningRate (control fit)) < 2 ^ 64"
  then have "2 ^ 32 \<le> (numBurnIn + numSamples) * unat (treeThinningRate (control fit))"
    "(numBurnIn + numSamples) * unat (treeThinningRate (control fit)) < 2 ^ 64"
    unfolding specNumIterations_def by blast+
  then show "runSampler e rn fit numBurnIn numSamples = None"
    by (rule runSampler_diverges)
qed

theorem runSampler_returns_unless_counter_wraps_witness:
  "specNumIterations 1 0 (treeThinningRate (control fitQ2)) < 2 ^ 32
   \<and> runSampler tree_ref random_ref fitQ2 1 0
       = Some (None,
            svQ2State (- 1 / 2) (1 / 8) [- 1 / 2, 1 / 8, 1 / 8] [- 1 / 2, 1 / 8, 1 / 8] (1 / 4) 6
              \<lparr>sigmaSamples = [1], trainingSamples = [[0, 5 / 2, 5 / 2]],
               testSamples = [[]], variableCountSamples = [[1]]\<rparr>
              [1] [(0, None), (1, Some 0)])
   \<and> sv_fit (samplerInit fitQ2 0) = fitQ2State 0 0 [0, 0, 0] 1 0
   \<and> (0 :: nat) < 2 \<and> specNumIterations 1 2 (treeThinningRate (control fitQ2)) < 2 ^ 32
   \<and> runSampler tree_ref random_ref fitQ2 1 2
       = Some (Some \<lparr>sigmaSamples = [1 / 4, 1 / 16],
                   trainingSamples = [[0, 5 / 2, 5 / 2], [0, 5 / 2, 5 / 2]],
                   testSamples = [[], []], variableCountSamples = [[1], [1]]\<rparr>,
            svQ2State (- 1 / 2) (1 / 8) [- 1 / 2, 1 / 8, 1 / 8] [- 1 / 2, 1 / 8, 1 / 8] (1 / 64) 18
              \<lparr>sigmaSamples = [1 / 4, 1 / 16],
               trainingSamples = [[0, 5 / 2, 5 / 2], [0, 5 / 2, 5 / 2]],
               testSamples = [[], []], variableCountSamples = [[1], [1]]\<rparr>
              [1] [(0, None), (1, Some 0), (2, None), (3, Some 0), (4, None), (5, Some 1)])
   \<and> (2 :: nat) ^ 32 \<le> specNumIterations (2 ^ 31) 0 (treeThinningRate (control fitQ2))
   \<and> specNumIterations (2 ^ 31) 0 (treeThinningRate (control fitQ2)) < 2 ^ 64
   \<and> runSampler tree_ref random_ref fitQ2 (2 ^ 31) 0 = None"
proof -
  have a: "runSampler tree_ref random_ref fitQ2 1 0
       = Some (None,
            svQ2State (- 1 / 2) (1 / 8) [- 1 / 2, 1 / 8, 1 / 8] [- 1 / 2, 1 / 8, 1 / 8] (1 / 4) 6
              \<lparr>sigmaSamples = [1], trainingSamples = [[0, 5 / 2, 5 / 2]],
               testSamples = [[]], variableCountSamples = [[1]]\<rparr>
              [1] [(0, None), (1, Some 0)])"
    using runSampler_returns_unless_counter_wraps
        [where numBurnIn = 1 and fit = fitQ2 and e = tree_ref and rn = random_ref and numSamples = 0]
    unfolding fitQ2_runs fitQ2_burn_in_pass_2 by simp
  have b: "runSampler tree_ref random_ref fitQ2 1 2
       = Some (Some \<lparr>sigmaSamples = [1 / 4, 1 / 16],
                   trainingSamples = [[0, 5 / 2, 5 / 2], [0, 5 / 2, 5 / 2]],
                   testSamples = [[], []], variableCountSamples = [[1], [1]]\<rparr>,
            svQ2State (- 1 / 2) (1 / 8) [- 1 / 2, 1 / 8, 1 / 8] [- 1 / 2, 1 / 8, 1 / 8] (1 / 64) 18
              \<lparr>sigmaSamples = [1 / 4, 1 / 16],
               trainingSamples = [[0, 5 / 2, 5 / 2], [0, 5 / 2, 5 / 2]],
               testSamples = [[], []], variableCountSamples = [[1], [1]]\<rparr>
              [1] [(0, None), (1, Some 0), (2, None), (3, Some 0), (4, None), (5, Some 1)])"
    using runSampler_returns_unless_counter_wraps
        [where numBurnIn = 1 and fit = fitQ2 and e = tree_ref and rn = random_ref and numSamples = 2]
    unfolding fitQ2_runs fitQ2_pass_6 by (simp add: svQ2State_def)
  have c: "runSampler tree_ref random_ref fitQ2 (2 ^ 31) 0 = None"
    using runSampler_returns_unless_counter_wraps
        [where numBurnIn = "2 ^ 31" and fit = fitQ2 and e = tree_ref and rn = random_ref
           and numSamples = 0]
    unfolding fitQ2_runs by simp
  have i: "sv_fit (samplerInit fitQ2 0) = fitQ2State 0 0 [0, 0, 0] 1 0"
    by (simp add: samplerInit_fitQ2 svQ2State_def)
  show ?thesis unfolding fitQ2_runs using a b c i by simp
qed

section \<open>The data initializer: weights and offset\<close>

lemma andThen_Inr: "andThen r f = Inr v \<longleftrightarrow> (\<exists>u. r = Inr u \<and> f u = Inr v)"
  by (cases r) (simp_all add: andThen_def)

lemma init_y_fields:
  "init_y ex d = Inr d' \<Longrightarrow> weights d' = weights d \<and> offset d' = offset d"
  by (auto simp: init_y_def Let_def split: if_splits)

lemma init_x_fields:
  "init_x ex d = Inr d' \<Longrightarrow> weights d' = weights d \<and> offset d' = offset d"
  by (auto simp: init_x_def Let_def split: if_splits option.splits)

lemma init_varTypes_fields:
  "init_varTypes ex d = Inr d' \<Longrightarrow> weights d' = weights d \<and> offset d' = offset d"
  by (auto simp: init_varTypes_def Let_def split: if_splits)

lemma init_x_test_fields:
  "init_x_test ex d = Inr d' \<Longrightarrow> weights d' = weights d \<and> offset d' = offset d"
  by (auto simp: init_x_test_def Let_def split: if_splits option.splits)

lemma init_sigma_fields:
  "init_sigma ex d = Inr d' \<Longrightarrow> weights d' = weights d \<and> offset d' = offset d"
  by (auto simp: init_sigma_def Let_def split: if_splits)

lemma init_n_cuts_fields:
  "init_n_cuts ex d = Inr d' \<Longrightarrow> weights d' = weights d \<and> offset d' = offset d"
  by (auto simp: init_n_cuts_def Let_def split: if_splits)

lemma init_weights_fields:
  "init_weights ex d = Inr d' \<Longrightarrow>
     offset d' = offset d
     \<and> weights d' = (if nullOrEmpty (slot_weights ex) then None else Some (REAL (slot_weights ex)))"
  by (auto simp: init_weights_def nullOrEmpty_def Let_def split: if_splits)

lemma init_offset_fields:
  "init_offset ex d = Inr d' \<Longrightarrow>
     (if nullOrEmpty (slot_offset ex) then weights d' = None \<and> offset d' = offset d
      else weights d' = weights d \<and> offset d' = Some (REAL (slot_offset ex)))"
  by (auto simp: init_offset_def nullOrEmpty_def Let_def split: if_splits)

lemma initializeData_fields:
  assumes "initializeDataFromExpression d ex = Inr d'"
  shows "if nullOrEmpty (slot_offset ex) then weights d' = None \<and> offset d' = offset d
         else offset d' = Some (REAL (slot_offset ex))
              \<and> weights d' = (if nullOrEmpty (slot_weights ex) then None
                               else Some (REAL (slot_weights ex)))"
proof -
  from assms obtain d1 d2 d3 d4 d5 d6 d7 where
    s: "init_y ex d = Inr d1" "init_x ex d1 = Inr d2" "init_varTypes ex d2 = Inr d3"
       "init_x_test ex d3 = Inr d4" "init_weights ex d4 = Inr d5" "init_offset ex d5 = Inr d6"
       "init_sigma ex d6 = Inr d7" "init_n_cuts ex d7 = Inr d'"
    unfolding initializeDataFromExpression_def andThen_Inr by blast
  have a: "weights d4 = weights d \<and> offset d4 = offset d"
    using init_y_fields [OF s(1)] init_x_fields [OF s(2)] init_varTypes_fields [OF s(3)]
      init_x_test_fields [OF s(4)] by simp
  have b: "weights d' = weights d6 \<and> offset d' = offset d6"
    using init_sigma_fields [OF s(7)] init_n_cuts_fields [OF s(8)] by simp
  show ?thesis
    using a b init_weights_fields [OF s(5)] init_offset_fields [OF s(6)]
    by (simp split: if_splits)
qed

text \<open>
  Claim C9. When the data initializer returns, then: if the offset slot is null or empty, the
  weights field is NULL and the offset field keeps the value it had before the call (the
  branch writes NULL to weights, not to offset); if the weights slot is null or empty, the
  weights field is NULL; and if the offset slot is neither, the offset field holds the
  supplied offset.
\<close>

theorem initializeDataFromExpression_weights_and_offset:
  assumes "initializeDataFromExpression d ex = Inr d'"
  shows "(nullOrEmpty (slot_offset ex) \<longrightarrow> weights d' = None \<and> offset d' = offset d)
       \<and> (nullOrEmpty (slot_weights ex) \<longrightarrow> weights d' = None)
       \<and> (\<not> nullOrEmpty (slot_offset ex) \<longrightarrow> offset d' = Some (REAL (slot_offset ex)))"
  using initializeData_fields [OF assms] by (simp split: if_splits)

lemma dataExprW_result:
  "initializeDataFromExpression dataU dataExprW
     = Inr \<lparr>data_y = [0, 1, 4], data_X = [[1, 2, 3]], variableTypes = [ORDINAL], data_X_test = None,
            weights = None, offset = Some [9, 9, 9], testOffset = None,
            numObservations = 3, numPredictors = 1, numTestObservations = 0,
            sigmaEstimate = 1, maxNumCuts = Some [100]\<rparr>"
  by (simp add: initializeDataFromExpression_def andThen_def init_y_def init_x_def init_varTypes_def
      init_x_test_def init_weights_def init_offset_def init_sigma_def init_n_cuts_def
      dataExprW_def dataU_def matrixColumns_def ISNAN_def Let_def upt_small)

lemma dataExprO_result:
  "initializeDataFromExpression dataU dataExprO
     = Inr \<lparr>data_y = [0, 1, 4], data_X = [[1, 2, 3]], variableTypes = [ORDINAL], data_X_test = None,
            weights = None, offset = Some [1, 0, - 1], testOffset = None,
            numObservations = 3, numPredictors = 1, numTestObservations = 0,
            sigmaEstimate = 1, maxNumCuts = Some [100]\<rparr>"
  by (simp add: initializeDataFromExpression_def andThen_def init_y_def init_x_def init_varTypes_def
      init_x_test_def init_weights_def init_offset_def init_sigma_def init_n_cuts_def
      dataExprO_def dataExprW_def dataU_def matrixColumns_def ISNAN_def Let_def upt_small)

theorem initializeDataFromExpression_weights_and_offset_witness:
  "initializeDataFromExpression dataU dataExprW
     = Inr \<lparr>data_y = [0, 1, 4], data_X = [[1, 2, 3]], variableTypes = [ORDINAL], data_X_test = None,
            weights = None, offset = Some [9, 9, 9], testOffset = None,
            numObservations = 3, numPredictors = 1, numTestObservations = 0,
            sigmaEstimate = 1, maxNumCuts = Some [100]\<rparr>
   \<and> nullOrEmpty (slot_offset dataExprW) \<and> \<not> nullOrEmpty (slot_weights dataExprW)
   \<and> offset dataU = Some [9, 9, 9] \<and> weights dataU = Some [7]
   \<and> initializeDataFromExpression dataU dataExprO
     = Inr \<lparr>data_y = [0, 1, 4], data_X = [[1, 2, 3]], variableTypes = [ORDINAL], data_X_test = None,
            weights = None, offset = Some [1, 0, - 1], testOffset = None,
            numObservations = 3, numPredictors = 1, numTestObservations = 0,
            sigmaEstimate = 1, maxNumCuts = Some [100]\<rparr>
   \<and> \<not> nullOrEmpty (slot_offset dataExprO) \<and> nullOrEmpty (slot_weights dataExprO)
   \<and> REAL (slot_offset dataExprO) = [1, 0, - 1]"
  using initializeDataFromExpression_weights_and_offset [OF dataExprW_result]
    initializeDataFromExpression_weights_and_offset [OF dataExprO_result]
  by (simp add: dataExprW_result dataExprO_result)
    (simp add: dataExprO_def dataExprW_def dataU_def nullOrEmpty_def)

section \<open>Latent variables of a binary response\<close>

lemma sampleProbitLatentVariable_probitDraw:
  "sampleProbitLatentVariable rn fit fits i zr
     = ((fst zr)[i := fst (probitDraw rn fit fits i (snd zr))], snd (probitDraw rn fit fits i (snd zr)))"
  by (simp add: sampleProbitLatentVariable_def probitDraw_def probitBound_def Let_def)

lemma probit_prefix:
  assumes "k \<le> length z"
  shows "length (fst (fold (sampleProbitLatentVariable rn fit fits) [0..<k] (z, r0))) = length z
       \<and> (\<forall>i<k. \<exists>r. fst (fold (sampleProbitLatentVariable rn fit fits) [0..<k] (z, r0)) ! i
                        = fst (probitDraw rn fit fits i r))
       \<and> (\<forall>i. k \<le> i \<longrightarrow>
              fst (fold (sampleProbitLatentVariable rn fit fits) [0..<k] (z, r0)) ! i = z ! i)"
  using assms
proof (induction k)
  case 0
  show ?case by simp
next
  case (Suc k)
  let ?p = "fold (sampleProbitLatentVariable rn fit fits) [0..<k] (z, r0)"
  have ih: "length (fst ?p) = length z"
    "\<forall>i<k. \<exists>r. fst ?p ! i = fst (probitDraw rn fit fits i r)"
    "\<forall>i. k \<le> i \<longrightarrow> fst ?p ! i = z ! i"
    using Suc by simp_all
  have step: "fold (sampleProbitLatentVariable rn fit fits) [0..<Suc k] (z, r0)
      = ((fst ?p)[k := fst (probitDraw rn fit fits k (snd ?p))], snd (probitDraw rn fit fits k (snd ?p)))"
    by (simp add: sampleProbitLatentVariable_probitDraw)
  have k: "k < length (fst ?p)" using Suc.prems ih(1) by simp
  show ?case
    unfolding step
  proof (intro conjI allI impI)
    show "length (fst ((fst ?p)[k := fst (probitDraw rn fit fits k (snd ?p))],
                       snd (probitDraw rn fit fits k (snd ?p)))) = length z"
      using ih(1) by simp
  next
    fix i assume "i < Suc k"
    then consider "i < k" | "i = k" by linarith
    then show "\<exists>r. fst ((fst ?p)[k := fst (probitDraw rn fit fits k (snd ?p))],
                         snd (probitDraw rn fit fits k (snd ?p))) ! i
                    = fst (probitDraw rn fit fits i r)"
    proof cases
      case 1
      then show ?thesis using ih(2) by simp
    next
      case 2
      then show ?thesis using k by auto
    qed
  next
    fix i assume "Suc k \<le> i"
    then show "fst ((fst ?p)[k := fst (probitDraw rn fit fits k (snd ?p))],
                    snd (probitDraw rn fit fits k (snd ?p))) ! i = z ! i"
      using ih(3) by simp
  qed
qed


lemma resampleLatents_nth:
  assumes "numObservations (data fit) \<le> length (yRescaled (scratch fit))"
    and "i < numObservations (data fit)"
  shows "\<exists>r. yRescaled (scratch (resampleLatents rn fit)) ! i
              = fst (probitDraw rn fit (totalFits (state fit)) i r)"
  using probit_prefix [OF assms(1), of rn fit "totalFits (state fit)" "rng fit"] assms(2)
  by (simp add: resampleLatents_def sampleProbitLatentVariables_def Let_def)

text \<open>
  Claim C7. A latent resampling of a binary-response fit sets, for every observation \<open>i\<close>,
  \<open>z[i]\<close> to a draw of the unit-scale truncated normal sampler with mean \<open>totalFits[i]\<close>: the
  lower-truncated sampler if \<open>y[i] > 0\<close>, the upper-truncated one otherwise. The truncation
  point is the negated offset of the observation, which is 0 when there is no offset. For
  samplers that respect their bound, \<open>z[i]\<close> lies at or above the truncation point when
  \<open>y[i] > 0\<close> and at or below it otherwise.
\<close>

theorem resampleLatents_truncated_draws:
  assumes "numObservations (data fit) \<le> length (yRescaled (scratch fit))"
    and "i < numObservations (data fit)"
  shows "(\<exists>r. yRescaled (scratch (resampleLatents rn fit)) ! i
              = fst (if data_y (data fit) ! i > 0
                     then ext_rng_simulateLowerTruncatedNormalScale1 rn r
                            (totalFits (state fit) ! i) (probitBound fit i)
                     else ext_rng_simulateUpperTruncatedNormalScale1 rn r
                            (totalFits (state fit) ! i) (probitBound fit i)))
       \<and> probitBound fit i = - (case offset (data fit) of None \<Rightarrow> 0 | Some off \<Rightarrow> off ! i)
       \<and> (offset (data fit) = None \<longrightarrow> probitBound fit i = 0)
       \<and> ((\<forall>r m b. b \<le> fst (ext_rng_simulateLowerTruncatedNormalScale1 rn r m b))
            \<and> (\<forall>r m b. fst (ext_rng_simulateUpperTruncatedNormalScale1 rn r m b) \<le> b)
            \<longrightarrow> (if data_y (data fit) ! i > 0
                 then probitBound fit i \<le> yRescaled (scratch (resampleLatents rn fit)) ! i
                 else yRescaled (scratch (resampleLatents rn fit)) ! i \<le> probitBound fit i))"
proof -
  obtain r where r: "yRescaled (scratch (resampleLatents rn fit)) ! i
              = fst (probitDraw rn fit (totalFits (state fit)) i r)"
    using resampleLatents_nth [OF assms] by blast
  have 1: "\<exists>r. yRescaled (scratch (resampleLatents rn fit)) ! i
              = fst (if data_y (data fit) ! i > 0
                     then ext_rng_simulateLowerTruncatedNormalScale1 rn r
                            (totalFits (state fit) ! i) (probitBound fit i)
                     else ext_rng_simulateUpperTruncatedNormalScale1 rn r
                            (totalFits (state fit) ! i) (probitBound fit i))"
    using r by (auto simp add: probitDraw_def)
  have 2: "probitBound fit i = - (case offset (data fit) of None \<Rightarrow> 0 | Some off \<Rightarrow> off ! i)"
    by (simp add: probitBound_def)
  have 3: "offset (data fit) = None \<longrightarrow> probitBound fit i = 0"
    by (simp add: probitBound_def)
  have 4: "(\<forall>r m b. b \<le> fst (ext_rng_simulateLowerTruncatedNormalScale1 rn r m b))
            \<and> (\<forall>r m b. fst (ext_rng_simulateUpperTruncatedNormalScale1 rn r m b) \<le> b)
            \<longrightarrow> (if data_y (data fit) ! i > 0
                 then probitBound fit i \<le> yRescaled (scratch (resampleLatents rn fit)) ! i
                 else yRescaled (scratch (resampleLatents rn fit)) ! i \<le> probitBound fit i)"
    unfolding r by (simp add: probitDraw_def)
  show ?thesis using 1 2 3 4 by blast
qed

lemma fitB_resampleLatents:
  "yRescaled (scratch (resampleLatents random_ref fitB)) = [0, 0, 1 / 3]"
  "yRescaled (scratch (resampleLatents random_ref fitBo)) = [- 1, 0, 1]"
  by (simp_all add: resampleLatents_def sampleProbitLatentVariables_def
      sampleProbitLatentVariable_def fitBo_def fitB_def fitQ_def random_ref_def Let_def upt3)

theorem resampleLatents_truncated_draws_witness:
  "numObservations (data fitB) \<le> length (yRescaled (scratch fitB))
   \<and> (0 :: nat) < numObservations (data fitB) \<and> 2 < numObservations (data fitB)
   \<and> offset (data fitB) = None
   \<and> (\<forall>r m b. b \<le> fst (ext_rng_simulateLowerTruncatedNormalScale1 random_ref r m b))
   \<and> (\<forall>r m b. fst (ext_rng_simulateUpperTruncatedNormalScale1 random_ref r m b) \<le> b)
   \<and> data_y (data fitB) = [0, 1, 1] \<and> totalFits (state fitB) = [1 / 2, - 1 / 4, 1 / 3]
   \<and> probitBound fitB 0 = 0 \<and> probitBound fitB 2 = 0
   \<and> yRescaled (scratch (resampleLatents random_ref fitB)) ! 0 \<le> 0
   \<and> 0 \<le> yRescaled (scratch (resampleLatents random_ref fitB)) ! 2
   \<and> yRescaled (scratch (resampleLatents random_ref fitB)) = [0, 0, 1 / 3]
   \<and> offset (data fitBo) = Some [1, 0, - 1]
   \<and> probitBound fitBo 0 = - 1 \<and> probitBound fitBo 2 = 1
   \<and> yRescaled (scratch (resampleLatents random_ref fitBo)) = [- 1, 0, 1]"
proof -
  have n: "numObservations (data fitB) \<le> length (yRescaled (scratch fitB))"
    "(0 :: nat) < numObservations (data fitB)" "2 < numObservations (data fitB)"
    by (simp_all add: fitB_def fitQ_def)
  have sup: "\<forall>r m b. b \<le> fst (ext_rng_simulateLowerTruncatedNormalScale1 random_ref r m b)"
    "\<forall>r m b. fst (ext_rng_simulateUpperTruncatedNormalScale1 random_ref r m b) \<le> b"
    by (simp_all add: random_ref_def)
  have d: "data_y (data fitB) = [0, 1, 1]" "totalFits (state fitB) = [1 / 2, - 1 / 4, 1 / 3]"
    "offset (data fitB) = None" "offset (data fitBo) = Some [1, 0, - 1]"
    by (simp_all add: fitBo_def fitB_def fitQ_def)
  have b: "probitBound fitBo 0 = - 1" "probitBound fitBo 2 = 1"
    by (simp_all add: probitBound_def d)
  show ?thesis
    using resampleLatents_truncated_draws [OF n(1) n(2), of random_ref]
      resampleLatents_truncated_draws [OF n(1) n(3), of random_ref]
    by (simp add: n sup d b fitB_resampleLatents)
qed

end
